theory Spec2Isabelle
  imports Complex_Main
begin

section \<open>ctapipe.io.simteleventsource: data model\<close>

text \<open>
  The module \<^verbatim>\<open>ctapipe/io/simteleventsource.py\<close> is embedded function by function.
  Python exceptions are values of \<open>py_error\<close>; a function that can raise returns
  \<open>py_error + 'a\<close> (\<open>Inl\<close> the exception), and a method that mutates an object before
  it raises returns the object together with \<open>py_error option\<close>.
\<close>

datatype py_error = EOFError | IOError | RuntimeError | KeyError | IndexError | ValueError

subsection \<open>numpy arrays\<close>

text \<open>
  An \<open>ndarray\<close> is its shape and its elements by index. An element is the value that
  the array holds at an index, as a real number: an ADC count (\<^verbatim>\<open>uint16\<close>) or a finite
  floating point number (\<^verbatim>\<open>float32\<close>) is the real number that it denotes, and the
  conversion of an ADC count to floating point keeps its value. Only the elements
  inside the shape are meaningful, so two arrays are compared by shape and by elements
  inside the shape.
\<close>

record nd3 =
  shape3 :: "nat \<times> nat \<times> nat"
  el3 :: "nat \<Rightarrow> nat \<Rightarrow> nat \<Rightarrow> real"

record nd2 =
  shape2 :: "nat \<times> nat"
  el2 :: "nat \<Rightarrow> nat \<Rightarrow> real"

text \<open>
  The arithmetic of numpy on the elements of floating point arrays is not the arithmetic
  of the real numbers: every operation rounds its result to the element type of the
  arrays. The module imports numpy and does not define it, so its arithmetic is a
  parameter of the embedding: \<^verbatim>\<open>np.subtract\<close> (the operator \<^verbatim>\<open>-\<close>), \<^verbatim>\<open>np.multiply\<close>
  (the operator \<^verbatim>\<open>*\<close>) and \<^verbatim>\<open>np.true_divide\<close> of an element by a Python integer (the
  operator \<^verbatim>\<open>/\<close> of an array and an \<^verbatim>\<open>int\<close>), each on one pair of operands. Nothing is
  assumed of the three operations: what is proved for every arithmetic holds for the
  rounding arithmetic of \<^verbatim>\<open>float32\<close> and of \<^verbatim>\<open>float64\<close>, and fixes the order in which the
  operations are applied.
\<close>

record arithmetic =
  np_subtract :: "real \<Rightarrow> real \<Rightarrow> real"
  np_multiply :: "real \<Rightarrow> real \<Rightarrow> real"
  np_true_divide :: "real \<Rightarrow> nat \<Rightarrow> real"

text \<open>numpy broadcasting of one axis: equal sizes, or one of them is 1.\<close>

definition broadcast_dim :: "nat \<Rightarrow> nat \<Rightarrow> nat option" where
  "broadcast_dim a b =
     (if a = b then Some a else if a = 1 then Some b else if b = 1 then Some a else None)"

text \<open>The index read on an axis of size \<open>d\<close> that is broadcast: an axis of size 1 repeats.\<close>

definition bidx :: "nat \<Rightarrow> nat \<Rightarrow> nat" where
  "bidx d i = (if d = 1 then 0 else i)"

definition broadcast_shape3 :: "nat \<times> nat \<times> nat \<Rightarrow> nat \<times> nat \<times> nat \<Rightarrow> (nat \<times> nat \<times> nat) option" where
  "broadcast_shape3 s t =
     (case (s, t) of ((a, b, c), (a', b', c')) \<Rightarrow>
        (case (broadcast_dim a a', broadcast_dim b b', broadcast_dim c c') of
           (Some x, Some y, Some z) \<Rightarrow> Some (x, y, z)
         | _ \<Rightarrow> None))"

text \<open>An element-wise binary operator on two 3-d arrays; shapes that do not broadcast
  raise \<^verbatim>\<open>ValueError\<close> (operands could not be broadcast together).\<close>

definition elementwise3 :: "(real \<Rightarrow> real \<Rightarrow> real) \<Rightarrow> nd3 \<Rightarrow> nd3 \<Rightarrow> py_error + nd3" where
  "elementwise3 f x y =
     (case broadcast_shape3 (shape3 x) (shape3 y) of
        None \<Rightarrow> Inl ValueError
      | Some s \<Rightarrow>
          (case (shape3 x, shape3 y) of ((a, b, c), (a', b', c')) \<Rightarrow>
             Inr \<lparr>shape3 = s,
                  el3 = (\<lambda>i j k. f (el3 x (bidx a i) (bidx b j) (bidx c k))
                                    (el3 y (bidx a' i) (bidx b' j) (bidx c' k)))\<rparr>))"

text \<open>\<^verbatim>\<open>a[..., np.newaxis]\<close> for a 2-d array: a last axis of size 1 is added.\<close>

definition newaxis :: "nd2 \<Rightarrow> nd3" where
  "newaxis a = (case shape2 a of (n, m) \<Rightarrow> \<lparr>shape3 = (n, m, 1), el3 = (\<lambda>i j k. el2 a i j)\<rparr>)"

text \<open>\<^verbatim>\<open>a / n\<close> for an integer \<open>n\<close>: true division of every element. For \<open>n = 0\<close> numpy
  gives inf or nan and warns; the only caller divides by the sample count, and then the
  quotient is broadcast against an array with no samples, so no such element is read.\<close>

definition div_scalar3 :: "arithmetic \<Rightarrow> nd3 \<Rightarrow> nat \<Rightarrow> nd3" where
  "div_scalar3 ar a n = a\<lparr>el3 := (\<lambda>i j k. np_true_divide ar (el3 a i j k) n)\<rparr>"

text \<open>\<^verbatim>\<open>a[0]\<close> for a 3-d array: \<^verbatim>\<open>IndexError\<close> when the first axis is empty.\<close>

definition index0 :: "nd3 \<Rightarrow> py_error + nd2" where
  "index0 a =
     (case shape3 a of (c, p, s) \<Rightarrow>
        if c = 0 then Inl IndexError else Inr \<lparr>shape2 = (p, s), el2 = (\<lambda>i j. el3 a 0 i j)\<rparr>)"

text \<open>An integer index on an axis of size \<open>n\<close>: negative indices count from the end,
  anything outside \<open>[-n, n)\<close> is out of bounds.\<close>

definition norm_index :: "nat \<Rightarrow> int \<Rightarrow> nat option" where
  "norm_index n i =
     (if 0 \<le> i \<and> i < int n then Some (nat i)
      else if - int n \<le> i \<and> i < 0 then Some (nat (i + int n))
      else None)"

text \<open>
  \<^verbatim>\<open>a[sel, np.arange(n)]\<close> for a 3-d array \<open>a\<close> and a 1-d integer array \<open>sel\<close>: the two
  index arrays are broadcast to a common length \<open>l\<close> (\<^verbatim>\<open>IndexError\<close> when they cannot
  be), every index pair is checked against the first two axes (\<^verbatim>\<open>IndexError\<close> when
  out of bounds), and row \<open>i\<close> of the result is \<open>a[sel[i], i, :]\<close>.
\<close>

definition fancy_index :: "nd3 \<Rightarrow> int list \<Rightarrow> nat \<Rightarrow> py_error + nd2" where
  "fancy_index a sel n =
     (case shape3 a of (c, p, s) \<Rightarrow>
        (case broadcast_dim (length sel) n of
           None \<Rightarrow> Inl IndexError
         | Some l \<Rightarrow>
             if \<forall>i \<in> set [0..<l]. norm_index c (sel ! bidx (length sel) i) \<noteq> None \<and> bidx n i < p
             then Inr \<lparr>shape2 = (l, s),
                       el2 = (\<lambda>i k. el3 a (the (norm_index c (sel ! bidx (length sel) i))) (bidx n i) k)\<rparr>
             else Inl IndexError))"

subsection \<open>apply_simtel_r1_calibration\<close>

text \<open>
  The gain selector is a callable supplied by the caller (its class is not part of this
  module): a function from the raw waveforms to the channel chosen for each pixel, which
  may raise.
\<close>

type_synonym gain_selector = "nd3 \<Rightarrow> py_error + int list"

text \<open>Lines 100 to 102: the pedestal divided by the sample count, subtracted from the raw
  samples, the difference multiplied by the conversion factor; all gain channels, in
  the arithmetic \<open>ar\<close> of the arrays.\<close>

definition all_channel_r1_waveforms ::
  "arithmetic \<Rightarrow> nd3 \<Rightarrow> nd2 \<Rightarrow> nd2 \<Rightarrow> py_error + nd3" where
  "all_channel_r1_waveforms ar r0_waveforms pedestal dc_to_pe =
     (case shape3 r0_waveforms of (n_channels, n_pixels, n_samples) \<Rightarrow>
        (let ped = div_scalar3 ar (newaxis pedestal) n_samples;
             gain = newaxis dc_to_pe
         in case elementwise3 (np_subtract ar) r0_waveforms ped of
              Inl e \<Rightarrow> Inl e
            | Inr d \<Rightarrow> elementwise3 (np_multiply ar) d gain))"

text \<open>
  The function returns the list of arguments with which it called the gain selector
  (the first component) beside its result or exception (the second component).
\<close>

definition apply_simtel_r1_calibration ::
  "arithmetic \<Rightarrow> nd3 \<Rightarrow> nd2 \<Rightarrow> nd2 \<Rightarrow> gain_selector \<Rightarrow> nd3 list \<times> (py_error + nd2 \<times> int list)" where
  "apply_simtel_r1_calibration ar r0_waveforms pedestal dc_to_pe gain_selector =
     (case shape3 r0_waveforms of (n_channels, n_pixels, n_samples) \<Rightarrow>
        (case all_channel_r1_waveforms ar r0_waveforms pedestal dc_to_pe of
           Inl e \<Rightarrow> ([], Inl e)
         | Inr r1_waveforms \<Rightarrow>
             if n_channels = 1 then
               (case index0 r1_waveforms of
                  Inl e \<Rightarrow> ([], Inl e)
                | Inr w \<Rightarrow> ([], Inr (w, replicate n_pixels 0)))
             else
               (case gain_selector r0_waveforms of
                  Inl e \<Rightarrow> ([r0_waveforms], Inl e)
                | Inr selected_gain_channel \<Rightarrow>
                    (case fancy_index r1_waveforms selected_gain_channel n_pixels of
                       Inl e \<Rightarrow> ([r0_waveforms], Inl e)
                     | Inr w \<Rightarrow> ([r0_waveforms], Inr (w, selected_gain_channel))))))"


subsection \<open>The decoded file (eventio's SimTelFile, an external collaborator)\<close>

text \<open>
  What this module reads from the decoder: the file handle's kind, the run header, the
  telescope description table, the run header blocks of the simulation, and the event
  records. Dictionaries whose keys the decoder always provides are records; optional
  keys are \<open>option\<close> fields; dictionaries keyed by telescope id are maps, or
  association lists where the module iterates over them.
\<close>

text \<open>A Python float that the module tests with \<^verbatim>\<open>np.isnan\<close>.\<close>

datatype pyfloat = NaN | Float real

definition isnan :: "pyfloat \<Rightarrow> bool" where
  "isnan x = (x = NaN)"

record camera_settings =
  n_pixels :: nat
  focal_length :: real
  effective_focal_length :: "real option"
  pixel_shape :: "int list"
  pixel_x :: "real list"
  pixel_y :: "real list"
  pixel_area :: "real list"
  cam_rot :: real
  mirror_area :: real
  n_mirrors :: nat

record pixel_settings =
  time_slice :: real
  ref_shape :: "real list list"
  ref_step :: real

record telescope_description =
  camera_settings :: camera_settings
  pixel_settings :: pixel_settings

record simtel_header =
  header_run :: int
  header_tel_id :: "int list"
  header_tel_pos :: "real list list"
  header_direction :: "real list"

text \<open>A run header block of the simulation. \<^verbatim>\<open>fill_mc_information\<close> copies some
  thirty-five of its keys one by one; the block is kept whole here, with a few of them.\<close>

record mc_run_head =
  shower_prog_vers :: int
  detector_prog_vers :: int
  E_range :: "real \<times> real"
  spectral_index :: real
  n_showers :: int
  n_use :: int

record pixel_list_entry =
  pixels :: int
  pixel_list :: "int list"

record telescope_event =
  adc_samples :: "nd3 option"
  adc_sums :: "nd2 option"
  pixel_lists :: "int \<Rightarrow> pixel_list_entry option"

record tracking_position =
  azimuth_raw :: pyfloat
  altitude_raw :: pyfloat
  azimuth_cor :: "pyfloat option"
  altitude_cor :: "pyfloat option"

record trigger_information =
  triggered_telescopes :: "int list"
  gps_time :: "int \<times> int"

record mc_shower =
  energy :: real
  altitude :: real
  azimuth :: real
  h_first_int :: real
  xmax :: real
  primary_id :: int

record mc_event =
  xcore :: real
  ycore :: real

text \<open>
  One raw event record. \<open>photoelectrons\<close> is keyed by the telescope's index in the
  header; \<open>None\<close> stands for any of the three keys of the lookup chain being absent.
\<close>

record array_event =
  ev_type :: string
  ev_event_id :: "int option"
  telescope_events :: "(int \<times> telescope_event) list"
  trigger_information :: trigger_information
  tracking_positions :: "int \<Rightarrow> tracking_position option"
  laser_calibrations :: "int \<Rightarrow> nd2 option"
  camera_monitorings :: "int \<Rightarrow> nd2 option"
  photoelectrons :: "nat \<Rightarrow> real list option"
  mc_event :: "mc_event option"
  mc_shower :: "mc_shower option"

datatype filehandle = BufferedReader | GzipFile | OtherHandle

text \<open>
  The open file. \<open>file_records\<close> are the complete event records that iterating over
  it produces, in order (the decoder applies its own filters, such as skipping
  calibration events, before this module sees a record); \<open>truncated\<close> says that the
  file ends in the middle of a further record, so that reading past the last complete
  one raises \<^verbatim>\<open>EOFError\<close> instead of stopping.
  \<open>position\<close> is the cursor, counted in event records read since the start of the
  events; \<^verbatim>\<open>tell()\<close> is the cursor.
\<close>

record simtel_file =
  filehandle :: filehandle
  header :: simtel_header
  telescope_descriptions :: "(int \<times> telescope_description) list"
  mc_run_headers :: "mc_run_head list"
  file_records :: "array_event list"
  truncated :: bool
  position :: nat

definition tell :: "simtel_file \<Rightarrow> nat" where
  "tell f = position f"

subsection \<open>The instrument model\<close>

text \<open>The result of \<^verbatim>\<open>guess_telescope\<close> (a named tuple of another module).\<close>

record guessing_result =
  tel_type :: string
  tel_name :: string
  camera_name :: string
  tel_n_mirrors :: int

text \<open>The objects built from a description are the records of their constructors'
  arguments: the constructors belong to \<^verbatim>\<open>ctapipe.instrument\<close>.\<close>

record camera_geometry =
  geometry_camera_name :: string
  pix_id :: "nat list"
  pix_x :: "real list"
  pix_y :: "real list"
  pix_area :: "real list"
  pix_type :: string
  pix_rotation :: string
  cam_rotation :: real
  apply_derotation :: bool

record camera_readout =
  readout_camera_name :: string
  sampling_rate :: real
  reference_pulse_shape :: "real list list"
  reference_pulse_sample_width :: real

record camera_description =
  description_camera_name :: string
  geometry :: camera_geometry
  readout :: camera_readout

record optics_description =
  optics_name :: string
  num_mirrors :: int
  equivalent_focal_length :: real
  optics_mirror_area :: real
  num_mirror_tiles :: nat

text \<open>A camera is an object: a telescope description holds a reference to it, the
  address of the camera in the store of camera objects.\<close>

type_synonym camera_ref = nat

record telescope_desc =
  desc_name :: string
  desc_tel_type :: string
  optics :: optics_description
  camera :: camera_ref

record subarray_description =
  subarray_name :: string
  tel_positions :: "int \<Rightarrow> real list option"
  tel_descriptions :: "int \<Rightarrow> telescope_desc option"

datatype warning =
  UnknownPixelShapeWarning int string
  | BackseekingWarning
  | TruncatedWarning string

datatype focal_length_choice = nominal | effective

record config =
  input_url :: string
  max_events :: "int option"
  allowed_tels :: "int set"
  skip_calibration_events :: bool
  back_seekable :: bool
  focal_length_choice :: focal_length_choice

text \<open>
  What the module imports and calls but does not define: the telescope lookup table
  (\<open>None\<close> is its \<^verbatim>\<open>ValueError\<close>), the pixel shape table (likewise), the default gain
  selector, and the decoder's constructor, which receives the path, the allowed
  telescopes, \<^verbatim>\<open>skip_calibration\<close> and \<^verbatim>\<open>zcat\<close>.
\<close>

record externals =
  guess_telescope :: "nat \<Rightarrow> real \<Rightarrow> guessing_result option"
  UNKNOWN_TELESCOPE :: guessing_result
  simtel_shape_to_type :: "int \<Rightarrow> (string \<times> string) option"
  ThresholdGainSelector :: gain_selector
  SimTelFile :: "string \<Rightarrow> int set option \<Rightarrow> bool \<Rightarrow> bool \<Rightarrow> py_error + simtel_file"

subsection \<open>build_camera\<close>

text \<open>Returns the camera and the warnings it emitted. The only statement that can
  raise on a well-typed description is \<^verbatim>\<open>cam_settings["pixel_shape"][0]\<close>. The
  sampling rate is the real quotient; numpy's inf for a time slice of zero is not
  modelled.\<close>

definition build_camera ::
  "externals \<Rightarrow> camera_settings \<Rightarrow> pixel_settings \<Rightarrow> guessing_result \<Rightarrow>
     py_error + camera_description \<times> warning list" where
  "build_camera ext cam_settings pix_settings telescope =
     (case pixel_shape cam_settings of
        [] \<Rightarrow> Inl IndexError
      | shape0 # _ \<Rightarrow>
          (let (ptype, protation, warns) =
                 (case simtel_shape_to_type ext shape0 of
                    Some (t, r) \<Rightarrow> (t, r, [])
                  | None \<Rightarrow> (''hexagon'', ''0d'',
                      [UnknownPixelShapeWarning shape0 (camera_name telescope)]));
               geom = \<lparr>geometry_camera_name = camera_name telescope,
                       pix_id = [0..<n_pixels cam_settings],
                       pix_x = pixel_x cam_settings,
                       pix_y = pixel_y cam_settings,
                       pix_area = pixel_area cam_settings,
                       pix_type = ptype,
                       pix_rotation = protation,
                       cam_rotation = - cam_rot cam_settings,
                       apply_derotation = True\<rparr>;
               rdout = \<lparr>readout_camera_name = camera_name telescope,
                        sampling_rate = 1 / time_slice pix_settings,
                        reference_pulse_shape = ref_shape pix_settings,
                        reference_pulse_sample_width = ref_step pix_settings\<rparr>
           in Inr (\<lparr>description_camera_name = camera_name telescope,
                     geometry = geom, readout = rdout\<rparr>, warns)))"

subsection \<open>SimTelEventSource.prepare_subarray_info\<close>

text \<open>
  The state the method works on: of the source object, the camera cache (camera type name
  to camera object), the store of camera objects (a camera's address is its index) and
  the warnings emitted so far; of the method's locals, the two dictionaries it fills.
\<close>

record builder =
  camera_cache :: "string \<Rightarrow> camera_ref option"
  cameras :: "camera_description list"
  warnings :: "warning list"
  b_tel_descriptions :: "int \<Rightarrow> telescope_desc option"
  b_tel_positions :: "int \<Rightarrow> real list option"

text \<open>The first index of a value in a list (\<^verbatim>\<open>np.where(a == v)[0][0]\<close>,
  \<^verbatim>\<open>list.index\<close>); \<open>None\<close> when it does not occur.\<close>

fun first_index :: "'a list \<Rightarrow> 'a \<Rightarrow> nat option" where
  "first_index [] v = None"
| "first_index (x # xs) v = (if x = v then Some 0 else map_option Suc (first_index xs v))"

text \<open>Lines 220 to 232: the nominal focal length, or the effective one when the
  configuration asks for it; the description may lack the effective one.\<close>

definition chosen_focal_length :: "focal_length_choice \<Rightarrow> camera_settings \<Rightarrow> py_error + real" where
  "chosen_focal_length choice cam_settings =
     (if choice = effective
      then (case effective_focal_length cam_settings of
              None \<Rightarrow> Inl RuntimeError
            | Some f \<Rightarrow> Inr f)
      else Inr (focal_length cam_settings))"

text \<open>Lines 234 to 237: the telescope of the lookup table, or the unknown telescope.\<close>

definition guess_or_unknown :: "externals \<Rightarrow> nat \<Rightarrow> real \<Rightarrow> guessing_result" where
  "guess_or_unknown ext npix flen =
     (case guess_telescope ext npix flen of
        None \<Rightarrow> UNKNOWN_TELESCOPE ext
      | Some t \<Rightarrow> t)"

text \<open>Lines 239 to 242: the camera cached under the camera type name; on a miss the
  camera is built, stored as a new object and entered into the cache.\<close>

definition cached_camera ::
  "externals \<Rightarrow> camera_settings \<Rightarrow> pixel_settings \<Rightarrow> guessing_result \<Rightarrow> builder \<Rightarrow>
     py_error + camera_ref \<times> builder" where
  "cached_camera ext cam_settings pix_settings telescope b =
     (case camera_cache b (camera_name telescope) of
        Some cam \<Rightarrow> Inr (cam, b)
      | None \<Rightarrow>
          (case build_camera ext cam_settings pix_settings telescope of
             Inl e \<Rightarrow> Inl e
           | Inr (obj, warns) \<Rightarrow>
               Inr (length (cameras b),
                    b\<lparr>cameras := cameras b @ [obj],
                      warnings := warnings b @ warns,
                      camera_cache := (camera_cache b)(camera_name telescope \<mapsto> length (cameras b))\<rparr>)))"

text \<open>Lines 259 and 260: the position of the telescope, by its first index in the
  header's list of telescope ids.\<close>

definition header_position :: "simtel_header \<Rightarrow> int \<Rightarrow> py_error + real list" where
  "header_position hdr tid =
     (case first_index (header_tel_id hdr) tid of
        None \<Rightarrow> Inl IndexError
      | Some tel_idx \<Rightarrow>
          if tel_idx < length (header_tel_pos hdr) then Inr (header_tel_pos hdr ! tel_idx)
          else Inl IndexError)"

text \<open>The body of the loop over the telescope descriptions (lines 216 to 260). The
  state is returned as it is when an exception is raised.\<close>

definition describe_telescope ::
  "externals \<Rightarrow> focal_length_choice \<Rightarrow> simtel_header \<Rightarrow> int \<Rightarrow> telescope_description \<Rightarrow>
     builder \<Rightarrow> builder \<times> py_error option" where
  "describe_telescope ext choice hdr tid td b =
     (case chosen_focal_length choice (camera_settings td) of
        Inl e \<Rightarrow> (b, Some e)
      | Inr flen \<Rightarrow>
          (case cached_camera ext (camera_settings td) (pixel_settings td)
                  (guess_or_unknown ext (n_pixels (camera_settings td)) flen) b of
             Inl e \<Rightarrow> (b, Some e)
           | Inr (cam, b1) \<Rightarrow>
               (let telescope = guess_or_unknown ext (n_pixels (camera_settings td)) flen;
                    b2 = b1\<lparr>b_tel_descriptions := (b_tel_descriptions b1)(tid \<mapsto>
                              \<lparr>desc_name = tel_name telescope,
                               desc_tel_type = tel_type telescope,
                               optics = \<lparr>optics_name = tel_name telescope,
                                         num_mirrors = tel_n_mirrors telescope,
                                         equivalent_focal_length = flen,
                                         optics_mirror_area = mirror_area (camera_settings td),
                                         num_mirror_tiles = n_mirrors (camera_settings td)\<rparr>,
                               camera = cam\<rparr>)\<rparr>
                in case header_position hdr tid of
                     Inl e \<Rightarrow> (b2, Some e)
                   | Inr pos \<Rightarrow>
                       (b2\<lparr>b_tel_positions := (b_tel_positions b2)(tid \<mapsto> pos)\<rparr>, None))))"

fun describe_telescopes ::
  "externals \<Rightarrow> focal_length_choice \<Rightarrow> simtel_header \<Rightarrow> (int \<times> telescope_description) list \<Rightarrow>
     builder \<Rightarrow> builder \<times> py_error option" where
  "describe_telescopes ext choice hdr [] b = (b, None)"
| "describe_telescopes ext choice hdr ((tid, td) # tds) b =
     (case describe_telescope ext choice hdr tid td b of
        (b', Some e) \<Rightarrow> (b', Some e)
      | (b', None) \<Rightarrow> describe_telescopes ext choice hdr tds b')"

text \<open>
  The method, given the source's camera cache, camera store and warnings (the first
  three fields of \<open>self\<close>; the two dictionaries are created empty). It returns them
  updated, with the subarray or the exception.
\<close>

text \<open>The source's camera cache, camera store and warnings as the constructor creates
  them (line 158).\<close>

definition new_builder :: builder where
  "new_builder = \<lparr>camera_cache = Map.empty, cameras = [], warnings = [],
     b_tel_descriptions = Map.empty, b_tel_positions = Map.empty\<rparr>"

definition prepare_subarray_info ::
  "externals \<Rightarrow> focal_length_choice \<Rightarrow> builder \<Rightarrow> (int \<times> telescope_description) list \<Rightarrow>
     simtel_header \<Rightarrow> builder \<times> (py_error + subarray_description)" where
  "prepare_subarray_info ext choice self tds hdr =
     (case describe_telescopes ext choice hdr tds
             (self\<lparr>b_tel_descriptions := Map.empty, b_tel_positions := Map.empty\<rparr>) of
        (b, Some e) \<Rightarrow> (b, Inl e)
      | (b, None) \<Rightarrow>
          (b, Inr \<lparr>subarray_name = ''MonteCarloArray'',
                   tel_positions = b_tel_positions b,
                   tel_descriptions = b_tel_descriptions b\<rparr>))"

subsection \<open>SimTelEventSource.__init__\<close>

record source =
  src_config :: config
  src_file :: simtel_file
  src_camera_cache :: "string \<Rightarrow> camera_ref option"
  src_cameras :: "camera_description list"
  subarray_info :: subarray_description
  start_pos :: nat
  src_gain_selector :: gain_selector

text \<open>The property \<^verbatim>\<open>is_stream\<close>, of the source's file.\<close>

definition is_stream :: "simtel_file \<Rightarrow> bool" where
  "is_stream f = (\<not> (filehandle f = BufferedReader \<or> filehandle f = GzipFile))"

text \<open>
  The constructor, from the resolved configuration and the \<^verbatim>\<open>gain_selector\<close> argument
  (\<open>None\<close> is Python's \<^verbatim>\<open>None\<close>). It returns the warnings emitted and the source object,
  or the exception that ended the construction. The base class constructor, which
  resolves the configuration, and the metadata entry \<^verbatim>\<open>is_simulation\<close> are left out.
\<close>

definition SimTelEventSource_init ::
  "externals \<Rightarrow> config \<Rightarrow> gain_selector option \<Rightarrow> warning list \<times> (py_error + source)" where
  "SimTelEventSource_init ext cfg gain_sel =
     (case SimTelFile ext (input_url cfg)
             (if allowed_tels cfg \<noteq> {} then Some (allowed_tels cfg) else None)
             (skip_calibration_events cfg)
             (\<not> back_seekable cfg) of
        Inl e \<Rightarrow> ([], Inl e)
      | Inr f \<Rightarrow>
          if back_seekable cfg \<and> is_stream f then ([], Inl IOError)
          else
            (case prepare_subarray_info ext (focal_length_choice cfg) new_builder
                    (telescope_descriptions f) (header f) of
               (b, Inl e) \<Rightarrow> (warnings b, Inl e)
             | (b, Inr sub) \<Rightarrow>
                 (warnings b,
                  Inr \<lparr>src_config = cfg,
                       src_file = f,
                       src_camera_cache = camera_cache b,
                       src_cameras = cameras b,
                       subarray_info = sub,
                       start_pos = tell f,
                       src_gain_selector =
                         (case gain_sel of None \<Rightarrow> ThresholdGainSelector ext | Some g \<Rightarrow> g)\<rparr>)))"

subsection \<open>The event container\<close>

text \<open>
  The containers are classes of \<^verbatim>\<open>ctapipe.containers\<close>. A per-telescope container
  is created with every field at its default when a telescope id is first looked up;
  \<open>None\<close> is a field still at its default. The nested containers of the event
  (\<^verbatim>\<open>data.r0.tels_with_data\<close>) are flattened into one record (\<open>r0_tels_with_data\<close>).
\<close>

record mc_camera =
  mc_dc_to_pe :: "nd2 option"
  mc_pedestal :: "nd2 option"
  photo_electron_image :: "real list option"
  mc_azimuth_raw :: "pyfloat option"
  mc_altitude_raw :: "pyfloat option"
  mc_azimuth_cor :: "pyfloat option"
  mc_altitude_cor :: "pyfloat option"

definition new_mc_camera :: mc_camera where
  "new_mc_camera = \<lparr>mc_dc_to_pe = None, mc_pedestal = None, photo_electron_image = None,
     mc_azimuth_raw = None, mc_altitude_raw = None, mc_azimuth_cor = None,
     mc_altitude_cor = None\<rparr>"

record r0_camera =
  r0_waveform :: "nd3 option"
  num_trig_pix :: "int option"
  trig_pix_id :: "int list option"

definition new_r0_camera :: r0_camera where
  "new_r0_camera = \<lparr>r0_waveform = None, num_trig_pix = None, trig_pix_id = None\<rparr>"

record r1_camera =
  r1_waveform :: "nd2 option"
  r1_selected_gain_channel :: "int list option"

definition new_r1_camera :: r1_camera where
  "new_r1_camera = \<lparr>r1_waveform = None, r1_selected_gain_channel = None\<rparr>"

record telescope_pointing =
  pointing_azimuth :: pyfloat
  pointing_altitude :: pyfloat

text \<open>The DL0 and DL1 camera containers are only cleared by this module.\<close>

typedecl dl0_camera
typedecl dl1_camera

datatype meta_value = MetaString string | MetaMaxEvents "int option"

record event_container =
  meta :: "string \<Rightarrow> meta_value option"
  event_type :: string
  inst_subarray :: "subarray_description option"
  count :: nat
  index_obs_id :: int
  index_event_id :: int
  r0_obs_id :: int
  r0_event_id :: int
  r0_tels_with_data :: "int set"
  r0_tel :: "int \<Rightarrow> r0_camera option"
  r1_obs_id :: int
  r1_event_id :: int
  r1_tels_with_data :: "int set"
  r1_tel :: "int \<Rightarrow> r1_camera option"
  dl0_obs_id :: int
  dl0_event_id :: int
  dl0_tels_with_data :: "int set"
  dl0_tel :: "int \<Rightarrow> dl0_camera option"
  dl1_tel :: "int \<Rightarrow> dl1_camera option"
  trig_tels_with_trigger :: "int list"
  trig_gps_time :: "int \<times> int"
  mc_shower_truth :: "(mc_shower \<times> mc_event) option"
  mc_tel :: "int \<Rightarrow> mc_camera option"
  mcheader_run_array_direction :: "real list"
  mcheader :: "mc_run_head option"
  pointing :: "int \<Rightarrow> telescope_pointing option"

subsection \<open>SimTelEventSource.fill_mc_information\<close>

text \<open>
  The shower fields (\<^verbatim>\<open>data.mc.energy\<close> to \<^verbatim>\<open>data.mc.shower_primary_id\<close>) are
  copies of the two blocks with units attached and are kept as the pair of blocks; the
  fields of \<^verbatim>\<open>data.mcheader\<close> are copies of the last run header block.
\<close>

definition fill_mc_information ::
  "source \<Rightarrow> array_event \<Rightarrow> event_container \<Rightarrow> event_container \<times> py_error option" where
  "fill_mc_information src ev d =
     (case mc_event ev of
        None \<Rightarrow> (d, Some KeyError)
      | Some mce \<Rightarrow>
          (case mc_shower ev of
             None \<Rightarrow> (d, Some KeyError)
           | Some mcs \<Rightarrow>
               (let d1 = d\<lparr>mc_shower_truth := Some (mcs, mce),
                           mcheader_run_array_direction := header_direction (header (src_file src))\<rparr>
                in case mc_run_headers (src_file src) of
                     [] \<Rightarrow> (d1, Some IndexError)
                   | h # hs \<Rightarrow> (d1\<lparr>mcheader := Some (last (h # hs))\<rparr>, None))))"

subsection \<open>SimTelEventSource.__generator\<close>

text \<open>\<^verbatim>\<open>d.get(key, default)\<close>, the lookup result being an \<open>option\<close>.\<close>

definition get_default :: "'a option \<Rightarrow> 'a \<Rightarrow> 'a" where
  "get_default v dflt = (case v of None \<Rightarrow> dflt | Some x \<Rightarrow> x)"

text \<open>
  The body of the loop over the telescopes of one record (lines 357 to 397) is a
  sequence of four blocks. Each block returns the container as the block leaves it,
  also when it raises.
\<close>

text \<open>Lines 359 to 361: the samples, or the charge sums as waveforms of one sample.\<close>

definition read_adc_samples :: "telescope_event \<Rightarrow> py_error + nd3" where
  "read_adc_samples tev =
     (case adc_samples tev of
        Some a \<Rightarrow> Inr a
      | None \<Rightarrow> (case adc_sums tev of None \<Rightarrow> Inl KeyError | Some charge \<Rightarrow> Inr (newaxis charge)))"

text \<open>Lines 364 to 371: the simulation container of the telescope is created, then the
  conversion factors, the pedestals and the photoelectron image are stored; a missing
  calibration or monitoring entry raises after the earlier assignments. The block
  returns the conversion factors and the pedestals it stored.\<close>

definition fill_mc_camera ::
  "array_event \<Rightarrow> int \<Rightarrow> nat \<Rightarrow> nat \<Rightarrow> event_container \<Rightarrow>
     event_container \<times> (py_error + nd2 \<times> nd2)" where
  "fill_mc_camera ev tid tel_index npix d =
     (let mc = (case mc_tel d tid of None \<Rightarrow> new_mc_camera | Some m \<Rightarrow> m)
      in case laser_calibrations ev tid of
           None \<Rightarrow> (d\<lparr>mc_tel := (mc_tel d)(tid \<mapsto> mc)\<rparr>, Inl KeyError)
         | Some calib \<Rightarrow>
             (case camera_monitorings ev tid of
                None \<Rightarrow>
                  (d\<lparr>mc_tel := (mc_tel d)(tid \<mapsto> mc\<lparr>mc_dc_to_pe := Some calib\<rparr>)\<rparr>, Inl KeyError)
              | Some ped \<Rightarrow>
                  (d\<lparr>mc_tel := (mc_tel d)(tid \<mapsto>
                        mc\<lparr>mc_dc_to_pe := Some calib,
                           mc_pedestal := Some ped,
                           photo_electron_image :=
                             Some (get_default (photoelectrons ev tel_index) (replicate npix 0))\<rparr>)\<rparr>,
                   Inr (calib, ped))))"

text \<open>Lines 374 to 385, for the tracking position \<open>tp\<close> of the telescope: the raw and
  corrected angles are stored in the simulation container (a missing corrected angle is
  nan), and the pointing is resolved.\<close>

definition fill_pointing :: "tracking_position \<Rightarrow> int \<Rightarrow> event_container \<Rightarrow> event_container" where
  "fill_pointing tp tid d =
     (let mc = (case mc_tel d tid of None \<Rightarrow> new_mc_camera | Some m \<Rightarrow> m);
          az_cor = get_default (azimuth_cor tp) NaN;
          alt_cor = get_default (altitude_cor tp) NaN
      in d\<lparr>mc_tel := (mc_tel d)(tid \<mapsto>
              mc\<lparr>mc_azimuth_raw := Some (azimuth_raw tp),
                 mc_altitude_raw := Some (altitude_raw tp),
                 mc_azimuth_cor := Some az_cor,
                 mc_altitude_cor := Some alt_cor\<rparr>),
            pointing := (pointing d)(tid \<mapsto>
              \<lparr>pointing_azimuth = (if isnan az_cor then azimuth_raw tp else az_cor),
               pointing_altitude = (if isnan alt_cor then altitude_raw tp else alt_cor)\<rparr>)\<rparr>)"

text \<open>Lines 394 to 397: the number of trigger pixels, and their ids when there are any.\<close>

definition fill_trigger_pixels :: "(int \<Rightarrow> pixel_list_entry option) \<Rightarrow> r0_camera \<Rightarrow> r0_camera" where
  "fill_trigger_pixels plists r0 =
     (case plists 0 of
        None \<Rightarrow> r0\<lparr>num_trig_pix := Some 0\<rparr>
      | Some entry \<Rightarrow>
          if pixels entry > 0
          then r0\<lparr>num_trig_pix := Some (pixels entry), trig_pix_id := Some (pixel_list entry)\<rparr>
          else r0\<lparr>num_trig_pix := Some (pixels entry)\<rparr>)"

text \<open>Lines 387 to 397: the raw waveforms are stored, then the calibration result (when
  the calibration raises, the R1 container exists with its fields at their defaults),
  then the trigger pixels.\<close>

definition fill_waveforms ::
  "arithmetic \<Rightarrow> source \<Rightarrow> int \<Rightarrow> telescope_event \<Rightarrow> nd3 \<Rightarrow> nd2 \<Rightarrow> nd2 \<Rightarrow> event_container \<Rightarrow>
     event_container \<times> py_error option" where
  "fill_waveforms ar src tid tev adc ped calib d =
     (let r0 = (case r0_tel d tid of None \<Rightarrow> new_r0_camera | Some c \<Rightarrow> c)\<lparr>r0_waveform := Some adc\<rparr>;
          r1 = (case r1_tel d tid of None \<Rightarrow> new_r1_camera | Some c \<Rightarrow> c)
      in case snd (apply_simtel_r1_calibration ar adc ped calib (src_gain_selector src)) of
           Inl e \<Rightarrow> (d\<lparr>r0_tel := (r0_tel d)(tid \<mapsto> r0), r1_tel := (r1_tel d)(tid \<mapsto> r1)\<rparr>, Some e)
         | Inr (w, sel) \<Rightarrow>
             (d\<lparr>r0_tel := (r0_tel d)(tid \<mapsto> fill_trigger_pixels (pixel_lists tev) r0),
                r1_tel := (r1_tel d)(tid \<mapsto>
                  r1\<lparr>r1_waveform := Some w, r1_selected_gain_channel := Some sel\<rparr>)\<rparr>, None))"

definition fill_telescope ::
  "arithmetic \<Rightarrow> source \<Rightarrow> array_event \<Rightarrow> int \<Rightarrow> telescope_event \<Rightarrow> event_container \<Rightarrow>
     event_container \<times> py_error option" where
  "fill_telescope ar src ev tid tev d =
     (case first_index (header_tel_id (header (src_file src))) tid of
        None \<Rightarrow> (d, Some ValueError)
      | Some tel_index \<Rightarrow>
          (case read_adc_samples tev of
             Inl e \<Rightarrow> (d, Some e)
           | Inr adc \<Rightarrow>
               (case fill_mc_camera ev tid tel_index (fst (snd (shape3 adc))) d of
                  (d1, Inl e) \<Rightarrow> (d1, Some e)
                | (d1, Inr (calib, ped)) \<Rightarrow>
                    (case tracking_positions ev tid of
                       None \<Rightarrow> (d1, Some KeyError)
                     | Some tp \<Rightarrow> fill_waveforms ar src tid tev adc ped calib (fill_pointing tp tid d1)))))"

fun fill_telescopes ::
  "arithmetic \<Rightarrow> source \<Rightarrow> array_event \<Rightarrow> (int \<times> telescope_event) list \<Rightarrow> event_container \<Rightarrow>
     event_container \<times> py_error option" where
  "fill_telescopes ar src ev [] d = (d, None)"
| "fill_telescopes ar src ev ((tid, tev) # tevs) d =
     (case fill_telescope ar src ev tid tev d of
        (d', Some e) \<Rightarrow> (d', Some e)
      | (d', None) \<Rightarrow> fill_telescopes ar src ev tevs d')"

text \<open>Lines 299 to 322: the header fields of the record, written into the container. A
  record that is not a calibration event and has no event id raises after the event
  type is written. The tests of \<^verbatim>\<open>data.event_type\<close> read the value just assigned to
  it, the record's type.\<close>

definition write_header ::
  "source \<Rightarrow> nat \<Rightarrow> array_event \<Rightarrow> event_container \<Rightarrow> event_container \<times> py_error option" where
  "write_header src counter ev d =
     (case (if ev_type ev = ''calibration'' then Inr (- 1)
            else (case ev_event_id ev of None \<Rightarrow> Inl KeyError | Some i \<Rightarrow> Inr i)) of
        Inl e \<Rightarrow> (d\<lparr>event_type := ev_type ev\<rparr>, Some e)
      | Inr event_id \<Rightarrow>
          (d\<lparr>event_type := ev_type ev,
             inst_subarray := Some (subarray_info src),
             count := counter,
             index_obs_id := header_run (header (src_file src)),
             index_event_id := event_id,
             r0_obs_id := header_run (header (src_file src)),
             r0_event_id := event_id,
             r0_tels_with_data := set (map fst (telescope_events ev)),
             r1_obs_id := header_run (header (src_file src)),
             r1_event_id := event_id,
             r1_tels_with_data := set (map fst (telescope_events ev)),
             dl0_obs_id := header_run (header (src_file src)),
             dl0_event_id := event_id,
             dl0_tels_with_data := set (map fst (telescope_events ev))\<rparr>, None))"

text \<open>Lines 326 to 332: the telescope filter. \<open>None\<close> is the \<^verbatim>\<open>continue\<close> that skips the
  record.\<close>

definition select_telescopes :: "source \<Rightarrow> array_event \<Rightarrow> event_container \<Rightarrow> event_container option" where
  "select_telescopes src ev d =
     (if allowed_tels (src_config src) \<noteq> {}
      then (let selected = set (map fst (telescope_events ev)) \<inter> allowed_tels (src_config src)
            in if selected = {} then None
               else Some (d\<lparr>r0_tels_with_data := selected,
                            r1_tels_with_data := selected,
                            dl0_tels_with_data := selected\<rparr>))
      else Some d)"

text \<open>Lines 334 to 340: the trigger fields.\<close>

definition write_trigger :: "array_event \<Rightarrow> event_container \<Rightarrow> event_container" where
  "write_trigger ev d =
     d\<lparr>trig_tels_with_trigger := triggered_telescopes (trigger_information ev),
       trig_gps_time := gps_time (trigger_information ev)\<rparr>"

text \<open>Lines 348 to 352: the per-telescope containers of the previous event are dropped.\<close>

definition clear_telescopes :: "event_container \<Rightarrow> event_container" where
  "clear_telescopes d =
     d\<lparr>r0_tel := Map.empty, r1_tel := Map.empty, dl0_tel := Map.empty,
       dl1_tel := Map.empty, mc_tel := Map.empty\<rparr>"

text \<open>How one pass through the body of the record loop ends: at the \<^verbatim>\<open>yield\<close>, at
  the \<^verbatim>\<open>continue\<close> of the telescope filter, or with an exception.\<close>

datatype step = Yield | Continue | Raise py_error

text \<open>The body of the loop over the records (lines 298 to 399). The assignment to
  \<^verbatim>\<open>self.array_event\<close>, kept for debugging, is left out.\<close>

definition process_array_event ::
  "arithmetic \<Rightarrow> source \<Rightarrow> nat \<Rightarrow> array_event \<Rightarrow> event_container \<Rightarrow> event_container \<times> step" where
  "process_array_event ar src counter ev d =
     (case write_header src counter ev d of
        (d1, Some e) \<Rightarrow> (d1, Raise e)
      | (d1, None) \<Rightarrow>
          (case select_telescopes src ev d1 of
             None \<Rightarrow> (d1, Continue)
           | Some d2 \<Rightarrow>
               (case (if ev_type ev = ''data''
                      then fill_mc_information src ev (write_trigger ev d2)
                      else (write_trigger ev d2, None)) of
                  (d3, Some e) \<Rightarrow> (d3, Raise e)
                | (d3, None) \<Rightarrow>
                    (case fill_telescopes ar src ev (telescope_events ev) (clear_telescopes d3) of
                       (d4, Some e) \<Rightarrow> (d4, Raise e)
                     | (d4, None) \<Rightarrow> (d4, Yield)))))"

text \<open>
  A run of a generator to its end, for a consumer that takes every event: the events
  yielded, each the reference of the object yielded and the state of that object at
  the \<^verbatim>\<open>yield\<close>; the state of the generator's container when the generator stops;
  the exception that leaves the generator (\<open>None\<close> when it stops by returning); and the
  number of records it read from the file.
\<close>

type_synonym container_ref = nat

record generated =
  yielded :: "(container_ref \<times> event_container) list"
  final_data :: event_container
  raised :: "py_error option"
  records_read :: nat

text \<open>
  The loop \<^verbatim>\<open>for counter, array_event in enumerate(self.file_)\<close> over the records
  still to be read; \<open>trunc\<close> says that reading past them raises \<^verbatim>\<open>EOFError\<close>. The
  container \<open>d\<close> is the one object \<open>ref\<close> that the generator writes into and yields.
\<close>

fun event_loop ::
  "arithmetic \<Rightarrow> source \<Rightarrow> container_ref \<Rightarrow> bool \<Rightarrow> nat \<Rightarrow> array_event list \<Rightarrow> event_container \<Rightarrow> generated" where
  "event_loop ar src ref trunc counter [] d =
     \<lparr>yielded = [], final_data = d,
      raised = (if trunc then Some EOFError else None), records_read = 0\<rparr>"
| "event_loop ar src ref trunc counter (ev # evs) d =
     (case process_array_event ar src counter ev d of
        (d', Raise e) \<Rightarrow> \<lparr>yielded = [], final_data = d', raised = Some e, records_read = 1\<rparr>
      | (d', Continue) \<Rightarrow>
          (let g = event_loop ar src ref trunc (Suc counter) evs d'
           in g\<lparr>records_read := Suc (records_read g)\<rparr>)
      | (d', Yield) \<Rightarrow>
          (let g = event_loop ar src ref trunc (Suc counter) evs d'
           in g\<lparr>yielded := (ref, d') # yielded g, records_read := Suc (records_read g)\<rparr>))"

text \<open>The records that iterating over the file produces from its cursor on.\<close>

definition remaining_records :: "simtel_file \<Rightarrow> array_event list" where
  "remaining_records f = drop (position f) (file_records f)"

text \<open>Lines 291 to 294: the container that the generator creates; \<open>fresh\<close> is the value of
  a newly constructed \<^verbatim>\<open>EventAndMonDataContainer()\<close>.\<close>

definition new_event_container :: "source \<Rightarrow> event_container \<Rightarrow> event_container" where
  "new_event_container src fresh =
     fresh\<lparr>meta := (meta fresh)(''origin'' \<mapsto> MetaString ''hessio'',
                                 ''input_url'' \<mapsto> MetaString (input_url (src_config src)),
                                 ''max_events'' \<mapsto> MetaMaxEvents (max_events (src_config src)))\<rparr>"

text \<open>
  \<^verbatim>\<open>SimTelEventSource.__generator\<close>. \<open>heap\<close> holds the event containers allocated so
  far: the new container gets the next address, and the run returns the store with the
  container in its final state.
\<close>

definition dunder_generator ::
  "arithmetic \<Rightarrow> source \<Rightarrow> event_container \<Rightarrow> event_container list \<Rightarrow> generated \<times> event_container list" where
  "dunder_generator ar src fresh heap =
     (let g = event_loop ar src (length heap) (truncated (src_file src)) 0
                (remaining_records (src_file src)) (new_event_container src fresh)
      in (g, heap @ [final_data g]))"

datatype message = Warned warning | Logged warning

text \<open>Lines 277 to 279: when the file was read beyond the position recorded at
  construction, the next read starts at the beginning again, and a warning is emitted.\<close>

definition rewind :: "source \<Rightarrow> simtel_file \<times> message list" where
  "rewind src =
     (if tell (src_file src) > start_pos src
      then ((src_file src)\<lparr>position := 0\<rparr>, [Warned BackseekingWarning])
      else (src_file src, []))"

text \<open>
  \<^verbatim>\<open>SimTelEventSource._generator\<close>: the rewind, then the events of \<^verbatim>\<open>__generator\<close>,
  with an \<^verbatim>\<open>EOFError\<close> turned into two messages (one to the log, one to
  \<^verbatim>\<open>warnings\<close>). It returns the messages beside the run and the store.
\<close>

definition generator ::
  "arithmetic \<Rightarrow> source \<Rightarrow> event_container \<Rightarrow> event_container list \<Rightarrow>
     message list \<times> generated \<times> event_container list" where
  "generator ar src fresh heap =
     (case rewind src of (f, msgs) \<Rightarrow>
        (case dunder_generator ar (src\<lparr>src_file := f\<rparr>) fresh heap of (g, heap') \<Rightarrow>
           if raised g = Some EOFError
           then (msgs @ [Logged (TruncatedWarning (input_url (src_config src))),
                         Warned (TruncatedWarning (input_url (src_config src)))],
                 g\<lparr>raised := None\<rparr>, heap')
           else (msgs, g, heap')))"

subsection \<open>The part of the container that the record header and the trigger fill\<close>

text \<open>
  The container with the fields hidden that the per-telescope loop,
  \<open>fill_mc_information\<close> and the clearing of the telescope containers write to. Two
  containers with the same view agree on every other field.
\<close>

definition header_view :: "event_container \<Rightarrow> event_container" where
  "header_view d = d\<lparr>r0_tel := Map.empty, r1_tel := Map.empty, dl0_tel := Map.empty,
     dl1_tel := Map.empty, mc_tel := Map.empty, pointing := Map.empty,
     mc_shower_truth := None, mcheader_run_array_direction := [], mcheader := None\<rparr>"

text \<open>
  The container with the fields hidden that the record header is written to (lines 299
  to 322). Two containers with the same payload agree on every other field: the trigger
  fields, the telescope containers, the pointing, the shower and the run header.
\<close>

definition event_payload :: "event_container \<Rightarrow> event_container" where
  "event_payload d = d\<lparr>event_type := [], inst_subarray := None, count := 0,
     index_obs_id := 0, index_event_id := 0, r0_obs_id := 0, r0_event_id := 0,
     r0_tels_with_data := {}, r1_obs_id := 0, r1_event_id := 0, r1_tels_with_data := {},
     dl0_obs_id := 0, dl0_event_id := 0, dl0_tels_with_data := {}\<rparr>"

subsection \<open>Consistency of the camera cache\<close>

text \<open>
  The cache and the store agree: a cached reference points into the store at a camera of
  the cached name, every stored camera is cached under its own name, and every telescope
  description entered so far refers into the store.
\<close>

definition cache_consistent :: "builder \<Rightarrow> bool" where
  "cache_consistent b \<longleftrightarrow>
     (\<forall>n a. camera_cache b n = Some a \<longrightarrow>
        a < length (cameras b) \<and> description_camera_name (cameras b ! a) = n) \<and>
     (\<forall>a<length (cameras b). camera_cache b (description_camera_name (cameras b ! a)) = Some a) \<and>
     (\<forall>t td. b_tel_descriptions b t = Some td \<longrightarrow> camera td < length (cameras b))"

subsection \<open>Example inputs\<close>

text \<open>Two gain channels, one pixel, two samples; the selector takes the low gain channel
  (index 1) for a pixel whose first high gain sample exceeds 9.\<close>

definition example_r0 :: nd3 where
  "example_r0 = \<lparr>shape3 = (2, 1, 2), el3 = (\<lambda>c p s. [[[10, 14]], [[6, 8]]] ! c ! p ! s)\<rparr>"
definition example_pedestal :: nd2 where
  "example_pedestal = \<lparr>shape2 = (2, 1), el2 = (\<lambda>c p. [[4], [2]] ! c ! p)\<rparr>"
definition example_dc_to_pe :: nd2 where
  "example_dc_to_pe = \<lparr>shape2 = (2, 1), el2 = (\<lambda>c p. [[3], [5]] ! c ! p)\<rparr>"
definition example_selector :: gain_selector where
  "example_selector w = Inr (map (\<lambda>p. if el3 w 0 p 0 > 9 then 1 else 0) [0..<fst (snd (shape3 w))])"


text \<open>One gain channel, two pixels, two samples; pedestal 0 and conversion factor 1.\<close>

definition single_r0 :: nd3 where
  "single_r0 = \<lparr>shape3 = (1, 2, 2), el3 = (\<lambda>c p s. [[[10, 14], [7, 9]]] ! c ! p ! s)\<rparr>"
definition zero_pedestal :: nd2 where
  "zero_pedestal = \<lparr>shape2 = (1, 2), el2 = (\<lambda>c p. 0)\<rparr>"
definition unit_dc_to_pe :: nd2 where
  "unit_dc_to_pe = \<lparr>shape2 = (1, 2), el2 = (\<lambda>c p. 1)\<rparr>"


text \<open>A record of a physics event with data of telescopes 1, 3, 5 and 7, a file of three
  such records that ends in the middle of a fourth, and a source that allows the
  telescopes 3 and 5.\<close>

definition example_header :: simtel_header where
  "example_header = \<lparr>header_run = 7, header_tel_id = [1, 3, 5, 7],
     header_tel_pos = [[0, 0, 0], [10, 0, 0], [0, 10, 0], [10, 10, 0]],
     header_direction = [0, 6 / 5]\<rparr>"

definition example_telescope_event :: telescope_event where
  "example_telescope_event = \<lparr>adc_samples = Some example_r0, adc_sums = None,
     pixel_lists = (\<lambda>k. if k = 0 then Some \<lparr>pixels = 1, pixel_list = [0]\<rparr> else None)\<rparr>"

definition example_tracking :: tracking_position where
  "example_tracking = \<lparr>azimuth_raw = Float (1 / 2), altitude_raw = Float 1,
     azimuth_cor = Some (Float (6 / 5)), altitude_cor = Some NaN\<rparr>"

definition example_event :: array_event where
  "example_event = \<lparr>ev_type = ''data'', ev_event_id = Some 42,
     telescope_events = [(1, example_telescope_event), (3, example_telescope_event),
                         (5, example_telescope_event), (7, example_telescope_event)],
     trigger_information = \<lparr>triggered_telescopes = [1, 3, 5, 7], gps_time = (100, 5)\<rparr>,
     tracking_positions = (\<lambda>t. Some example_tracking),
     laser_calibrations = (\<lambda>t. Some example_dc_to_pe),
     camera_monitorings = (\<lambda>t. Some example_pedestal),
     photoelectrons = (\<lambda>i. None),
     mc_event = Some \<lparr>xcore = 0, ycore = 0\<rparr>,
     mc_shower = Some \<lparr>energy = 1, altitude = 1, azimuth = 0, h_first_int = 20000, xmax = 300,
                        primary_id = 0\<rparr>\<rparr>"

definition example_run_head :: mc_run_head where
  "example_run_head = \<lparr>shower_prog_vers = 6990, detector_prog_vers = 1, E_range = (0.003, 330),
     spectral_index = - 2, n_showers = 10, n_use = 1\<rparr>"

text \<open>Two camera types: telescopes 1 and 3 have two pixels and a focal length of 28 m,
  telescopes 5 and 7 three pixels and 16 m and no effective focal length.\<close>

definition example_pixel_settings :: pixel_settings where
  "example_pixel_settings = \<lparr>time_slice = 1, ref_shape = [[0, 1, 0]], ref_step = 1 / 4\<rparr>"

definition large_settings :: camera_settings where
  "large_settings = \<lparr>n_pixels = 2, focal_length = 28, effective_focal_length = Some (293 / 10),
     pixel_shape = [1, 1], pixel_x = [0, 1], pixel_y = [0, 0], pixel_area = [1, 1],
     cam_rot = 0, mirror_area = 386, n_mirrors = 198\<rparr>"

definition medium_settings :: camera_settings where
  "medium_settings = \<lparr>n_pixels = 3, focal_length = 16, effective_focal_length = None,
     pixel_shape = [2, 2, 2], pixel_x = [0, 1, 2], pixel_y = [0, 0, 0], pixel_area = [1, 1, 1],
     cam_rot = 0, mirror_area = 88, n_mirrors = 86\<rparr>"

definition example_descriptions :: "(int \<times> telescope_description) list" where
  "example_descriptions =
     [(1, \<lparr>camera_settings = large_settings, pixel_settings = example_pixel_settings\<rparr>),
      (3, \<lparr>camera_settings = large_settings, pixel_settings = example_pixel_settings\<rparr>),
      (5, \<lparr>camera_settings = medium_settings, pixel_settings = example_pixel_settings\<rparr>),
      (7, \<lparr>camera_settings = medium_settings, pixel_settings = example_pixel_settings\<rparr>)]"

definition example_file :: simtel_file where
  "example_file = \<lparr>filehandle = BufferedReader, header = example_header,
     telescope_descriptions = example_descriptions, mc_run_headers = [example_run_head],
     file_records = [example_event, example_event, example_event],
     truncated = True, position = 0\<rparr>"

definition example_config :: config where
  "example_config = \<lparr>input_url = ''gamma.simtel.gz'', max_events = None, allowed_tels = {3, 5},
     skip_calibration_events = True, back_seekable = False, focal_length_choice = nominal\<rparr>"

definition example_source :: source where
  "example_source = \<lparr>src_config = example_config, src_file = example_file,
     src_camera_cache = Map.empty, src_cameras = [],
     subarray_info = \<lparr>subarray_name = ''MonteCarloArray'', tel_positions = Map.empty,
                       tel_descriptions = Map.empty\<rparr>,
     start_pos = 0, src_gain_selector = example_selector\<rparr>"

definition example_container :: event_container where
  "example_container = \<lparr>meta = Map.empty, event_type = [], inst_subarray = None, count = 0,
     index_obs_id = 0, index_event_id = 0, r0_obs_id = 0, r0_event_id = 0,
     r0_tels_with_data = {}, r0_tel = Map.empty, r1_obs_id = 0, r1_event_id = 0,
     r1_tels_with_data = {}, r1_tel = Map.empty, dl0_obs_id = 0, dl0_event_id = 0,
     dl0_tels_with_data = {}, dl0_tel = Map.empty, dl1_tel = Map.empty,
     trig_tels_with_trigger = [], trig_gps_time = (0, 0), mc_shower_truth = None,
     mc_tel = Map.empty, mcheader_run_array_direction = [], mcheader = None,
     pointing = Map.empty\<rparr>"

text \<open>The same source with an allow-list that holds none of the record's telescopes.\<close>

definition only_nine :: source where
  "only_nine = example_source\<lparr>src_config := example_config\<lparr>allowed_tels := {9}\<rparr>\<rparr>"

text \<open>A later record with data of telescope 1 only, which the allow-list \<open>{3, 5}\<close>
  filters out.\<close>

definition lone_event :: array_event where
  "lone_event = example_event\<lparr>ev_event_id := Some 43,
     telescope_events := [(1, example_telescope_event)]\<rparr>"

text \<open>The imported functions: a lookup table with the two camera types, a pixel shape
  table, and a decoder that opens the file with the suffix \<^verbatim>\<open>zst\<close> on a handle that is
  neither a buffered reader nor a gzip file.\<close>

definition example_externals :: externals where
  "example_externals =
     \<lparr>guess_telescope = (\<lambda>n f.
        if n = 2 \<and> f = 28
        then Some \<lparr>tel_type = ''LST'', tel_name = ''LST'', camera_name = ''LSTCam'', tel_n_mirrors = 1\<rparr>
        else if n = 3 \<and> f = 16
        then Some \<lparr>tel_type = ''MST'', tel_name = ''MST'', camera_name = ''FlashCam'', tel_n_mirrors = 1\<rparr>
        else None),
      UNKNOWN_TELESCOPE = \<lparr>tel_type = ''UNKNOWN'', tel_name = ''UNKNOWN'',
                            camera_name = ''UNKNOWN'', tel_n_mirrors = - 1\<rparr>,
      simtel_shape_to_type = (\<lambda>c. if c = 1 then Some (''hexagon'', ''0d'')
                                   else if c = 2 then Some (''rectangular'', ''0d'') else None),
      ThresholdGainSelector = example_selector,
      SimTelFile = (\<lambda>url allowed skip zcat.
        if url = ''gamma.simtel.zst'' then Inr (example_file\<lparr>filehandle := OtherHandle\<rparr>)
        else Inr example_file)\<rparr>"

definition effective_config :: config where
  "effective_config = example_config\<lparr>focal_length_choice := effective\<rparr>"

definition seekable_config :: config where
  "seekable_config = example_config\<lparr>input_url := ''gamma.simtel.zst'', back_seekable := True\<rparr>"

text \<open>
  An arithmetic that rounds as IEEE 754 single precision does on finite numbers: a
  result is the nearest number with a significand of 24 bits, the one with an even
  significand when two are equally near, with the spacing of the subnormal numbers below
  2 to the power -126. The integer divisor is converted to the format before the division.
  Results that are not finite numbers (an overflow, a division by zero) are outside of
  what this arithmetic describes, and none occurs in the examples.
  \<open>binade k b x\<close> searches from the power of two \<open>b\<close>, in at most \<open>k\<close> steps, for the
  power of two \<open>b'\<close> with \<open>b' \<le> x < 2 * b'\<close>.
\<close>

definition round_half_even :: "real \<Rightarrow> int" where
  "round_half_even q =
     (let f = \<lfloor>q\<rfloor>
      in if q - of_int f < 1 / 2 then f
         else if 1 / 2 < q - of_int f then f + 1
         else if even f then f else f + 1)"

fun binade :: "nat \<Rightarrow> real \<Rightarrow> real \<Rightarrow> real" where
  "binade 0 b x = b"
| "binade (Suc k) b x =
     (if x < b then binade k (b / 2) x
      else if 2 * b \<le> x then binade k (2 * b) x
      else b)"

definition float32_round :: "real \<Rightarrow> real" where
  "float32_round x =
     (if x = 0 then 0
      else let ulp = max (binade 300 1 \<bar>x\<bar>) (1 / 2 ^ 126) / 2 ^ 23
           in sgn x * of_int (round_half_even (\<bar>x\<bar> / ulp)) * ulp)"

definition float32_arithmetic :: arithmetic where
  "float32_arithmetic =
     \<lparr>np_subtract = (\<lambda>x y. float32_round (x - y)),
      np_multiply = (\<lambda>x y. float32_round (x * y)),
      np_true_divide = (\<lambda>x n. float32_round (x / float32_round (real n)))\<rparr>"

text \<open>One gain channel, one pixel, three samples; pedestal 1 and conversion factor 3. A
  third is not a number of the format, and neither is the first sample less a third:
  the calibrated first sample is 16777215 / 8388608 (1.9999998807907104), where scaling
  the sample and the pedestal per sample before subtracting would give 2.\<close>

definition ramp_r0 :: nd3 where
  "ramp_r0 = \<lparr>shape3 = (1, 1, 3), el3 = (\<lambda>c p s. [[[1, 2, 4]]] ! c ! p ! s)\<rparr>"
definition unit_pedestal :: nd2 where
  "unit_pedestal = \<lparr>shape2 = (1, 1), el2 = (\<lambda>c p. 1)\<rparr>"
definition triple_dc_to_pe :: nd2 where
  "triple_dc_to_pe = \<lparr>shape2 = (1, 1), el2 = (\<lambda>c p. 3)\<rparr>"

text \<open>A record in which the telescopes 1, 3, 5 and 7 triggered and only telescope 3 has
  data, and one in which only telescope 1 triggered and only telescope 3 has data; a
  file, read to its end, of these two records.\<close>

definition partial_event :: array_event where
  "partial_event = example_event\<lparr>telescope_events := [(3, example_telescope_event)]\<rparr>"

definition untriggered_event :: array_event where
  "untriggered_event = example_event\<lparr>ev_event_id := Some 44,
     telescope_events := [(3, example_telescope_event)],
     trigger_information := \<lparr>triggered_telescopes = [1], gps_time = (100, 5)\<rparr>\<rparr>"

definition partial_source :: source where
  "partial_source = example_source\<lparr>src_file := example_file\<lparr>
     file_records := [partial_event, untriggered_event], truncated := False\<rparr>\<rparr>"

text \<open>A complete file of two records: the example record, which the allow-list
  \<open>{3, 5}\<close> lets pass, and after it the record with data of telescope 1 only.\<close>

definition skipping_source :: source where
  "skipping_source = example_source\<lparr>src_file := example_file\<lparr>
     file_records := [example_event, lone_event], truncated := False\<rparr>\<rparr>"

section \<open>Calibration\<close>

lemma bidx_less: "i < d \<Longrightarrow> bidx d i = i"
  by (auto simp: bidx_def)

lemma all_channel_r1_waveforms_matching:
  assumes "shape3 r0 = (nc, np, ns)" "shape2 pedestal = (nc, np)" "shape2 dc_to_pe = (nc, np)"
  shows "\<exists>r1. all_channel_r1_waveforms ar r0 pedestal dc_to_pe = Inr r1 \<and> shape3 r1 = (nc, np, ns) \<and>
           (\<forall>c p s. c < nc \<longrightarrow> p < np \<longrightarrow> s < ns \<longrightarrow>
              el3 r1 c p s = np_multiply ar (np_subtract ar (el3 r0 c p s) (np_true_divide ar (el2 pedestal c p) ns)) (el2 dc_to_pe c p))"
  using assms
  by (auto simp: all_channel_r1_waveforms_def elementwise3_def newaxis_def div_scalar3_def
      broadcast_shape3_def broadcast_dim_def bidx_less Let_def split: option.splits)

lemmas calib_defs = apply_simtel_r1_calibration_def all_channel_r1_waveforms_def elementwise3_def
      newaxis_def div_scalar3_def broadcast_shape3_def broadcast_dim_def bidx_def fancy_index_def
      norm_index_def index0_def

lemma norm_index_Some: "norm_index n i = Some c \<Longrightarrow> c < n"
  by (auto simp: norm_index_def split: if_splits)

text \<open>
  C1. For raw waveforms of shape \<open>(nc, np, ns)\<close> and pedestal and conversion factor arrays
  of shape \<open>(nc, np)\<close>, in every arithmetic of the arrays, the calibrated waveforms of
  all channels (line 102) are, for every channel, pixel and sample, the result of three
  operations in this order: the pedestal is divided by the sample count \<open>ns\<close>, the
  quotient is subtracted from the raw sample, and the difference is multiplied by the
  conversion factor of the channel and pixel, which is the same for every sample,
  \<open>(raw - pedestal / ns) * dc_to_pe\<close> with each operation rounded as the arithmetic rounds
  it. Every element \<open>(p, s)\<close> of the waveform that \<open>apply_simtel_r1_calibration\<close> returns
  is that value at the channel selected for pixel \<open>p\<close> (for a selection with one entry
  per pixel).
\<close>

theorem r1_calibration_formula:
  assumes "shape3 r0 = (nc, np, ns)" "shape2 pedestal = (nc, np)" "shape2 dc_to_pe = (nc, np)"
  shows "(\<exists>r1. all_channel_r1_waveforms ar r0 pedestal dc_to_pe = Inr r1 \<and> shape3 r1 = (nc, np, ns) \<and>
            (\<forall>c p s. c < nc \<longrightarrow> p < np \<longrightarrow> s < ns \<longrightarrow>
               el3 r1 c p s =
                 np_multiply ar
                   (np_subtract ar (el3 r0 c p s) (np_true_divide ar (el2 pedestal c p) ns))
                   (el2 dc_to_pe c p))) \<and>
         (\<forall>w sel. snd (apply_simtel_r1_calibration ar r0 pedestal dc_to_pe gs) = Inr (w, sel) \<and>
                  length sel = np \<longrightarrow>
            (\<forall>p s. p < np \<longrightarrow> s < ns \<longrightarrow>
               (\<exists>c < nc. norm_index nc (sel ! p) = Some c \<and>
                  el2 w p s =
                    np_multiply ar
                      (np_subtract ar (el3 r0 c p s) (np_true_divide ar (el2 pedestal c p) ns))
                      (el2 dc_to_pe c p))))"
proof -
  from all_channel_r1_waveforms_matching [OF assms]
  obtain r1 where r1: "all_channel_r1_waveforms ar r0 pedestal dc_to_pe = Inr r1"
    and sh: "shape3 r1 = (nc, np, ns)"
    and el: "\<And>c p s. c < nc \<Longrightarrow> p < np \<Longrightarrow> s < ns \<Longrightarrow>
               el3 r1 c p s = np_multiply ar (np_subtract ar (el3 r0 c p s) (np_true_divide ar (el2 pedestal c p) ns)) (el2 dc_to_pe c p)"
    by blast
  have "\<exists>c < nc. norm_index nc (sel ! p) = Some c \<and>
          el2 w p s = np_multiply ar (np_subtract ar (el3 r0 c p s) (np_true_divide ar (el2 pedestal c p) ns)) (el2 dc_to_pe c p)"
    if res: "snd (apply_simtel_r1_calibration ar r0 pedestal dc_to_pe gs) = Inr (w, sel)"
      and len: "length sel = np" and p: "p < np" and s: "s < ns" for w sel p s
  proof (cases "nc = 1")
    case True
    with res r1 sh assms(1) p have w: "w = \<lparr>shape2 = (np, ns), el2 = (\<lambda>i j. el3 r1 0 i j)\<rparr>"
      and sel: "sel = replicate np 0"
      by (auto simp: apply_simtel_r1_calibration_def index0_def split: sum.splits if_splits)
    from sel p True have "norm_index nc (sel ! p) = Some 0" by (simp add: norm_index_def)
    moreover from w el [of 0 p s] True p s
    have "el2 w p s = np_multiply ar (np_subtract ar (el3 r0 0 p s) (np_true_divide ar (el2 pedestal 0 p) ns)) (el2 dc_to_pe 0 p)" by simp
    ultimately show ?thesis using True by auto
  next
    case False
    with res r1 sh assms(1) obtain l where
      bc: "broadcast_dim (length sel) np = Some l"
      and chk: "\<forall>i \<in> set [0..<l]. norm_index nc (sel ! bidx (length sel) i) \<noteq> None \<and> bidx np i < np"
      and w: "w = \<lparr>shape2 = (l, ns), el2 = (\<lambda>i k. el3 r1 (the (norm_index nc (sel ! bidx (length sel) i))) (bidx np i) k)\<rparr>"
      by (auto simp: apply_simtel_r1_calibration_def fancy_index_def split: sum.splits if_splits option.splits)
    from bc len have l: "l = np" by (simp add: broadcast_dim_def)
    from chk l p have "norm_index nc (sel ! bidx (length sel) p) \<noteq> None" by simp
    with p len obtain c where c: "norm_index nc (sel ! p) = Some c"
      by (auto simp: bidx_less)
    then have "c < nc" by (rule norm_index_Some)
    moreover from w c p len have "el2 w p s = el3 r1 c p s" by (simp add: bidx_less)
    ultimately show ?thesis using c el [of c p s] p s by auto
  qed
  with r1 sh el show ?thesis by blast
qed


theorem r1_calibration_formula_witness:
  "\<exists>w. snd (apply_simtel_r1_calibration float32_arithmetic ramp_r0 unit_pedestal triple_dc_to_pe
              example_selector) = Inr (w, [0]) \<and>
     el2 w 0 0 = 16777215 / 8388608 \<and> el2 w 0 1 = 5 \<and> el2 w 0 2 = 11 \<and>
     np_subtract float32_arithmetic (np_multiply float32_arithmetic 1 3)
       (np_multiply float32_arithmetic (np_true_divide float32_arithmetic 1 3) 3) = 2"
proof -
  have h1: "shape3 ramp_r0 = (1, 1, 3)" by (simp add: ramp_r0_def)
  have h2: "shape2 unit_pedestal = (1, 1)" by (simp add: unit_pedestal_def)
  have h3: "shape2 triple_dc_to_pe = (1, 1)" by (simp add: triple_dc_to_pe_def)
  have "\<exists>w. snd (apply_simtel_r1_calibration float32_arithmetic ramp_r0 unit_pedestal
               triple_dc_to_pe example_selector) = Inr (w, [0])"
    by (simp add: calib_defs ramp_r0_def unit_pedestal_def triple_dc_to_pe_def)
  then obtain w where w: "snd (apply_simtel_r1_calibration float32_arithmetic ramp_r0 unit_pedestal
               triple_dc_to_pe example_selector) = Inr (w, [0])" ..
  have v: "np_multiply float32_arithmetic
             (np_subtract float32_arithmetic 1 (np_true_divide float32_arithmetic 1 3)) 3 =
           16777215 / 8388608"
          "np_multiply float32_arithmetic
             (np_subtract float32_arithmetic 2 (np_true_divide float32_arithmetic 1 3)) 3 = 5"
          "np_multiply float32_arithmetic
             (np_subtract float32_arithmetic 4 (np_true_divide float32_arithmetic 1 3)) 3 = 11"
    by code_simp+
  note t = r1_calibration_formula [OF h1 h2 h3, where ar = float32_arithmetic
      and gs = example_selector, THEN conjunct2, rule_format, of w "[0]" 0]
  from t [of 0] w v(1) have "el2 w 0 0 = 16777215 / 8388608"
    by (auto simp: ramp_r0_def unit_pedestal_def triple_dc_to_pe_def)
  moreover from t [of 1] w v(2) have "el2 w 0 1 = 5"
    by (auto simp: ramp_r0_def unit_pedestal_def triple_dc_to_pe_def)
  moreover from t [of 2] w v(3) have "el2 w 0 2 = 11"
    by (auto simp: ramp_r0_def unit_pedestal_def triple_dc_to_pe_def)
  moreover have "np_subtract float32_arithmetic (np_multiply float32_arithmetic 1 3)
       (np_multiply float32_arithmetic (np_true_divide float32_arithmetic 1 3) 3) = 2"
    by code_simp
  ultimately show ?thesis using w by blast
qed

lemma single_channel_calls: "shape3 r0 = (1, np, ns) \<Longrightarrow>
   fst (apply_simtel_r1_calibration ar r0 pedestal dc_to_pe gs) = []"
  by (auto simp: apply_simtel_r1_calibration_def split: sum.splits)

lemma single_channel_result:
  "shape3 r0 = (1, np, ns) \<Longrightarrow> snd (apply_simtel_r1_calibration ar r0 pedestal dc_to_pe gs) = Inr (w, sel) \<Longrightarrow>
     sel = replicate np 0"
  by (auto simp: apply_simtel_r1_calibration_def split: sum.splits)

lemma single_channel_matching:
  assumes "shape3 r0 = (1, np, ns)" "shape2 pedestal = (1, np)" "shape2 dc_to_pe = (1, np)"
  shows "\<exists>w r1. all_channel_r1_waveforms ar r0 pedestal dc_to_pe = Inr r1 \<and>
           snd (apply_simtel_r1_calibration ar r0 pedestal dc_to_pe gs) = Inr (w, replicate np 0) \<and>
           shape2 w = (np, ns) \<and> (\<forall>p s. el2 w p s = el3 r1 0 p s) \<and>
           ((\<forall>p<np. el2 pedestal 0 p = 0 \<and> el2 dc_to_pe 0 p = 1) \<and>
          np_true_divide ar 0 ns = 0 \<and>
          (\<forall>p<np. \<forall>s<ns. np_subtract ar (el3 r0 0 p s) 0 = el3 r0 0 p s \<and>
                             np_multiply ar (el3 r0 0 p s) 1 = el3 r0 0 p s) \<longrightarrow>
              (\<forall>p<np. \<forall>s<ns. el2 w p s = el3 r0 0 p s))"
proof -
  from all_channel_r1_waveforms_matching [OF assms]
  obtain r1 where r1: "all_channel_r1_waveforms ar r0 pedestal dc_to_pe = Inr r1"
    and sh: "shape3 r1 = (1, np, ns)"
    and el: "\<And>c p s. c < 1 \<Longrightarrow> p < np \<Longrightarrow> s < ns \<Longrightarrow>
               el3 r1 c p s = np_multiply ar (np_subtract ar (el3 r0 c p s) (np_true_divide ar (el2 pedestal c p) ns)) (el2 dc_to_pe c p)"
    by blast
  let ?w = "\<lparr>shape2 = (np, ns), el2 = (\<lambda>i j. el3 r1 0 i j)\<rparr>"
  have "snd (apply_simtel_r1_calibration ar r0 pedestal dc_to_pe gs) = Inr (?w, replicate np 0)"
    using r1 sh assms(1) by (simp add: apply_simtel_r1_calibration_def index0_def)
  moreover have "\<forall>p<np. \<forall>s<ns. el2 ?w p s = el3 r0 0 p s"
    if "(\<forall>p<np. el2 pedestal 0 p = 0 \<and> el2 dc_to_pe 0 p = 1) \<and>
        np_true_divide ar 0 ns = 0 \<and>
        (\<forall>p<np. \<forall>s<ns. np_subtract ar (el3 r0 0 p s) 0 = el3 r0 0 p s \<and>
                           np_multiply ar (el3 r0 0 p s) 1 = el3 r0 0 p s)"
    using that el [of 0] by simp
  ultimately show ?thesis using r1 by (intro exI [of _ ?w] exI [of _ r1]) simp
qed

lemma norm_index_nat: "0 \<le> i \<Longrightarrow> i < int n \<Longrightarrow> norm_index n i = Some (nat i)"
  by (simp add: norm_index_def)

lemma multi_channel_calls:
  "shape3 r0 = (nc, np, ns) \<Longrightarrow> nc \<noteq> 1 \<Longrightarrow> all_channel_r1_waveforms ar r0 pedestal dc_to_pe = Inr r1 \<Longrightarrow>
     fst (apply_simtel_r1_calibration ar r0 pedestal dc_to_pe gs) = [r0]"
  by (auto simp: apply_simtel_r1_calibration_def split: sum.splits)

lemma multi_channel_gather:
  assumes "shape3 r0 = (nc, np, ns)" "nc \<noteq> 1"
    and r1: "all_channel_r1_waveforms ar r0 pedestal dc_to_pe = Inr r1" and sh: "shape3 r1 = (nc, np, ns)"
    and sel: "gs r0 = Inr sel" "length sel = np" "\<forall>p<np. 0 \<le> sel ! p \<and> sel ! p < int nc"
  shows "\<exists>w. snd (apply_simtel_r1_calibration ar r0 pedestal dc_to_pe gs) = Inr (w, sel) \<and>
           shape2 w = (np, ns) \<and> (\<forall>p<np. \<forall>s. el2 w p s = el3 r1 (nat (sel ! p)) p s)"
proof -
  have chk: "\<forall>i \<in> set [0..<np]. norm_index nc (sel ! bidx (length sel) i) \<noteq> None \<and> bidx np i < np"
    using sel by (auto simp: bidx_less norm_index_nat)
  let ?w = "\<lparr>shape2 = (np, ns),
             el2 = (\<lambda>i k. el3 r1 (the (norm_index nc (sel ! bidx (length sel) i))) (bidx np i) k)\<rparr>"
  have "fancy_index r1 sel np = Inr ?w"
    using chk sh sel(2) by (simp add: fancy_index_def broadcast_dim_def)
  then have "snd (apply_simtel_r1_calibration ar r0 pedestal dc_to_pe gs) = Inr (?w, sel)"
    using assms(1,2) r1 sel(1) by (simp add: apply_simtel_r1_calibration_def)
  moreover have "\<forall>p<np. \<forall>s. el2 ?w p s = el3 r1 (nat (sel ! p)) p s"
    using sel by (auto simp: bidx_less norm_index_nat)
  ultimately show ?thesis by (intro exI [of _ ?w]) simp
qed

text \<open>
  C2. With one channel the gain selector is not called (the list of its calls is empty),
  every returned selection is all zero with one entry per pixel, and with matching
  shapes the returned waveform is channel 0 of the calibrated waveforms without the
  channel axis; with pedestal 0 and conversion factor 1 it is the raw input, in every
  arithmetic in which 0 divided by the sample count is 0 and in which subtracting 0
  from a raw sample and multiplying a raw sample by 1 give the raw sample. With more
  than one channel and matching shapes the selector is called once, on the raw
  waveforms, and for a selection with one valid channel per pixel the returned waveform
  of pixel \<open>p\<close> is the calibrated waveform of pixel \<open>p\<close> in the channel selected for \<open>p\<close>.
\<close>

theorem gain_selection_one_or_many_channels:
  "(shape3 r0 = (1, np, ns) \<longrightarrow>
      fst (apply_simtel_r1_calibration ar r0 pedestal dc_to_pe gs) = [] \<and>
      (\<forall>w sel. snd (apply_simtel_r1_calibration ar r0 pedestal dc_to_pe gs) = Inr (w, sel) \<longrightarrow>
         sel = replicate np 0)) \<and>
   (shape3 r0 = (1, np, ns) \<and> shape2 pedestal = (1, np) \<and> shape2 dc_to_pe = (1, np) \<longrightarrow>
      (\<exists>w r1. all_channel_r1_waveforms ar r0 pedestal dc_to_pe = Inr r1 \<and>
         snd (apply_simtel_r1_calibration ar r0 pedestal dc_to_pe gs) = Inr (w, replicate np 0) \<and>
         shape2 w = (np, ns) \<and> (\<forall>p s. el2 w p s = el3 r1 0 p s) \<and>
         ((\<forall>p<np. el2 pedestal 0 p = 0 \<and> el2 dc_to_pe 0 p = 1) \<and>
          np_true_divide ar 0 ns = 0 \<and>
          (\<forall>p<np. \<forall>s<ns. np_subtract ar (el3 r0 0 p s) 0 = el3 r0 0 p s \<and>
                             np_multiply ar (el3 r0 0 p s) 1 = el3 r0 0 p s) \<longrightarrow>
            (\<forall>p<np. \<forall>s<ns. el2 w p s = el3 r0 0 p s)))) \<and>
   (shape3 r0 = (nc, np, ns) \<and> 1 < nc \<and> shape2 pedestal = (nc, np) \<and> shape2 dc_to_pe = (nc, np) \<longrightarrow>
      fst (apply_simtel_r1_calibration ar r0 pedestal dc_to_pe gs) = [r0] \<and>
      (\<forall>sel. gs r0 = Inr sel \<and> length sel = np \<and> (\<forall>p<np. 0 \<le> sel ! p \<and> sel ! p < int nc) \<longrightarrow>
         (\<exists>w r1. all_channel_r1_waveforms ar r0 pedestal dc_to_pe = Inr r1 \<and>
            snd (apply_simtel_r1_calibration ar r0 pedestal dc_to_pe gs) = Inr (w, sel) \<and>
            shape2 w = (np, ns) \<and> (\<forall>p<np. \<forall>s. el2 w p s = el3 r1 (nat (sel ! p)) p s))))"
proof (intro conjI impI)
  assume "shape3 r0 = (1, np, ns)"
  then show "fst (apply_simtel_r1_calibration ar r0 pedestal dc_to_pe gs) = []"
    by (rule single_channel_calls)
next
  assume "shape3 r0 = (1, np, ns)"
  then show "\<forall>w sel. snd (apply_simtel_r1_calibration ar r0 pedestal dc_to_pe gs) = Inr (w, sel) \<longrightarrow>
         sel = replicate np 0"
    by (blast dest: single_channel_result)
next
  assume "shape3 r0 = (1, np, ns) \<and> shape2 pedestal = (1, np) \<and> shape2 dc_to_pe = (1, np)"
  then show "\<exists>w r1. all_channel_r1_waveforms ar r0 pedestal dc_to_pe = Inr r1 \<and>
         snd (apply_simtel_r1_calibration ar r0 pedestal dc_to_pe gs) = Inr (w, replicate np 0) \<and>
         shape2 w = (np, ns) \<and> (\<forall>p s. el2 w p s = el3 r1 0 p s) \<and>
         ((\<forall>p<np. el2 pedestal 0 p = 0 \<and> el2 dc_to_pe 0 p = 1) \<and>
          np_true_divide ar 0 ns = 0 \<and>
          (\<forall>p<np. \<forall>s<ns. np_subtract ar (el3 r0 0 p s) 0 = el3 r0 0 p s \<and>
                             np_multiply ar (el3 r0 0 p s) 1 = el3 r0 0 p s) \<longrightarrow>
            (\<forall>p<np. \<forall>s<ns. el2 w p s = el3 r0 0 p s))"
    using single_channel_matching by blast
next
  assume a: "shape3 r0 = (nc, np, ns) \<and> 1 < nc \<and> shape2 pedestal = (nc, np) \<and> shape2 dc_to_pe = (nc, np)"
  then obtain r1 where r1: "all_channel_r1_waveforms ar r0 pedestal dc_to_pe = Inr r1"
    and sh: "shape3 r1 = (nc, np, ns)"
    using all_channel_r1_waveforms_matching [of r0 nc np ns pedestal dc_to_pe ar] by blast
  from a r1 show "fst (apply_simtel_r1_calibration ar r0 pedestal dc_to_pe gs) = [r0]"
    by (auto intro: multi_channel_calls)
  show "\<forall>sel. gs r0 = Inr sel \<and> length sel = np \<and> (\<forall>p<np. 0 \<le> sel ! p \<and> sel ! p < int nc) \<longrightarrow>
         (\<exists>w r1. all_channel_r1_waveforms ar r0 pedestal dc_to_pe = Inr r1 \<and>
            snd (apply_simtel_r1_calibration ar r0 pedestal dc_to_pe gs) = Inr (w, sel) \<and>
            shape2 w = (np, ns) \<and> (\<forall>p<np. \<forall>s. el2 w p s = el3 r1 (nat (sel ! p)) p s))"
  proof (intro allI impI)
    fix sel
    assume s: "gs r0 = Inr sel \<and> length sel = np \<and> (\<forall>p<np. 0 \<le> sel ! p \<and> sel ! p < int nc)"
    from a have "nc \<noteq> 1" by simp
    with multi_channel_gather [of r0 nc np ns ar pedestal dc_to_pe r1 gs sel] a r1 sh s
    show "\<exists>w r1. all_channel_r1_waveforms ar r0 pedestal dc_to_pe = Inr r1 \<and>
            snd (apply_simtel_r1_calibration ar r0 pedestal dc_to_pe gs) = Inr (w, sel) \<and>
            shape2 w = (np, ns) \<and> (\<forall>p<np. \<forall>s. el2 w p s = el3 r1 (nat (sel ! p)) p s)"
      by blast
  qed
qed

theorem gain_selection_one_or_many_channels_witness:
  "fst (apply_simtel_r1_calibration float32_arithmetic single_r0 zero_pedestal unit_dc_to_pe
          example_selector) = [] \<and>
   (\<exists>w. snd (apply_simtel_r1_calibration float32_arithmetic single_r0 zero_pedestal unit_dc_to_pe
               example_selector) = Inr (w, [0, 0]) \<and>
      shape2 w = (2, 2) \<and> el2 w 0 0 = 10 \<and> el2 w 0 1 = 14 \<and> el2 w 1 0 = 7 \<and> el2 w 1 1 = 9) \<and>
   fst (apply_simtel_r1_calibration float32_arithmetic example_r0 example_pedestal example_dc_to_pe
          example_selector) = [example_r0] \<and>
   (\<exists>w. snd (apply_simtel_r1_calibration float32_arithmetic example_r0 example_pedestal
               example_dc_to_pe example_selector) = Inr (w, [1]) \<and>
      shape2 w = (1, 2) \<and> el2 w 0 0 = 25 \<and> el2 w 0 1 = 35)"
proof -
  let ?ar = float32_arithmetic
  have s: "shape3 single_r0 = (1, 2, 2) \<and> shape2 zero_pedestal = (1, 2) \<and> shape2 unit_dc_to_pe = (1, 2)"
    by (simp add: single_r0_def zero_pedestal_def unit_dc_to_pe_def)
  have v: "np_true_divide ?ar 0 2 = 0"
    "np_subtract ?ar 10 0 = 10" "np_multiply ?ar 10 1 = 10"
    "np_subtract ?ar 14 0 = 14" "np_multiply ?ar 14 1 = 14"
    "np_subtract ?ar 7 0 = 7" "np_multiply ?ar 7 1 = 7"
    "np_subtract ?ar 9 0 = 9" "np_multiply ?ar 9 1 = 9"
    by code_simp+
  have z: "(\<forall>p<2. el2 zero_pedestal 0 p = 0 \<and> el2 unit_dc_to_pe 0 p = 1) \<and>
           np_true_divide ?ar 0 2 = 0 \<and>
           (\<forall>p<2. \<forall>s<2. np_subtract ?ar (el3 single_r0 0 p s) 0 = el3 single_r0 0 p s \<and>
                            np_multiply ?ar (el3 single_r0 0 p s) 1 = el3 single_r0 0 p s)"
    using v by (simp add: zero_pedestal_def unit_dc_to_pe_def single_r0_def numeral_2_eq_2
        less_Suc_eq)
  have m: "shape3 example_r0 = (2, 1, 2) \<and> 1 < (2::nat) \<and> shape2 example_pedestal = (2, 1) \<and>
           shape2 example_dc_to_pe = (2, 1)"
    by (simp add: example_r0_def example_pedestal_def example_dc_to_pe_def)
  have g: "example_selector example_r0 = Inr [1] \<and> length [1::int] = 1 \<and>
           (\<forall>p<1. 0 \<le> [1::int] ! p \<and> [1::int] ! p < int 2)"
    by (simp add: example_selector_def example_r0_def)
  have u: "np_multiply ?ar (np_subtract ?ar 6 (np_true_divide ?ar 2 2)) 5 = 25"
    "np_multiply ?ar (np_subtract ?ar 8 (np_true_divide ?ar 2 2)) 5 = 35"
    by code_simp+
  have e: "all_channel_r1_waveforms ?ar example_r0 example_pedestal example_dc_to_pe = Inr r1 \<Longrightarrow>
             el3 r1 1 0 0 = 25 \<and> el3 r1 1 0 1 = 35" for r1
    using u by (auto simp: calib_defs example_r0_def example_pedestal_def example_dc_to_pe_def)
  from gain_selection_one_or_many_channels [where ar = ?ar and ?r0.0 = single_r0 and np = 2
      and ns = 2 and pedestal = zero_pedestal and dc_to_pe = unit_dc_to_pe
      and gs = example_selector and nc = 1] s z
  have f1: "fst (apply_simtel_r1_calibration ?ar single_r0 zero_pedestal unit_dc_to_pe example_selector) = []"
    and f2: "\<exists>w. snd (apply_simtel_r1_calibration ?ar single_r0 zero_pedestal unit_dc_to_pe example_selector) = Inr (w, replicate 2 0) \<and>
         shape2 w = (2, 2) \<and> (\<forall>p<2. \<forall>s<2. el2 w p s = el3 single_r0 0 p s)"
    by blast+
  from gain_selection_one_or_many_channels [where ar = ?ar and ?r0.0 = example_r0 and np = 1
      and ns = 2 and pedestal = example_pedestal and dc_to_pe = example_dc_to_pe
      and gs = example_selector and nc = 2] m g
  have f3: "fst (apply_simtel_r1_calibration ?ar example_r0 example_pedestal example_dc_to_pe example_selector) = [example_r0]"
    and f4: "\<exists>w r1. all_channel_r1_waveforms ?ar example_r0 example_pedestal example_dc_to_pe = Inr r1 \<and>
            snd (apply_simtel_r1_calibration ?ar example_r0 example_pedestal example_dc_to_pe example_selector) = Inr (w, [1]) \<and>
            shape2 w = (1, 2) \<and> (\<forall>p<1. \<forall>s. el2 w p s = el3 r1 (nat ([1] ! p)) p s)"
    by blast+
  from f2 have g2: "\<exists>w. snd (apply_simtel_r1_calibration ?ar single_r0 zero_pedestal unit_dc_to_pe example_selector) = Inr (w, [0, 0]) \<and>
      shape2 w = (2, 2) \<and> el2 w 0 0 = 10 \<and> el2 w 0 1 = 14 \<and> el2 w 1 0 = 7 \<and> el2 w 1 1 = 9"
    by (auto simp: single_r0_def numeral_2_eq_2)
  from f4 e have g4: "\<exists>w. snd (apply_simtel_r1_calibration ?ar example_r0 example_pedestal example_dc_to_pe example_selector) = Inr (w, [1]) \<and>
      shape2 w = (1, 2) \<and> el2 w 0 0 = 25 \<and> el2 w 0 1 = 35"
    by fastforce
  from f1 g2 f3 g4 show ?thesis by blast
qed

section \<open>The event generator\<close>

lemma fill_mc_camera_view:
  "header_view (fst (fill_mc_camera ev tid ti npix d)) = header_view d"
  by (simp add: fill_mc_camera_def header_view_def Let_def split: option.splits)

lemma fill_waveforms_view:
  "header_view (fst (fill_waveforms ar src tid tev adc ped calib d)) = header_view d"
  by (simp add: fill_waveforms_def header_view_def Let_def split: sum.splits prod.splits)

lemma fill_pointing_view:
  "header_view (fill_pointing tp tid d) = header_view d"
  by (simp add: fill_pointing_def header_view_def Let_def)

lemma fill_telescope_view:
  "header_view (fst (fill_telescope ar src ev tid tev d)) = header_view d"
proof -
  have "header_view d1 = header_view d" if "fill_mc_camera ev tid ti npix d = (d1, r)" for d1 r ti npix
    using fill_mc_camera_view [of ev tid ti npix d] that by simp
  then show ?thesis
    by (simp add: fill_telescope_def fill_waveforms_view fill_pointing_view
        split: option.splits sum.splits prod.splits)
qed

lemma fill_telescopes_view:
  "header_view (fst (fill_telescopes ar src ev tevs d)) = header_view d"
proof (induction tevs arbitrary: d)
  case Nil
  show ?case by simp
next
  case (Cons a tevs)
  obtain tid tev where a: "a = (tid, tev)" by (cases a)
  obtain d1 r where f: "fill_telescope ar src ev tid tev d = (d1, r)"
    by (cases "fill_telescope ar src ev tid tev d")
  with fill_telescope_view [of ar src ev tid tev d] have "header_view d1 = header_view d" by simp
  with Cons.IH [of d1] a f show ?case by (cases r) simp_all
qed

lemma fill_mc_information_view:
  "header_view (fst (fill_mc_information src ev d)) = header_view d"
  by (simp add: fill_mc_information_def header_view_def Let_def split: option.splits list.splits)

lemma clear_telescopes_view: "header_view (clear_telescopes d) = header_view d"
  by (simp add: clear_telescopes_def header_view_def)

lemma process_yield:
  assumes "process_array_event ar src c ev d = (d', Yield)"
  shows "\<exists>d1 d2. write_header src c ev d = (d1, None) \<and> select_telescopes src ev d1 = Some d2 \<and>
           header_view d' = header_view (write_trigger ev d2)"
proof -
  obtain d1 r1 where h: "write_header src c ev d = (d1, r1)" by (cases "write_header src c ev d")
  from assms h have r1: "r1 = None" by (cases r1) (simp_all add: process_array_event_def)
  from assms h r1 obtain d2 where s: "select_telescopes src ev d1 = Some d2"
    by (cases "select_telescopes src ev d1") (simp_all add: process_array_event_def)
  define m where "m = (if ev_type ev = ''data'' then fill_mc_information src ev (write_trigger ev d2)
                      else (write_trigger ev d2, None))"
  have mv: "header_view (fst m) = header_view (write_trigger ev d2)"
    by (simp add: m_def fill_mc_information_view)
  obtain d3 r3 where m: "m = (d3, r3)" by (cases m)
  from assms h r1 s m have r3: "r3 = None"
    by (cases r3) (simp_all add: process_array_event_def m_def)
  obtain d4 r4 where t: "fill_telescopes ar src ev (telescope_events ev) (clear_telescopes d3) = (d4, r4)"
    by (cases "fill_telescopes ar src ev (telescope_events ev) (clear_telescopes d3)")
  from assms h r1 s m r3 t have "d4 = d'"
    by (cases r4) (simp_all add: process_array_event_def m_def)
  with fill_telescopes_view [of ar src ev "telescope_events ev" "clear_telescopes d3"] t
  have "header_view d' = header_view d3" by (simp add: clear_telescopes_view)
  with mv m h r1 s show ?thesis by simp
qed

lemma write_header_None:
  assumes "write_header src c ev d = (d1, None)"
  shows "event_type d1 = ev_type ev \<and> count d1 = c \<and>
         index_obs_id d1 = header_run (header (src_file src)) \<and>
         r0_obs_id d1 = header_run (header (src_file src)) \<and>
         r1_obs_id d1 = header_run (header (src_file src)) \<and>
         dl0_obs_id d1 = header_run (header (src_file src)) \<and>
         index_event_id d1 = (if ev_type ev = ''calibration'' then - 1 else the (ev_event_id ev)) \<and>
         r0_event_id d1 = index_event_id d1 \<and> r1_event_id d1 = index_event_id d1 \<and>
         dl0_event_id d1 = index_event_id d1 \<and>
         r0_tels_with_data d1 = fst ` set (telescope_events ev) \<and>
         r1_tels_with_data d1 = fst ` set (telescope_events ev) \<and>
         dl0_tels_with_data d1 = fst ` set (telescope_events ev)"
proof (cases "ev_type ev = ''calibration''")
  case True
  with assms show ?thesis by (simp add: write_header_def) (erule subst, simp)
next
  case False
  with assms obtain i where "ev_event_id ev = Some i"
    by (cases "ev_event_id ev") (simp_all add: write_header_def)
  with False assms show ?thesis by (simp add: write_header_def) (erule subst, simp)
qed

text \<open>The telescopes with data that the body of the record loop leaves in the container
  at the \<^verbatim>\<open>yield\<close>.\<close>

lemma select_telescopes_Some:
  assumes "select_telescopes src ev d1 = Some d2"
  shows "(allowed_tels (src_config src) = {} \<longrightarrow> d2 = d1) \<and>
         (allowed_tels (src_config src) \<noteq> {} \<longrightarrow>
            fst ` set (telescope_events ev) \<inter> allowed_tels (src_config src) \<noteq> {} \<and>
            d2 = d1\<lparr>r0_tels_with_data := fst ` set (telescope_events ev) \<inter> allowed_tels (src_config src),
                    r1_tels_with_data := fst ` set (telescope_events ev) \<inter> allowed_tels (src_config src),
                    dl0_tels_with_data := fst ` set (telescope_events ev) \<inter> allowed_tels (src_config src)\<rparr>)"
  using assms by (simp add: select_telescopes_def Let_def split: if_splits)

lemma header_view_fields:
  assumes "header_view a = header_view b"
  shows "count a = count b" "event_type a = event_type b" "index_obs_id a = index_obs_id b"
    "index_event_id a = index_event_id b"
    "r0_tels_with_data a = r0_tels_with_data b" "r1_tels_with_data a = r1_tels_with_data b"
    "dl0_tels_with_data a = dl0_tels_with_data b"
    "trig_tels_with_trigger a = trig_tels_with_trigger b" "trig_gps_time a = trig_gps_time b"
proof -
  have "count (header_view a) = count (header_view b)" using assms by simp
  then show "count a = count b" by (simp add: header_view_def)
  have "event_type (header_view a) = event_type (header_view b)" using assms by simp
  then show "event_type a = event_type b" by (simp add: header_view_def)
  have "index_obs_id (header_view a) = index_obs_id (header_view b)" using assms by simp
  then show "index_obs_id a = index_obs_id b" by (simp add: header_view_def)
  have "index_event_id (header_view a) = index_event_id (header_view b)" using assms by simp
  then show "index_event_id a = index_event_id b" by (simp add: header_view_def)
  have "r0_tels_with_data (header_view a) = r0_tels_with_data (header_view b)" using assms by simp
  then show "r0_tels_with_data a = r0_tels_with_data b" by (simp add: header_view_def)
  have "r1_tels_with_data (header_view a) = r1_tels_with_data (header_view b)" using assms by simp
  then show "r1_tels_with_data a = r1_tels_with_data b" by (simp add: header_view_def)
  have "dl0_tels_with_data (header_view a) = dl0_tels_with_data (header_view b)" using assms by simp
  then show "dl0_tels_with_data a = dl0_tels_with_data b" by (simp add: header_view_def)
  have "trig_tels_with_trigger (header_view a) = trig_tels_with_trigger (header_view b)" using assms by simp
  then show "trig_tels_with_trigger a = trig_tels_with_trigger b" by (simp add: header_view_def)
  have "trig_gps_time (header_view a) = trig_gps_time (header_view b)" using assms by simp
  then show "trig_gps_time a = trig_gps_time b" by (simp add: header_view_def)
qed

lemma process_yield_fields:
  assumes "process_array_event ar src c ev d = (d', Yield)"
  shows "count d' = c \<and> event_type d' = ev_type ev \<and>
         index_obs_id d' = header_run (header (src_file src)) \<and>
         index_event_id d' = (if ev_type ev = ''calibration'' then - 1 else the (ev_event_id ev)) \<and>
         r0_tels_with_data d' =
           (if allowed_tels (src_config src) = {} then fst ` set (telescope_events ev)
            else fst ` set (telescope_events ev) \<inter> allowed_tels (src_config src)) \<and>
         r1_tels_with_data d' = r0_tels_with_data d' \<and>
         dl0_tels_with_data d' = r0_tels_with_data d' \<and>
         trig_tels_with_trigger d' = triggered_telescopes (trigger_information ev) \<and>
         trig_gps_time d' = gps_time (trigger_information ev)"
proof -
  from process_yield [OF assms] obtain d1 d2 where
    h: "write_header src c ev d = (d1, None)" and s: "select_telescopes src ev d1 = Some d2"
    and v: "header_view d' = header_view (write_trigger ev d2)"
    by blast
  note f = header_view_fields [OF v]
  note w = write_header_None [OF h]
  show ?thesis
  proof (cases "allowed_tels (src_config src) = {}")
    case True
    with select_telescopes_Some [OF s] have "d2 = d1" by simp
    with f w True show ?thesis by (simp add: write_trigger_def)
  next
    case False
    with select_telescopes_Some [OF s]
    have "d2 = d1\<lparr>r0_tels_with_data := fst ` set (telescope_events ev) \<inter> allowed_tels (src_config src),
                    r1_tels_with_data := fst ` set (telescope_events ev) \<inter> allowed_tels (src_config src),
                    dl0_tels_with_data := fst ` set (telescope_events ev) \<inter> allowed_tels (src_config src)\<rparr>"
      by simp
    with f w False show ?thesis by (simp add: write_trigger_def)
  qed
qed

lemma write_header_ok:
  "ev_type ev = ''calibration'' \<or> ev_event_id ev \<noteq> None \<Longrightarrow> snd (write_header src c ev d) = None"
  by (auto simp: write_header_def)

lemma process_not_selected:
  assumes "allowed_tels (src_config src) \<noteq> {}"
    and "fst ` set (telescope_events ev) \<inter> allowed_tels (src_config src) = {}"
  shows "snd (process_array_event ar src c ev d) \<noteq> Yield"
    and "ev_type ev = ''calibration'' \<or> ev_event_id ev \<noteq> None \<Longrightarrow>
         process_array_event ar src c ev d = (fst (write_header src c ev d), Continue)"
proof -
  have sel: "select_telescopes src ev d1 = None" for d1
    using assms by (simp add: select_telescopes_def)
  show "snd (process_array_event ar src c ev d) \<noteq> Yield"
    by (simp add: process_array_event_def sel split: prod.splits option.splits)
  assume "ev_type ev = ''calibration'' \<or> ev_event_id ev \<noteq> None"
  then have "snd (write_header src c ev d) = None"
    by (auto simp: write_header_def)
  then obtain d1 where "write_header src c ev d = (d1, None)"
    by (cases "write_header src c ev d") simp
  then show "process_array_event ar src c ev d = (fst (write_header src c ev d), Continue)"
    by (simp add: process_array_event_def sel)
qed

lemma event_loop_yielded:
  assumes "(r, y) \<in> set (yielded (event_loop ar src ref trunc c evs d))"
  shows "r = ref \<and> (\<exists>i<length evs. \<exists>d0. process_array_event ar src (c + i) (evs ! i) d0 = (y, Yield))"
  using assms
proof (induction evs arbitrary: c d)
  case Nil
  then show ?case by simp
next
  case (Cons ev evs)
  obtain d1 st where p: "process_array_event ar src c ev d = (d1, st)"
    by (cases "process_array_event ar src c ev d")
  have later: "r = ref \<and> (\<exists>i<length (ev # evs). \<exists>d0.
                  process_array_event ar src (c + i) ((ev # evs) ! i) d0 = (y, Yield))"
    if "(r, y) \<in> set (yielded (event_loop ar src ref trunc (Suc c) evs d1))"
  proof -
    from Cons.IH [OF that] obtain i d0 where "r = ref" "i < length evs"
      "process_array_event ar src (Suc c + i) (evs ! i) d0 = (y, Yield)" by blast
    then have "Suc i < length (ev # evs) \<and>
        process_array_event ar src (c + Suc i) ((ev # evs) ! Suc i) d0 = (y, Yield)" by simp
    with \<open>r = ref\<close> show ?thesis by blast
  qed
  show ?case
  proof (cases st)
    case Yield
    with Cons.prems p have "(r, y) = (ref, d1) \<or> (r, y) \<in> set (yielded (event_loop ar src ref trunc (Suc c) evs d1))"
      by (simp add: Let_def)
    then show ?thesis
    proof
      assume "(r, y) = (ref, d1)"
      with p Yield have "r = ref \<and> 0 < length (ev # evs) \<and>
         process_array_event ar src (c + 0) ((ev # evs) ! 0) d = (y, Yield)" by simp
      then show ?thesis by blast
    qed (rule later)
  next
    case Continue
    with Cons.prems p have "(r, y) \<in> set (yielded (event_loop ar src ref trunc (Suc c) evs d1))"
      by (simp add: Let_def)
    then show ?thesis by (rule later)
  next
    case (Raise e)
    with Cons.prems p show ?thesis by simp
  qed
qed


lemma event_loop_trunc:
  "event_loop ar src ref True c evs d =
     (event_loop ar src ref False c evs d)\<lparr>raised :=
        (case raised (event_loop ar src ref False c evs d) of None \<Rightarrow> Some EOFError | Some e \<Rightarrow> Some e)\<rparr>"
proof (induction evs arbitrary: c d)
  case Nil
  show ?case by simp
next
  case (Cons ev evs)
  obtain d1 st where p: "process_array_event ar src c ev d = (d1, st)"
    by (cases "process_array_event ar src c ev d")
  show ?case
  proof (cases st)
    case Yield
    with p Cons.IH [of "Suc c" d1] show ?thesis by (simp add: Let_def)
  next
    case Continue
    with p Cons.IH [of "Suc c" d1] show ?thesis by (simp add: Let_def)
  next
    case (Raise e)
    with p show ?thesis by simp
  qed
qed

lemma event_loop_all_yield:
  assumes "\<forall>ev\<in>set evs. \<forall>c d. snd (process_array_event ar src c ev d) = Yield"
  shows "length (yielded (event_loop ar src ref trunc c evs d)) = length evs \<and>
         raised (event_loop ar src ref trunc c evs d) = (if trunc then Some EOFError else None) \<and>
         records_read (event_loop ar src ref trunc c evs d) = length evs"
  using assms
proof (induction evs arbitrary: c d)
  case Nil
  show ?case by simp
next
  case (Cons ev evs)
  obtain d1 st where p: "process_array_event ar src c ev d = (d1, st)"
    by (cases "process_array_event ar src c ev d")
  from Cons.prems have "snd (process_array_event ar src c ev d) = Yield" by simp
  with p have st: "st = Yield" by simp
  from Cons.prems have "\<forall>ev\<in>set evs. \<forall>c d. snd (process_array_event ar src c ev d) = Yield" by simp
  from Cons.IH [OF this, of "Suc c" d1] p st show ?case by (simp add: Let_def)
qed

lemma generator_run:
  assumes "generator ar src fresh heap = (msgs, g, heap')"
  shows "\<exists>g0. g0 = event_loop ar (src\<lparr>src_file := fst (rewind src)\<rparr>) (length heap)
                    (truncated (src_file src)) 0 (remaining_records (fst (rewind src)))
                    (new_event_container src fresh) \<and>
           yielded g = yielded g0 \<and> final_data g = final_data g0 \<and>
           records_read g = records_read g0 \<and> heap' = heap @ [final_data g0] \<and>
           raised g = (if raised g0 = Some EOFError then None else raised g0) \<and>
           msgs = snd (rewind src) @
             (if raised g0 = Some EOFError
              then [Logged (TruncatedWarning (input_url (src_config src))),
                    Warned (TruncatedWarning (input_url (src_config src)))]
              else [])"
proof -
  obtain f m where r: "rewind src = (f, m)" by (cases "rewind src")
  then have t: "truncated f = truncated (src_file src)"
    by (auto simp: rewind_def split: if_splits)
  have n: "new_event_container (src\<lparr>src_file := f\<rparr>) fresh = new_event_container src fresh"
    by (simp add: new_event_container_def)
  from assms r t n show ?thesis
    by (auto simp: generator_def dunder_generator_def Let_def split: if_splits)
qed


lemma event_loop_skip:
  assumes "process_array_event ar src c ev d = (d1, Continue)"
  shows "yielded (event_loop ar src ref trunc c (ev # evs) d) =
           yielded (event_loop ar src ref trunc (Suc c) evs d1) \<and>
         raised (event_loop ar src ref trunc c (ev # evs) d) =
           raised (event_loop ar src ref trunc (Suc c) evs d1) \<and>
         final_data (event_loop ar src ref trunc c (ev # evs) d) =
           final_data (event_loop ar src ref trunc (Suc c) evs d1) \<and>
         records_read (event_loop ar src ref trunc c (ev # evs) d) =
           Suc (records_read (event_loop ar src ref trunc (Suc c) evs d1))"
  using assms by (simp add: Let_def)

lemma generator_yielded_fields:
  assumes "(r, y) \<in> set (yielded (fst (snd (generator ar src fresh heap))))"
  shows "r = length heap \<and> count y < length (remaining_records (fst (rewind src))) \<and>
         (\<exists>d0. process_array_event ar (src\<lparr>src_file := fst (rewind src)\<rparr>) (count y)
                 (remaining_records (fst (rewind src)) ! count y) d0 = (y, Yield))"
proof -
  obtain msgs g heap' where g: "generator ar src fresh heap = (msgs, g, heap')"
    by (cases "generator ar src fresh heap") auto
  from generator_run [OF g] g assms
  have "(r, y) \<in> set (yielded (event_loop ar (src\<lparr>src_file := fst (rewind src)\<rparr>) (length heap)
                    (truncated (src_file src)) 0 (remaining_records (fst (rewind src)))
                    (new_event_container src fresh)))"
    by simp
  from event_loop_yielded [OF this] obtain i d0 where
    r: "r = length heap" and i: "i < length (remaining_records (fst (rewind src)))"
    and p: "process_array_event ar (src\<lparr>src_file := fst (rewind src)\<rparr>) (0 + i)
              (remaining_records (fst (rewind src)) ! i) d0 = (y, Yield)"
    by blast
  from process_yield_fields [OF p] have "count y = i" by simp
  with r i p show ?thesis by auto
qed

lemmas example_defs = example_header_def example_telescope_event_def example_tracking_def
  example_event_def example_run_head_def example_file_def example_config_def example_source_def
  example_r0_def example_pedestal_def example_dc_to_pe_def example_selector_def

lemmas body_defs = process_array_event_def write_header_def select_telescopes_def write_trigger_def
  clear_telescopes_def fill_mc_information_def fill_telescope_def read_adc_samples_def
  fill_mc_camera_def fill_pointing_def fill_waveforms_def fill_trigger_pixels_def get_default_def
  new_mc_camera_def new_r0_camera_def new_r1_camera_def isnan_def

lemma example_step: "snd (process_array_event ar example_source c example_event d) = Yield"
  by (simp add: body_defs calib_defs example_defs Let_def)

lemma example_rewind: "rewind example_source = (example_file, [])"
  by (simp add: rewind_def tell_def example_source_def example_file_def)

lemma example_records:
  "remaining_records example_file = [example_event, example_event, example_event]"
  by (simp add: remaining_records_def example_file_def)

lemma example_source_file: "example_source\<lparr>src_file := example_file\<rparr> = example_source"
  by (simp add: example_source_def)

lemma example_nth: "i < 3 \<Longrightarrow> [example_event, example_event, example_event] ! i = example_event"
  by (auto simp: numeral_3_eq_3 less_Suc_eq)

lemma example_keys: "fst ` set (telescope_events example_event) = {1, 3, 5, 7}"
  by (simp add: example_event_def)

lemma example_first_yield:
  "\<exists>y. (0, y) \<in> set (yielded (fst (snd (generator ar example_source example_container []))))"
proof -
  obtain msgs g heap' where g: "generator ar example_source example_container [] = (msgs, g, heap')"
    by (cases "generator ar example_source example_container []") auto
  from generator_run [OF g]
  have y: "yielded g = yielded (event_loop ar example_source 0 True 0
             [example_event, example_event, example_event]
             (new_event_container example_source example_container))"
    by (simp add: example_rewind example_records example_source_file)
       (simp add: example_source_def example_file_def)
  have ay: "\<forall>ev\<in>set [example_event, example_event, example_event].
              \<forall>c d. snd (process_array_event ar example_source c ev d) = Yield"
    by (simp add: example_step)
  have "length (yielded g) = 3"
    unfolding y
    using event_loop_all_yield [OF ay, of 0 True 0 "new_event_container example_source example_container",
        THEN conjunct1]
    by (simp del: event_loop.simps)
  then obtain p where p: "p \<in> set (yielded g)" by (cases "yielded g") auto
  obtain r y where "p = (r, y)" by (cases p)
  with p g generator_yielded_fields [of r y ar example_source example_container "[]"]
  show ?thesis by auto
qed

lemma example_yield:
  "\<exists>y. (0, y) \<in> set (yielded (fst (snd (generator ar example_source example_container [])))) \<and>
       count y < 3 \<and> r0_tels_with_data y = {3, 5} \<and> trig_tels_with_trigger y = [1, 3, 5, 7]"
proof -
  from example_first_yield obtain y where
    y: "(0, y) \<in> set (yielded (fst (snd (generator ar example_source example_container []))))"
    by blast
  from generator_yielded_fields [OF y] obtain d0 where
    n: "count y < 3"
    and p: "process_array_event ar example_source (count y) example_event d0 = (y, Yield)"
    by (auto simp: example_rewind example_records example_source_file example_nth)
  from process_yield_fields [OF p]
  have "r0_tels_with_data y = {3, 5} \<and> trig_tels_with_trigger y = [1, 3, 5, 7]"
    by (simp add: example_keys) (simp add: example_source_def example_config_def example_event_def)
  with y n show ?thesis by blast
qed


lemma partial_step:
  "snd (process_array_event ar partial_source c partial_event d) = Yield"
  "snd (process_array_event ar partial_source c untriggered_event d) = Yield"
  by (simp_all add: body_defs calib_defs example_defs partial_source_def partial_event_def
      untriggered_event_def Let_def)

lemma partial_run:
  "\<exists>y1 y2. process_array_event ar partial_source 0 partial_event
               (new_event_container partial_source example_container) = (y1, Yield) \<and>
           process_array_event ar partial_source 1 untriggered_event y1 = (y2, Yield) \<and>
           generator ar partial_source example_container [] =
             ([], \<lparr>yielded = [(0, y1), (0, y2)], final_data = y2, raised = None, records_read = 2\<rparr>,
              [y2])"
proof -
  let ?d = "new_event_container partial_source example_container"
  obtain y1 where p1: "process_array_event ar partial_source 0 partial_event ?d = (y1, Yield)"
    using partial_step(1) [of ar 0 ?d]
    by (cases "process_array_event ar partial_source 0 partial_event ?d") simp
  obtain y2 where p2: "process_array_event ar partial_source 1 untriggered_event y1 = (y2, Yield)"
    using partial_step(2) [of ar 1 y1]
    by (cases "process_array_event ar partial_source 1 untriggered_event y1") simp
  have r: "rewind partial_source = (src_file partial_source, [])"
    by (simp add: rewind_def tell_def partial_source_def example_source_def example_file_def)
  have f: "partial_source\<lparr>src_file := src_file partial_source\<rparr> = partial_source" by simp
  have t: "\<not> truncated (src_file partial_source)"
    "remaining_records (src_file partial_source) = [partial_event, untriggered_event]"
    by (simp_all add: partial_source_def example_source_def example_file_def remaining_records_def)
  from p1 p2 show ?thesis
    by (simp add: generator_def dunder_generator_def r f t Let_def)
qed

text \<open>
  C3. In every event that the generator yields, the telescopes with data of the R0, R1
  and DL0 containers are the same set. With an empty allow-list it is the set of
  telescopes with data of the record (the keys of its telescope events, line 310); with
  a non-empty allow-list it is the intersection of that set with the allow-list, which
  is not empty and lies inside the allow-list. The set that is filtered is the one of
  the telescopes with data, not the list of triggered telescopes in the record's trigger
  information, of which the filter reads nothing. The record is the one at the position
  that the event's counter gives. A record none of whose telescopes with data is allowed
  never reaches the \<^verbatim>\<open>yield\<close>; when it is a calibration event or has an event id, the
  loop goes on with the next record and the next counter, and the events yielded are
  those of the rest.
\<close>

theorem tels_with_data_filtered:
  "(\<forall>r y. (r, y) \<in> set (yielded (fst (snd (generator ar src fresh heap)))) \<longrightarrow>
      count y < length (remaining_records (fst (rewind src))) \<and>
      r1_tels_with_data y = r0_tels_with_data y \<and>
      dl0_tels_with_data y = r0_tels_with_data y \<and>
      r0_tels_with_data y =
        (if allowed_tels (src_config src) = {}
         then fst ` set (telescope_events (remaining_records (fst (rewind src)) ! count y))
         else fst ` set (telescope_events (remaining_records (fst (rewind src)) ! count y))
                \<inter> allowed_tels (src_config src)) \<and>
      (allowed_tels (src_config src) \<noteq> {} \<longrightarrow>
         r0_tels_with_data y \<subseteq> allowed_tels (src_config src) \<and> r0_tels_with_data y \<noteq> {})) \<and>
   (allowed_tels (src_config src) \<noteq> {} \<and>
    fst ` set (telescope_events ev) \<inter> allowed_tels (src_config src) = {} \<longrightarrow>
      snd (process_array_event ar src c ev d) \<noteq> Yield \<and>
      (ev_type ev = ''calibration'' \<or> ev_event_id ev \<noteq> None \<longrightarrow>
         snd (process_array_event ar src c ev d) = Continue \<and>
         yielded (event_loop ar src ref trunc c (ev # evs) d) =
           yielded (event_loop ar src ref trunc (Suc c) evs (fst (process_array_event ar src c ev d))) \<and>
         raised (event_loop ar src ref trunc c (ev # evs) d) =
           raised (event_loop ar src ref trunc (Suc c) evs (fst (process_array_event ar src c ev d))) \<and>
         records_read (event_loop ar src ref trunc c (ev # evs) d) =
           Suc (records_read (event_loop ar src ref trunc (Suc c) evs
                  (fst (process_array_event ar src c ev d))))))"
proof (intro conjI allI impI)
  fix r y
  assume y: "(r, y) \<in> set (yielded (fst (snd (generator ar src fresh heap))))"
  let ?src = "src\<lparr>src_file := fst (rewind src)\<rparr>"
  let ?ev = "remaining_records (fst (rewind src)) ! count y"
  from generator_yielded_fields [OF y] obtain d0 where
    n: "count y < length (remaining_records (fst (rewind src)))"
    and p: "process_array_event ar ?src (count y) ?ev d0 = (y, Yield)"
    by blast
  note f = process_yield_fields [OF p]
  from n show "count y < length (remaining_records (fst (rewind src)))" .
  from f show "r1_tels_with_data y = r0_tels_with_data y" by simp
  from f show "dl0_tels_with_data y = r0_tels_with_data y" by simp
  from f show t: "r0_tels_with_data y =
        (if allowed_tels (src_config src) = {}
         then fst ` set (telescope_events ?ev)
         else fst ` set (telescope_events ?ev) \<inter> allowed_tels (src_config src))" by simp
  assume a: "allowed_tels (src_config src) \<noteq> {}"
  with t show "r0_tels_with_data y \<subseteq> allowed_tels (src_config src)" by simp
  obtain d1 r1 where h: "write_header ?src (count y) ?ev d0 = (d1, r1)"
    by (cases "write_header ?src (count y) ?ev d0")
  from process_yield [OF p] obtain d1 d2 where "select_telescopes ?src ?ev d1 = Some d2" by blast
  from select_telescopes_Some [OF this] a t show "r0_tels_with_data y \<noteq> {}" by simp
next
  assume a: "allowed_tels (src_config src) \<noteq> {} \<and>
    fst ` set (telescope_events ev) \<inter> allowed_tels (src_config src) = {}"
  then show "snd (process_array_event ar src c ev d) \<noteq> Yield"
    using process_not_selected(1) by blast
  assume w: "ev_type ev = ''calibration'' \<or> ev_event_id ev \<noteq> None"
  with a have p: "process_array_event ar src c ev d = (fst (write_header src c ev d), Continue)"
    using process_not_selected(2) by blast
  then show "snd (process_array_event ar src c ev d) = Continue" by simp
  from p have q: "process_array_event ar src c ev d = (fst (process_array_event ar src c ev d), Continue)"
    by simp
  note s = event_loop_skip [OF q, of ref trunc evs]
  from s show "yielded (event_loop ar src ref trunc c (ev # evs) d) =
           yielded (event_loop ar src ref trunc (Suc c) evs (fst (process_array_event ar src c ev d)))"
    by blast
  from s show "raised (event_loop ar src ref trunc c (ev # evs) d) =
           raised (event_loop ar src ref trunc (Suc c) evs (fst (process_array_event ar src c ev d)))"
    by blast
  from s show "records_read (event_loop ar src ref trunc c (ev # evs) d) =
           Suc (records_read (event_loop ar src ref trunc (Suc c) evs
                  (fst (process_array_event ar src c ev d))))"
    by blast
qed


theorem tels_with_data_filtered_witness:
  "(\<exists>y. (0, y) \<in> set (yielded (fst (snd (generator float32_arithmetic example_source example_container [])))) \<and>
        r0_tels_with_data y = {3, 5} \<and> r1_tels_with_data y = {3, 5} \<and>
        dl0_tels_with_data y = {3, 5}) \<and>
   snd (process_array_event float32_arithmetic only_nine 0 example_event example_container) = Continue \<and>
   yielded (event_loop float32_arithmetic only_nine 0 True 0 [example_event] example_container) = []"
proof -
  from example_first_yield obtain y where
    y: "(0, y) \<in> set (yielded (fst (snd (generator float32_arithmetic example_source example_container []))))"
    by blast
  have a: "allowed_tels (src_config example_source) = {3, 5}"
    by (simp add: example_source_def example_config_def)
  note t = tels_with_data_filtered [of float32_arithmetic example_source example_container "[]" example_event 0
         example_container 0 True "[]", THEN conjunct1, rule_format, OF y]
  from t have "count y < 3" by (simp add: example_rewind example_records)
  with t a
  have "r0_tels_with_data y = {3, 5} \<and> r1_tels_with_data y = {3, 5} \<and> dl0_tels_with_data y = {3, 5}"
    by (simp add: example_rewind example_records example_nth example_keys)
  moreover
  have b: "allowed_tels (src_config only_nine) = {9}"
    by (simp add: only_nine_def)
  from tels_with_data_filtered [of float32_arithmetic only_nine example_container "[]" example_event 0
         example_container 0 True "[]", THEN conjunct2] b
  have "snd (process_array_event float32_arithmetic only_nine 0 example_event example_container) = Continue \<and>
        yielded (event_loop float32_arithmetic only_nine 0 True 0 [example_event] example_container) = []"
    by (simp add: example_keys) (simp add: example_event_def)
  ultimately show ?thesis using y by blast
qed

text \<open>
  The telescopes with data and the triggered telescopes of a record differ in the file
  \<open>partial_source\<close>, whose allow-list is \<open>{3, 5}\<close>. In its first record the telescopes 1,
  3, 5 and 7 triggered and only telescope 3 has data: the event yielded has the
  telescopes with data \<open>{3}\<close>, which is not the intersection \<open>{3, 5}\<close> of the triggered
  telescopes with the allow-list. In its second record only telescope 1 triggered, so
  that no triggered telescope is allowed, and telescope 3 has data: an event is yielded
  for it.
\<close>

theorem tels_with_data_are_not_the_triggered_telescopes:
  "\<exists>y1 y2. yielded (fst (snd (generator float32_arithmetic partial_source example_container []))) =
             [(0, y1), (0, y2)] \<and>
     allowed_tels (src_config partial_source) = {3, 5} \<and>
     set (triggered_telescopes (trigger_information partial_event)) = {1, 3, 5, 7} \<and>
     fst ` set (telescope_events partial_event) = {3} \<and>
     index_event_id y1 = 42 \<and> r0_tels_with_data y1 = {3} \<and>
     r0_tels_with_data y1 \<noteq>
       set (triggered_telescopes (trigger_information partial_event)) \<inter>
       allowed_tels (src_config partial_source) \<and>
     set (triggered_telescopes (trigger_information untriggered_event)) \<inter>
       allowed_tels (src_config partial_source) = {} \<and>
     index_event_id y2 = 44 \<and> r0_tels_with_data y2 = {3}"
proof -
  from partial_run [of float32_arithmetic] obtain y1 y2 where
    p1: "process_array_event float32_arithmetic partial_source 0 partial_event
               (new_event_container partial_source example_container) = (y1, Yield)"
    and p2: "process_array_event float32_arithmetic partial_source 1 untriggered_event y1 = (y2, Yield)"
    and g: "generator float32_arithmetic partial_source example_container [] =
             ([], \<lparr>yielded = [(0, y1), (0, y2)], final_data = y2, raised = None, records_read = 2\<rparr>,
              [y2])"
    by blast
  have a: "allowed_tels (src_config partial_source) = {3, 5}"
    by (simp add: partial_source_def example_source_def example_config_def)
  have k: "fst ` set (telescope_events partial_event) = {3}"
    "fst ` set (telescope_events untriggered_event) = {3}"
    by (simp_all add: partial_event_def untriggered_event_def)
  have t: "set (triggered_telescopes (trigger_information partial_event)) = {1, 3, 5, 7}"
    "set (triggered_telescopes (trigger_information untriggered_event)) = {1}"
    by (simp_all add: partial_event_def untriggered_event_def example_event_def)
  from process_yield_fields [OF p1] a k
  have y1: "index_event_id y1 = 42" "r0_tels_with_data y1 = {3}"
    by (simp_all add: partial_event_def example_event_def)
  from process_yield_fields [OF p2] a k
  have y2: "index_event_id y2 = 44" "r0_tels_with_data y2 = {3}"
    by (simp_all add: untriggered_event_def example_event_def)
  have n: "{3::int} \<noteq> {1, 3, 5, 7} \<inter> {3, 5}" by auto
  have e: "{1::int} \<inter> {3, 5} = {}" by simp
  from g y1 y2 a k t n e show ?thesis by simp
qed


text \<open>
  C9. In every event that the generator yields, the triggered telescopes of the trigger
  container are the list of the record's trigger information, whatever the allow-list
  is; and there is a source with a non-empty allow-list that yields an event whose
  triggered telescopes are a strict superset of its telescopes with data.
\<close>

theorem tels_with_trigger_copied:
  "(\<forall>r y. (r, y) \<in> set (yielded (fst (snd (generator ar src fresh heap)))) \<longrightarrow>
      count y < length (remaining_records (fst (rewind src))) \<and>
      trig_tels_with_trigger y =
        triggered_telescopes (trigger_information (remaining_records (fst (rewind src)) ! count y))) \<and>
   (\<exists>src' fresh' heap' r y.
      allowed_tels (src_config src') \<noteq> {} \<and>
      (r, y) \<in> set (yielded (fst (snd (generator ar src' fresh' heap')))) \<and>
      r0_tels_with_data y \<subset> set (trig_tels_with_trigger y))"
proof (intro conjI allI impI)
  fix r y
  assume y: "(r, y) \<in> set (yielded (fst (snd (generator ar src fresh heap))))"
  from generator_yielded_fields [OF y] obtain d0 where
    n: "count y < length (remaining_records (fst (rewind src)))"
    and p: "process_array_event ar (src\<lparr>src_file := fst (rewind src)\<rparr>) (count y)
              (remaining_records (fst (rewind src)) ! count y) d0 = (y, Yield)"
    by blast
  from n show "count y < length (remaining_records (fst (rewind src)))" .
  from process_yield_fields [OF p]
  show "trig_tels_with_trigger y =
        triggered_telescopes (trigger_information (remaining_records (fst (rewind src)) ! count y))"
    by simp
next
  from example_yield obtain y where
    "(0, y) \<in> set (yielded (fst (snd (generator ar example_source example_container []))))"
    "r0_tels_with_data y = {3, 5}" "trig_tels_with_trigger y = [1, 3, 5, 7]"
    by blast
  moreover have "allowed_tels (src_config example_source) \<noteq> {}"
    by (simp add: example_source_def example_config_def)
  moreover have "{3, 5} \<subset> set [1, 3, 5, 7 :: int]"
  proof (rule psubsetI)
    show "{3, 5} \<subseteq> set [1, 3, 5, 7 :: int]" by simp
    have "(1::int) \<in> set [1, 3, 5, 7]" "(1::int) \<notin> {3, 5}" by simp_all
    then show "{3, 5} \<noteq> set [1, 3, 5, 7 :: int]" by metis
  qed
  ultimately show "\<exists>src' fresh' heap' r y.
      allowed_tels (src_config src') \<noteq> {} \<and>
      (r, y) \<in> set (yielded (fst (snd (generator ar src' fresh' heap')))) \<and>
      r0_tels_with_data y \<subset> set (trig_tels_with_trigger y)"
    by metis
qed

theorem tels_with_trigger_copied_witness:
  "\<exists>y. (0, y) \<in> set (yielded (fst (snd (generator float32_arithmetic example_source example_container [])))) \<and>
       trig_tels_with_trigger y = [1, 3, 5, 7] \<and> r0_tels_with_data y = {3, 5}"
proof -
  from example_yield obtain y where
    y: "(0, y) \<in> set (yielded (fst (snd (generator float32_arithmetic example_source example_container []))))"
    and r: "r0_tels_with_data y = {3, 5}"
    by blast
  note t = tels_with_trigger_copied [of float32_arithmetic example_source example_container "[]", THEN conjunct1,
      rule_format, OF y]
  from t have "count y < 3" by (simp add: example_rewind example_records)
  with t have "trig_tels_with_trigger y = [1, 3, 5, 7]"
    by (simp add: example_rewind example_records example_nth) (simp add: example_event_def)
  with y r show ?thesis by blast
qed


subsection \<open>Pointing\<close>

lemma fill_mc_camera_pointing: "pointing (fst (fill_mc_camera ev tid ti npix d)) = pointing d"
  by (simp add: fill_mc_camera_def Let_def split: option.splits)

lemma fill_waveforms_pointing:
  "pointing (fst (fill_waveforms ar src tid tev adc ped calib d)) = pointing d"
  by (simp add: fill_waveforms_def Let_def split: sum.splits prod.splits)

lemma fill_pointing_pointing:
  "pointing (fill_pointing tp tid d) = (pointing d)(tid \<mapsto>
     \<lparr>pointing_azimuth = (if isnan (get_default (azimuth_cor tp) NaN) then azimuth_raw tp
                           else get_default (azimuth_cor tp) NaN),
      pointing_altitude = (if isnan (get_default (altitude_cor tp) NaN) then altitude_raw tp
                            else get_default (altitude_cor tp) NaN)\<rparr>)"
  by (simp add: fill_pointing_def Let_def)

lemma fill_telescope_pointing:
  assumes "fill_telescope ar src ev tid tev d = (d', r)"
  shows "pointing d' = pointing d \<and> r \<noteq> None \<or>
         (\<exists>tp. tracking_positions ev tid = Some tp \<and>
            pointing d' = pointing (fill_pointing tp tid d))"
proof (cases "first_index (header_tel_id (header (src_file src))) tid")
  case None
  with assms show ?thesis by (auto simp: fill_telescope_def)
next
  case (Some ti)
  show ?thesis
  proof (cases "read_adc_samples tev")
    case (Inl e)
    with Some assms show ?thesis by (auto simp: fill_telescope_def)
  next
    case (Inr adc)
    obtain d1 r1 where mc: "fill_mc_camera ev tid ti (fst (snd (shape3 adc))) d = (d1, r1)"
      by (cases "fill_mc_camera ev tid ti (fst (snd (shape3 adc))) d")
    with fill_mc_camera_pointing [of ev tid ti "fst (snd (shape3 adc))" d]
    have p1: "pointing d1 = pointing d" by simp
    show ?thesis
    proof (cases r1)
      case (Inl e)
      with Some Inr mc assms p1 show ?thesis by (auto simp: fill_telescope_def)
    next
      case r: (Inr cp)
      obtain calib ped where cp: "cp = (calib, ped)" by (cases cp)
      show ?thesis
      proof (cases "tracking_positions ev tid")
        case None
        with Some Inr mc r cp assms p1 show ?thesis by (auto simp: fill_telescope_def)
      next
        case tp: (Some tp)
        with Some Inr mc r cp assms
        have w: "fill_waveforms ar src tid tev adc ped calib (fill_pointing tp tid d1) = (d', r)"
          by (simp add: fill_telescope_def)
        with fill_waveforms_pointing [of ar src tid tev adc ped calib "fill_pointing tp tid d1"]
        have "pointing d' = pointing (fill_pointing tp tid d1)" by simp
        with p1 have "pointing d' = pointing (fill_pointing tp tid d)"
          by (simp add: fill_pointing_pointing)
        with tp show ?thesis by blast
      qed
    qed
  qed
qed

lemma fill_telescopes_pointing_other:
  assumes "fill_telescopes ar src ev tevs d = (d', r)" "t \<notin> fst ` set tevs"
  shows "pointing d' t = pointing d t"
  using assms
proof (induction tevs arbitrary: d)
  case Nil
  then show ?case by simp
next
  case (Cons a tevs)
  obtain tid tev where a: "a = (tid, tev)" by (cases a)
  obtain d1 r1 where f: "fill_telescope ar src ev tid tev d = (d1, r1)"
    by (cases "fill_telescope ar src ev tid tev d")
  from Cons.prems a have ne: "t \<noteq> tid" and nt: "t \<notin> fst ` set tevs" by auto
  from fill_telescope_pointing [OF f] ne have p1: "pointing d1 t = pointing d t"
    by (auto simp: fill_pointing_pointing)
  show ?case
  proof (cases r1)
    case None
    with Cons.prems a f have "fill_telescopes ar src ev tevs d1 = (d', r)" by simp
    from Cons.IH [OF this nt] p1 show ?thesis by simp
  next
    case (Some e)
    with Cons.prems a f have "d' = d1" by simp
    with p1 show ?thesis by simp
  qed
qed

lemma fill_telescopes_pointing:
  assumes "fill_telescopes ar src ev tevs d = (d', None)" "t \<in> fst ` set tevs"
  shows "\<exists>tp. tracking_positions ev t = Some tp \<and>
           pointing d' t = pointing (fill_pointing tp t d) t"
  using assms
proof (induction tevs arbitrary: d)
  case Nil
  then show ?case by simp
next
  case (Cons a tevs)
  obtain tid tev where a: "a = (tid, tev)" by (cases a)
  obtain d1 r1 where f: "fill_telescope ar src ev tid tev d = (d1, r1)"
    by (cases "fill_telescope ar src ev tid tev d")
  from Cons.prems a f have r1: "r1 = None" by (cases r1) simp_all
  with Cons.prems a f have rest: "fill_telescopes ar src ev tevs d1 = (d', None)" by simp
  show ?case
  proof (cases "t \<in> fst ` set tevs")
    case True
    from Cons.IH [OF rest True] show ?thesis by (simp add: fill_pointing_pointing)
  next
    case False
    with Cons.prems a have t: "t = tid" by auto
    from fill_telescopes_pointing_other [OF rest False] have "pointing d' t = pointing d1 t" .
    moreover from fill_telescope_pointing [OF f] r1 obtain tp where
      "tracking_positions ev tid = Some tp" "pointing d1 = pointing (fill_pointing tp tid d)"
      by auto
    ultimately show ?thesis using t by simp
  qed
qed

text \<open>
  C7. When the body of the record loop reaches the \<^verbatim>\<open>yield\<close>, every telescope of the
  record has a tracking position, and its pointing in the container is resolved axis by
  axis: the azimuth is the corrected azimuth when that is present and not nan, and the
  raw azimuth when the corrected one is absent (read as nan) or nan; the altitude
  likewise, from the altitude values alone.
\<close>

theorem pointing_prefers_corrected:
  assumes "process_array_event ar src c ev d = (d', Yield)" and "tid \<in> fst ` set (telescope_events ev)"
  shows "\<exists>tp p. tracking_positions ev tid = Some tp \<and> pointing d' tid = Some p \<and>
           (\<forall>x. azimuth_cor tp = Some (Float x) \<longrightarrow> pointing_azimuth p = Float x) \<and>
           (azimuth_cor tp = Some NaN \<or> azimuth_cor tp = None \<longrightarrow>
              pointing_azimuth p = azimuth_raw tp) \<and>
           (\<forall>x. altitude_cor tp = Some (Float x) \<longrightarrow> pointing_altitude p = Float x) \<and>
           (altitude_cor tp = Some NaN \<or> altitude_cor tp = None \<longrightarrow>
              pointing_altitude p = altitude_raw tp)"
proof -
  obtain d1 r1 where h: "write_header src c ev d = (d1, r1)" by (cases "write_header src c ev d")
  from assms(1) h have r1: "r1 = None" by (cases r1) (simp_all add: process_array_event_def)
  from assms(1) h r1 obtain d2 where s: "select_telescopes src ev d1 = Some d2"
    by (cases "select_telescopes src ev d1") (simp_all add: process_array_event_def)
  obtain d3 r3 where m: "(if ev_type ev = ''data'' then fill_mc_information src ev (write_trigger ev d2)
                      else (write_trigger ev d2, None)) = (d3, r3)"
    by (cases "if ev_type ev = ''data'' then fill_mc_information src ev (write_trigger ev d2)
                      else (write_trigger ev d2, None)")
  from assms(1) h r1 s m have r3: "r3 = None"
    by (cases r3) (simp_all add: process_array_event_def)
  obtain d4 r4 where t: "fill_telescopes ar src ev (telescope_events ev) (clear_telescopes d3) = (d4, r4)"
    by (cases "fill_telescopes ar src ev (telescope_events ev) (clear_telescopes d3)")
  from assms(1) h r1 s m r3 t have "r4 = None \<and> d4 = d'"
    by (cases r4) (simp_all add: process_array_event_def)
  with t have "fill_telescopes ar src ev (telescope_events ev) (clear_telescopes d3) = (d', None)"
    by simp
  from fill_telescopes_pointing [OF this assms(2)] obtain tp where
    tp: "tracking_positions ev tid = Some tp"
    and p: "pointing d' tid = pointing (fill_pointing tp tid (clear_telescopes d3)) tid"
    by blast
  let ?p = "\<lparr>pointing_azimuth = (if isnan (get_default (azimuth_cor tp) NaN) then azimuth_raw tp
                           else get_default (azimuth_cor tp) NaN),
      pointing_altitude = (if isnan (get_default (altitude_cor tp) NaN) then altitude_raw tp
                            else get_default (altitude_cor tp) NaN)\<rparr>"
  from p have a: "pointing d' tid = Some ?p" by (simp add: fill_pointing_pointing)
  have b: "(\<forall>x. azimuth_cor tp = Some (Float x) \<longrightarrow> pointing_azimuth ?p = Float x) \<and>
           (azimuth_cor tp = Some NaN \<or> azimuth_cor tp = None \<longrightarrow>
              pointing_azimuth ?p = azimuth_raw tp) \<and>
           (\<forall>x. altitude_cor tp = Some (Float x) \<longrightarrow> pointing_altitude ?p = Float x) \<and>
           (altitude_cor tp = Some NaN \<or> altitude_cor tp = None \<longrightarrow>
              pointing_altitude ?p = altitude_raw tp)"
    by (auto simp: isnan_def get_default_def)
  show ?thesis
    by (rule exI [of _ tp], rule exI [of _ ?p]) (intro conjI tp a b [THEN conjunct1]
        b [THEN conjunct2, THEN conjunct1] b [THEN conjunct2, THEN conjunct2, THEN conjunct1]
        b [THEN conjunct2, THEN conjunct2, THEN conjunct2])
qed

theorem pointing_prefers_corrected_witness:
  "\<exists>d' p. process_array_event float32_arithmetic example_source 0 example_event example_container = (d', Yield) \<and>
     tracking_positions example_event 3 = Some example_tracking \<and>
     altitude_cor example_tracking = Some NaN \<and> altitude_raw example_tracking = Float 1 \<and>
     azimuth_cor example_tracking = Some (Float (6 / 5)) \<and>
     pointing d' 3 = Some p \<and> pointing_altitude p = Float 1 \<and> pointing_azimuth p = Float (6 / 5)"
proof -
  obtain d' where p: "process_array_event float32_arithmetic example_source 0 example_event example_container = (d', Yield)"
    using example_step [of float32_arithmetic 0 example_container]
    by (cases "process_array_event float32_arithmetic example_source 0 example_event example_container") simp
  have k: "3 \<in> fst ` set (telescope_events example_event)" by (simp add: example_keys)
  have t: "tracking_positions example_event 3 = Some example_tracking"
    by (simp add: example_event_def)
  have c: "altitude_cor example_tracking = Some NaN" "altitude_raw example_tracking = Float 1"
    "azimuth_cor example_tracking = Some (Float (6 / 5))"
    by (simp_all add: example_tracking_def)
  from pointing_prefers_corrected [OF p k] t c p show ?thesis by auto
qed

subsection \<open>Truncated files\<close>

lemma fill_telescope_position:
  "fill_telescope ar (src\<lparr>src_file := (src_file src)\<lparr>position := p\<rparr>\<rparr>) ev tid tev d =
   fill_telescope ar src ev tid tev d"
  by (simp add: fill_telescope_def fill_waveforms_def
      cong: option.case_cong sum.case_cong prod.case_cong)

lemma fill_telescopes_position:
  "fill_telescopes ar (src\<lparr>src_file := (src_file src)\<lparr>position := p\<rparr>\<rparr>) ev tevs d =
   fill_telescopes ar src ev tevs d"
  by (induction tevs arbitrary: d) (auto simp: fill_telescope_position)

lemma process_array_event_position:
  "process_array_event ar (src\<lparr>src_file := (src_file src)\<lparr>position := p\<rparr>\<rparr>) c ev d =
   process_array_event ar src c ev d"
  by (simp add: process_array_event_def write_header_def select_telescopes_def
      fill_mc_information_def fill_telescopes_position
      cong: option.case_cong sum.case_cong prod.case_cong if_cong)

lemma process_array_event_rewind:
  "process_array_event ar (src\<lparr>src_file := fst (rewind src)\<rparr>) c ev d = process_array_event ar src c ev d"
proof (cases "tell (src_file src) > start_pos src")
  case True
  then show ?thesis by (simp add: rewind_def process_array_event_position)
next
  case False
  then show ?thesis by (simp add: rewind_def)
qed

text \<open>
  C4. For a file that ends in the middle of a record, the generator yields the events
  that the loop yields for the complete records read as a complete stream (\<open>whole\<close>),
  leaves the container in the same state, and never lets \<^verbatim>\<open>EOFError\<close> out. When the
  complete records are processed without an exception, the generator stops by returning
  and the two truncation messages (log and warning) are emitted after the messages of
  the rewind; an exception of the processing other than \<^verbatim>\<open>EOFError\<close> leaves the
  generator as it does for a complete file. When every complete record reaches the
  \<^verbatim>\<open>yield\<close>, there are exactly as many events as complete records.
\<close>

theorem truncated_stream_ends_quietly:
  fixes ar src fresh heap
  defines "recs \<equiv> remaining_records (fst (rewind src))"
    and "whole \<equiv> event_loop ar (src\<lparr>src_file := fst (rewind src)\<rparr>) (length heap) False 0
                   (remaining_records (fst (rewind src))) (new_event_container src fresh)"
    and "run \<equiv> generator ar src fresh heap"
    and "truncation \<equiv> [Logged (TruncatedWarning (input_url (src_config src))),
                        Warned (TruncatedWarning (input_url (src_config src)))]"
  assumes "truncated (src_file src)"
  shows "yielded (fst (snd run)) = yielded whole \<and>
         final_data (fst (snd run)) = final_data whole \<and>
         raised (fst (snd run)) \<noteq> Some EOFError \<and>
         (raised whole = None \<longrightarrow>
            raised (fst (snd run)) = None \<and> fst run = snd (rewind src) @ truncation) \<and>
         (\<forall>e. raised whole = Some e \<and> e \<noteq> EOFError \<longrightarrow>
            raised (fst (snd run)) = Some e \<and> fst run = snd (rewind src)) \<and>
         ((\<forall>ev\<in>set recs. \<forall>c d. snd (process_array_event ar src c ev d) = Yield) \<longrightarrow>
            length (yielded (fst (snd run))) = length recs \<and>
            raised (fst (snd run)) = None \<and> fst run = snd (rewind src) @ truncation)"
proof -
  let ?src = "src\<lparr>src_file := fst (rewind src)\<rparr>"
  obtain msgs g heap' where g: "generator ar src fresh heap = (msgs, g, heap')"
    by (cases "generator ar src fresh heap") auto
  define g0 where "g0 = event_loop ar ?src (length heap) True 0 recs (new_event_container src fresh)"
  have t: "g0 = whole\<lparr>raised := (case raised whole of None \<Rightarrow> Some EOFError | Some e \<Rightarrow> Some e)\<rparr>"
    unfolding g0_def whole_def recs_def by (rule event_loop_trunc)
  from generator_run [OF g] assms(5)
  have y: "yielded g = yielded g0" and f: "final_data g = final_data g0"
    and r: "raised g = (if raised g0 = Some EOFError then None else raised g0)"
    and m: "msgs = snd (rewind src) @ (if raised g0 = Some EOFError then truncation else [])"
    by (simp_all add: g0_def recs_def truncation_def)
  have run: "fst run = msgs" "fst (snd run) = g" by (simp_all add: run_def g)
  have 1: "yielded (fst (snd run)) = yielded whole" by (simp add: run y t)
  have 2: "final_data (fst (snd run)) = final_data whole" by (simp add: run f t)
  have 3: "raised (fst (snd run)) \<noteq> Some EOFError" by (simp add: run r)
  have 4: "raised (fst (snd run)) = None \<and> fst run = snd (rewind src) @ truncation"
    if "raised whole = None"
    using that by (simp add: run r m t)
  have 5: "raised (fst (snd run)) = Some e \<and> fst run = snd (rewind src)"
    if "raised whole = Some e \<and> e \<noteq> EOFError" for e
    using that by (simp add: run r m t)
  have 6: "length (yielded (fst (snd run))) = length recs \<and>
            raised (fst (snd run)) = None \<and> fst run = snd (rewind src) @ truncation"
    if a: "\<forall>ev\<in>set recs. \<forall>c d. snd (process_array_event ar src c ev d) = Yield"
  proof -
    from a have "\<forall>ev\<in>set recs. \<forall>c d. snd (process_array_event ar ?src c ev d) = Yield"
      by (simp add: process_array_event_rewind)
    from event_loop_all_yield [OF this, of "length heap" False 0 "new_event_container src fresh"]
    have "length (yielded whole) = length recs" "raised whole = None"
      by (simp_all add: whole_def recs_def)
    with 1 4 show ?thesis by simp
  qed
  from 1 2 3 4 5 6 show ?thesis by blast
qed

theorem truncated_stream_ends_quietly_witness:
  "truncated (src_file example_source) \<and>
   length (remaining_records (fst (rewind example_source))) = 3 \<and>
   length (yielded (fst (snd (generator float32_arithmetic example_source example_container [])))) = 3 \<and>
   raised (fst (snd (generator float32_arithmetic example_source example_container []))) = None \<and>
   fst (generator float32_arithmetic example_source example_container []) =
     [Logged (TruncatedWarning ''gamma.simtel.gz''), Warned (TruncatedWarning ''gamma.simtel.gz'')]"
proof -
  have t: "truncated (src_file example_source)"
    by (simp add: example_source_def example_file_def)
  have a: "\<forall>ev\<in>set (remaining_records (fst (rewind example_source))).
             \<forall>c d. snd (process_array_event float32_arithmetic example_source c ev d) = Yield"
    by (simp add: example_rewind example_records example_step)
  have u: "input_url (src_config example_source) = ''gamma.simtel.gz''"
    by (simp add: example_source_def example_config_def)
  note q = truncated_stream_ends_quietly [OF t, of float32_arithmetic example_container "[]", THEN conjunct2,
      THEN conjunct2, THEN conjunct2, THEN conjunct2, THEN conjunct2, THEN mp, OF a]
  from q t u show ?thesis by (simp add: example_rewind example_records)
qed

subsection \<open>The shared container\<close>

lemma event_loop_rewind:
  "event_loop ar (src\<lparr>src_file := fst (rewind src)\<rparr>) ref trunc c evs d =
   event_loop ar src ref trunc c evs d"
  by (induction evs arbitrary: c d) (simp_all add: process_array_event_rewind)

lemma event_loop_snoc:
  assumes "raised (event_loop ar src ref False c pre d) = None"
  shows "yielded (event_loop ar src ref trunc c (pre @ post) d) =
           yielded (event_loop ar src ref False c pre d) @
           yielded (event_loop ar src ref trunc (c + length pre) post
                      (final_data (event_loop ar src ref False c pre d))) \<and>
         final_data (event_loop ar src ref trunc c (pre @ post) d) =
           final_data (event_loop ar src ref trunc (c + length pre) post
                      (final_data (event_loop ar src ref False c pre d))) \<and>
         raised (event_loop ar src ref trunc c (pre @ post) d) =
           raised (event_loop ar src ref trunc (c + length pre) post
                      (final_data (event_loop ar src ref False c pre d)))"
  using assms
proof (induction pre arbitrary: c d)
  case Nil
  then show ?case by simp
next
  case (Cons ev evs)
  obtain d1 st where p: "process_array_event ar src c ev d = (d1, st)"
    by (cases "process_array_event ar src c ev d")
  show ?case
  proof (cases st)
    case Yield
    with p Cons.prems have "raised (event_loop ar src ref False (Suc c) evs d1) = None"
      by (simp add: Let_def)
    from Cons.IH [OF this] p Yield show ?thesis by (simp add: Let_def)
  next
    case Continue
    with p Cons.prems have "raised (event_loop ar src ref False (Suc c) evs d1) = None"
      by (simp add: Let_def)
    from Cons.IH [OF this] p Continue show ?thesis by (simp add: Let_def)
  next
    case (Raise e)
    with p Cons.prems show ?thesis by simp
  qed
qed

lemma write_header_payload:
  "event_payload (fst (write_header src c ev d)) = event_payload d"
  by (simp add: write_header_def event_payload_def split: option.splits)

lemma process_continue:
  assumes "process_array_event ar src c ev d = (d1, Continue)"
  shows "d1 = fst (write_header src c ev d)"
  using assms
  by (auto simp: process_array_event_def split: prod.splits option.splits if_splits)

lemma event_loop_no_yield_payload:
  assumes "raised (event_loop ar src ref False c evs d) = None"
    and "yielded (event_loop ar src ref False c evs d) = []"
  shows "event_payload (final_data (event_loop ar src ref False c evs d)) = event_payload d"
  using assms
proof (induction evs arbitrary: c d)
  case Nil
  then show ?case by simp
next
  case (Cons ev evs)
  obtain d1 st where p: "process_array_event ar src c ev d = (d1, st)"
    by (cases "process_array_event ar src c ev d")
  show ?case
  proof (cases st)
    case Yield
    with p Cons.prems(2) show ?thesis by (simp add: Let_def)
  next
    case Continue
    with p Cons.prems have "raised (event_loop ar src ref False (Suc c) evs d1) = None"
      "yielded (event_loop ar src ref False (Suc c) evs d1) = []"
      by (simp_all add: Let_def)
    from Cons.IH [OF this] p Continue process_continue [of ar src c ev d d1]
      write_header_payload [of src c ev d]
    show ?thesis by (simp add: Let_def)
  next
    case (Raise e)
    with p Cons.prems show ?thesis by simp
  qed
qed

lemma event_loop_last_payload:
  assumes "raised (event_loop ar src ref False c evs d) = None"
    and "yielded (event_loop ar src ref False c evs d) \<noteq> []"
  shows "event_payload (final_data (event_loop ar src ref False c evs d)) =
         event_payload (snd (last (yielded (event_loop ar src ref False c evs d))))"
  using assms
proof (induction evs arbitrary: c d)
  case Nil
  then show ?case by simp
next
  case (Cons ev evs)
  obtain d1 st where p: "process_array_event ar src c ev d = (d1, st)"
    by (cases "process_array_event ar src c ev d")
  show ?case
  proof (cases st)
    case Yield
    with p Cons.prems have r: "raised (event_loop ar src ref False (Suc c) evs d1) = None"
      by (simp add: Let_def)
    show ?thesis
    proof (cases "yielded (event_loop ar src ref False (Suc c) evs d1) = []")
      case True
      from event_loop_no_yield_payload [OF r True] p Yield True show ?thesis
        by (simp add: Let_def)
    next
      case False
      from Cons.IH [OF r False] p Yield False show ?thesis by (simp add: Let_def)
    qed
  next
    case Continue
    with p Cons.prems have "raised (event_loop ar src ref False (Suc c) evs d1) = None"
      "yielded (event_loop ar src ref False (Suc c) evs d1) \<noteq> []"
      by (simp_all add: Let_def)
    from Cons.IH [OF this] p Continue show ?thesis by (simp add: Let_def)
  next
    case (Raise e)
    with p Cons.prems show ?thesis by simp
  qed
qed

lemma skipped_record_run:
  assumes recs: "remaining_records (fst (rewind src)) = pre @ ev # post"
    and a: "allowed_tels (src_config src) \<noteq> {}"
      "fst ` set (telescope_events ev) \<inter> allowed_tels (src_config src) = {}"
      "ev_type ev = ''calibration'' \<or> ev_event_id ev \<noteq> None"
    and n: "raised (event_loop ar src (length heap) False 0 pre (new_event_container src fresh)) = None"
  shows "\<exists>d'. write_header src (length pre) ev
                (final_data (event_loop ar src (length heap) False 0 pre
                   (new_event_container src fresh))) = (d', None) \<and>
              snd (snd (generator ar src fresh heap)) =
                heap @ [final_data (event_loop ar src (length heap) (truncated (src_file src))
                                      (Suc (length pre)) post d')] \<and>
              yielded (fst (snd (generator ar src fresh heap))) =
                yielded (event_loop ar src (length heap) False 0 pre (new_event_container src fresh)) @
                yielded (event_loop ar src (length heap) (truncated (src_file src))
                           (Suc (length pre)) post d')"
proof -
  let ?gp = "event_loop ar src (length heap) False 0 pre (new_event_container src fresh)"
  let ?t = "truncated (src_file src)"
  obtain msgs g heap' where g: "generator ar src fresh heap = (msgs, g, heap')"
    by (cases "generator ar src fresh heap") auto
  from generator_run [OF g] recs
  have y: "yielded g = yielded (event_loop ar src (length heap) ?t 0 (pre @ ev # post)
                                  (new_event_container src fresh))"
    and h: "heap' = heap @ [final_data (event_loop ar src (length heap) ?t 0 (pre @ ev # post)
                                  (new_event_container src fresh))]"
    by (simp_all add: event_loop_rewind)
  obtain d1 r1 where w: "write_header src (length pre) ev (final_data ?gp) = (d1, r1)"
    by (cases "write_header src (length pre) ev (final_data ?gp)")
  from write_header_ok [OF a(3), of src "length pre" "final_data ?gp"] w have r1: "r1 = None"
    by simp
  from process_not_selected(2) [OF a(1,2) a(3), of ar "length pre" "final_data ?gp"] w
  have p: "process_array_event ar src (length pre) ev (final_data ?gp) = (d1, Continue)" by simp
  note s = event_loop_snoc [OF n, of ?t "ev # post"]
  from s p have "yielded (event_loop ar src (length heap) ?t 0 (pre @ ev # post)
                   (new_event_container src fresh)) =
                 yielded ?gp @ yielded (event_loop ar src (length heap) ?t (Suc (length pre)) post d1)"
    and "final_data (event_loop ar src (length heap) ?t 0 (pre @ ev # post)
                   (new_event_container src fresh)) =
         final_data (event_loop ar src (length heap) ?t (Suc (length pre)) post d1)"
    by (simp_all add: Let_def)
  with y h g w r1 show ?thesis by simp
qed

lemma skipping_step:
  "snd (process_array_event ar skipping_source c example_event d) = Yield"
  by (simp add: body_defs calib_defs example_defs skipping_source_def Let_def)

lemma event_payload_fields:
  assumes "event_payload a = event_payload b"
  shows "trig_tels_with_trigger a = trig_tels_with_trigger b" "trig_gps_time a = trig_gps_time b"
    "r0_tel a = r0_tel b" "r1_tel a = r1_tel b" "mc_tel a = mc_tel b" "pointing a = pointing b"
    "mc_shower_truth a = mc_shower_truth b" "mcheader a = mcheader b"
proof -
  have "trig_tels_with_trigger (event_payload a) = trig_tels_with_trigger (event_payload b)"
    using assms by simp
  then show "trig_tels_with_trigger a = trig_tels_with_trigger b" by (simp add: event_payload_def)
  have "trig_gps_time (event_payload a) = trig_gps_time (event_payload b)" using assms by simp
  then show "trig_gps_time a = trig_gps_time b" by (simp add: event_payload_def)
  have "r0_tel (event_payload a) = r0_tel (event_payload b)" using assms by simp
  then show "r0_tel a = r0_tel b" by (simp add: event_payload_def)
  have "r1_tel (event_payload a) = r1_tel (event_payload b)" using assms by simp
  then show "r1_tel a = r1_tel b" by (simp add: event_payload_def)
  have "mc_tel (event_payload a) = mc_tel (event_payload b)" using assms by simp
  then show "mc_tel a = mc_tel b" by (simp add: event_payload_def)
  have "pointing (event_payload a) = pointing (event_payload b)" using assms by simp
  then show "pointing a = pointing b" by (simp add: event_payload_def)
  have "mc_shower_truth (event_payload a) = mc_shower_truth (event_payload b)" using assms by simp
  then show "mc_shower_truth a = mc_shower_truth b" by (simp add: event_payload_def)
  have "mcheader (event_payload a) = mcheader (event_payload b)" using assms by simp
  then show "mcheader a = mcheader b" by (simp add: event_payload_def)
qed

text \<open>
  C10. Every event that the generator yields is the same object, the one container
  allocated before the loop (the next address of the store), and the store holds that
  object in its final state. For a record that the filter skips (a non-empty allow-list
  that holds none of its telescopes with data) after records that are processed without
  an exception: the skipped record is processed up to the \<^verbatim>\<open>continue\<close>, which leaves in
  the container its event type, its position as the counter (greater than the counter
  at any earlier \<^verbatim>\<open>yield\<close>), the run id, its event id and its unfiltered telescopes with
  data, and every field that the header does not write as in the event yielded last;
  no event is yielded for it, and the loop goes on from that container with the records
  after it. When the skipped record is the last one, the events yielded are exactly
  those of the records before it, and the object that every one of them is holds the
  header of the skipped record when the generator stops.
\<close>

theorem skipped_record_overwrites_shared_container:
  "(\<forall>r y. (r, y) \<in> set (yielded (fst (snd (generator ar src fresh heap)))) \<longrightarrow> r = length heap) \<and>
   snd (snd (generator ar src fresh heap)) =
     heap @ [final_data (fst (snd (generator ar src fresh heap)))] \<and>
   (allowed_tels (src_config src) \<noteq> {} \<and>
    fst ` set (telescope_events ev) \<inter> allowed_tels (src_config src) = {} \<and>
    (ev_type ev = ''calibration'' \<or> ev_event_id ev \<noteq> None) \<and>
    remaining_records (fst (rewind src)) = pre @ ev # post \<and>
    raised (event_loop ar src (length heap) False 0 pre (new_event_container src fresh)) = None \<longrightarrow>
      (\<exists>d'. process_array_event ar src (length pre) ev
              (final_data (event_loop ar src (length heap) False 0 pre
                 (new_event_container src fresh))) = (d', Continue) \<and>
         event_type d' = ev_type ev \<and> count d' = length pre \<and>
         index_obs_id d' = header_run (header (src_file src)) \<and>
         r0_obs_id d' = header_run (header (src_file src)) \<and>
         r1_obs_id d' = header_run (header (src_file src)) \<and>
         dl0_obs_id d' = header_run (header (src_file src)) \<and>
         index_event_id d' = (if ev_type ev = ''calibration'' then - 1 else the (ev_event_id ev)) \<and>
         r0_event_id d' = index_event_id d' \<and> r1_event_id d' = index_event_id d' \<and>
         dl0_event_id d' = index_event_id d' \<and>
         r0_tels_with_data d' = fst ` set (telescope_events ev) \<and>
         r1_tels_with_data d' = fst ` set (telescope_events ev) \<and>
         dl0_tels_with_data d' = fst ` set (telescope_events ev) \<and>
         (\<forall>r y. (r, y) \<in> set (yielded (event_loop ar src (length heap) False 0 pre
                                        (new_event_container src fresh))) \<longrightarrow>
            r = length heap \<and> count y < length pre) \<and>
         (\<forall>r y. yielded (event_loop ar src (length heap) False 0 pre
                          (new_event_container src fresh)) \<noteq> [] \<and>
                last (yielded (event_loop ar src (length heap) False 0 pre
                                 (new_event_container src fresh))) = (r, y) \<longrightarrow>
            event_payload d' = event_payload y) \<and>
         yielded (fst (snd (generator ar src fresh heap))) =
           yielded (event_loop ar src (length heap) False 0 pre (new_event_container src fresh)) @
           yielded (event_loop ar src (length heap) (truncated (src_file src))
                      (Suc (length pre)) post d') \<and>
         snd (snd (generator ar src fresh heap)) =
           heap @ [final_data (event_loop ar src (length heap) (truncated (src_file src))
                                 (Suc (length pre)) post d')] \<and>
         (post = [] \<longrightarrow>
            yielded (fst (snd (generator ar src fresh heap))) =
              yielded (event_loop ar src (length heap) False 0 pre
                         (new_event_container src fresh)) \<and>
            snd (snd (generator ar src fresh heap)) = heap @ [d'] \<and>
            (\<forall>r y. (r, y) \<in> set (yielded (fst (snd (generator ar src fresh heap)))) \<longrightarrow>
               snd (snd (generator ar src fresh heap)) ! r = d' \<and> count y < count d'))))"
proof (intro conjI allI impI)
  fix r y
  assume "(r, y) \<in> set (yielded (fst (snd (generator ar src fresh heap))))"
  from generator_yielded_fields [OF this] show "r = length heap" by simp
next
  obtain msgs g heap' where g: "generator ar src fresh heap = (msgs, g, heap')"
    by (cases "generator ar src fresh heap") auto
  from generator_run [OF g] g
  show "snd (snd (generator ar src fresh heap)) =
     heap @ [final_data (fst (snd (generator ar src fresh heap)))]"
    by simp
next
  let ?gp = "event_loop ar src (length heap) False 0 pre (new_event_container src fresh)"
  let ?run = "generator ar src fresh heap"
  let ?rest = "\<lambda>d'. event_loop ar src (length heap) (truncated (src_file src))
                      (Suc (length pre)) post d'"
  assume a: "allowed_tels (src_config src) \<noteq> {} \<and>
    fst ` set (telescope_events ev) \<inter> allowed_tels (src_config src) = {} \<and>
    (ev_type ev = ''calibration'' \<or> ev_event_id ev \<noteq> None) \<and>
    remaining_records (fst (rewind src)) = pre @ ev # post \<and>
    raised ?gp = None"
  then have a1: "allowed_tels (src_config src) \<noteq> {}"
    and a2: "fst ` set (telescope_events ev) \<inter> allowed_tels (src_config src) = {}"
    and a3: "ev_type ev = ''calibration'' \<or> ev_event_id ev \<noteq> None"
    and recs: "remaining_records (fst (rewind src)) = pre @ ev # post"
    and n: "raised ?gp = None"
    by simp_all
  from skipped_record_run [OF recs a1 a2 a3 n] obtain d' where
    w: "write_header src (length pre) ev (final_data ?gp) = (d', None)"
    and h: "snd (snd ?run) = heap @ [final_data (?rest d')]"
    and y: "yielded (fst (snd ?run)) = yielded ?gp @ yielded (?rest d')"
    by blast
  note f = write_header_None [OF w]
  from process_not_selected(2) [OF a1 a2 a3, of ar "length pre" "final_data ?gp"] w
  have p: "process_array_event ar src (length pre) ev (final_data ?gp) = (d', Continue)" by simp
  have s: "r = length heap \<and> count y < length pre"
    if m: "(r, y) \<in> set (yielded ?gp)" for r y
  proof -
    from event_loop_yielded [OF m] obtain i d0 where
      r: "r = length heap" and i: "i < length pre"
      and q: "process_array_event ar src (0 + i) (pre ! i) d0 = (y, Yield)"
      by blast
    from process_yield_fields [OF q] i have "count y < length pre" by simp
    with r show ?thesis by simp
  qed
  have l: "event_payload d' = event_payload y"
    if m: "yielded ?gp \<noteq> [] \<and> last (yielded ?gp) = (r, y)" for r y
  proof -
    from m have "yielded ?gp \<noteq> []" and "snd (last (yielded ?gp)) = y" by simp_all
    with event_loop_last_payload [OF n]
    have "event_payload (final_data ?gp) = event_payload y" by simp
    with write_header_payload [of src "length pre" ev "final_data ?gp"] w show ?thesis by simp
  qed
  have e: "yielded (fst (snd ?run)) = yielded ?gp \<and> snd (snd ?run) = heap @ [d'] \<and>
           (\<forall>r y. (r, y) \<in> set (yielded (fst (snd ?run))) \<longrightarrow>
              snd (snd ?run) ! r = d' \<and> count y < count d')"
    if "post = []"
  proof -
    from that h y have h': "snd (snd ?run) = heap @ [d']"
      and y': "yielded (fst (snd ?run)) = yielded ?gp"
      by simp_all
    have "snd (snd ?run) ! r = d' \<and> count y < count d'"
      if "(r, y) \<in> set (yielded (fst (snd ?run)))" for r y
      using s [of r y] that y' h' f by simp
    with h' y' show ?thesis by blast
  qed
  from p f s l y h e
  show "\<exists>d'. process_array_event ar src (length pre) ev (final_data ?gp) = (d', Continue) \<and>
         event_type d' = ev_type ev \<and> count d' = length pre \<and>
         index_obs_id d' = header_run (header (src_file src)) \<and>
         r0_obs_id d' = header_run (header (src_file src)) \<and>
         r1_obs_id d' = header_run (header (src_file src)) \<and>
         dl0_obs_id d' = header_run (header (src_file src)) \<and>
         index_event_id d' = (if ev_type ev = ''calibration'' then - 1 else the (ev_event_id ev)) \<and>
         r0_event_id d' = index_event_id d' \<and> r1_event_id d' = index_event_id d' \<and>
         dl0_event_id d' = index_event_id d' \<and>
         r0_tels_with_data d' = fst ` set (telescope_events ev) \<and>
         r1_tels_with_data d' = fst ` set (telescope_events ev) \<and>
         dl0_tels_with_data d' = fst ` set (telescope_events ev) \<and>
         (\<forall>r y. (r, y) \<in> set (yielded ?gp) \<longrightarrow> r = length heap \<and> count y < length pre) \<and>
         (\<forall>r y. yielded ?gp \<noteq> [] \<and> last (yielded ?gp) = (r, y) \<longrightarrow>
            event_payload d' = event_payload y) \<and>
         yielded (fst (snd ?run)) = yielded ?gp @ yielded (?rest d') \<and>
         snd (snd ?run) = heap @ [final_data (?rest d')] \<and>
         (post = [] \<longrightarrow>
            yielded (fst (snd ?run)) = yielded ?gp \<and> snd (snd ?run) = heap @ [d'] \<and>
            (\<forall>r y. (r, y) \<in> set (yielded (fst (snd ?run))) \<longrightarrow>
               snd (snd ?run) ! r = d' \<and> count y < count d'))"
    by (intro exI [of _ d']) blast
qed

theorem skipped_record_overwrites_shared_container_witness:
  "\<exists>y d'. yielded (fst (snd (generator float32_arithmetic skipping_source example_container []))) =
            [(0, y)] \<and>
          snd (snd (generator float32_arithmetic skipping_source example_container [])) = [d'] \<and>
          count y = 0 \<and> index_event_id y = 42 \<and> r0_tels_with_data y = {3, 5} \<and>
          trig_tels_with_trigger y = [1, 3, 5, 7] \<and>
          count d' = 1 \<and> index_event_id d' = 43 \<and> r0_tels_with_data d' = {1} \<and>
          trig_tels_with_trigger d' = [1, 3, 5, 7] \<and> pointing d' = pointing y \<and>
          r0_tel d' = r0_tel y"
proof -
  let ?ar = float32_arithmetic
  let ?d0 = "new_event_container skipping_source example_container"
  let ?run = "generator ?ar skipping_source example_container []"
  obtain y where p: "process_array_event ?ar skipping_source 0 example_event ?d0 = (y, Yield)"
    using skipping_step [of ?ar 0 ?d0]
    by (cases "process_array_event ?ar skipping_source 0 example_event ?d0") simp
  then have l: "yielded (event_loop ?ar skipping_source 0 False 0 [example_event] ?d0) = [(0, y)]"
    "raised (event_loop ?ar skipping_source 0 False 0 [example_event] ?d0) = None"
    by (simp_all add: Let_def)
  have a: "allowed_tels (src_config skipping_source) \<noteq> {} \<and>
    fst ` set (telescope_events lone_event) \<inter> allowed_tels (src_config skipping_source) = {} \<and>
    (ev_type lone_event = ''calibration'' \<or> ev_event_id lone_event \<noteq> None) \<and>
    remaining_records (fst (rewind skipping_source)) = [example_event] @ lone_event # [] \<and>
    raised (event_loop ?ar skipping_source (length []) False 0 [example_event] ?d0) = None"
    using l(2)
    by (simp add: lone_event_def skipping_source_def example_source_def example_config_def
        example_file_def rewind_def tell_def remaining_records_def del: event_loop.simps)
  from skipped_record_overwrites_shared_container [where ar = ?ar and src = skipping_source
      and fresh = example_container and heap = "[]" and ev = lone_event and pre = "[example_event]"
      and post = "[]", THEN conjunct2, THEN conjunct2, rule_format, OF a]
  obtain d' where h: "snd (snd ?run) = [d']"
    and g: "yielded (fst (snd ?run)) = [(0, y)]"
    and e: "event_payload d' = event_payload y"
    and f: "count d' = 1" "index_event_id d' = (if ev_type lone_event = ''calibration'' then - 1
               else the (ev_event_id lone_event))"
      "r0_tels_with_data d' = fst ` set (telescope_events lone_event)"
    using l(1) by (auto simp del: event_loop.simps)
  from process_yield_fields [OF p]
  have v: "count y = 0 \<and> index_event_id y = 42 \<and> r0_tels_with_data y = {3, 5} \<and>
        trig_tels_with_trigger y = [1, 3, 5, 7]"
    by (simp add: example_keys)
       (simp add: skipping_source_def example_source_def example_config_def example_event_def)
  from f have "index_event_id d' = 43 \<and> r0_tels_with_data d' = {1}"
    by (simp add: lone_event_def example_event_def)
  with h g v f(1) event_payload_fields [OF e] show ?thesis by simp
qed

section \<open>The instrument model and the constructor\<close>

lemma build_camera_name:
  "build_camera ext cs ps telescope = Inr (obj, warns) \<Longrightarrow>
     description_camera_name obj = camera_name telescope"
  by (cases "pixel_shape cs") (auto simp: build_camera_def Let_def split: option.splits prod.splits)

lemma cached_camera_hit:
  "camera_cache b (camera_name telescope) = Some a \<Longrightarrow>
     cached_camera ext cs ps telescope b = Inr (a, b)"
  by (simp add: cached_camera_def)

lemma cached_camera_miss:
  assumes "camera_cache b (camera_name telescope) = None"
    and "cached_camera ext cs ps telescope b = Inr (cam, b1)"
  shows "\<exists>obj. description_camera_name obj = camera_name telescope \<and>
           cam = length (cameras b) \<and> cameras b1 = cameras b @ [obj] \<and>
           camera_cache b1 = (camera_cache b)(camera_name telescope \<mapsto> length (cameras b)) \<and>
           b_tel_descriptions b1 = b_tel_descriptions b \<and> b_tel_positions b1 = b_tel_positions b"
proof (cases "build_camera ext cs ps telescope")
  case (Inl e)
  with assms show ?thesis by (simp add: cached_camera_def)
next
  case (Inr r)
  obtain obj warns where r: "r = (obj, warns)" by (cases r)
  from build_camera_name Inr r have "description_camera_name obj = camera_name telescope" by simp
  moreover from assms Inr r have "cam = length (cameras b)"
    and "b1 = b\<lparr>cameras := cameras b @ [obj], warnings := warnings b @ warns,
               camera_cache := (camera_cache b)(camera_name telescope \<mapsto> length (cameras b))\<rparr>"
    by (auto simp: cached_camera_def)
  ultimately show ?thesis by simp
qed


lemma cache_consistentD:
  assumes "cache_consistent b"
  shows "camera_cache b n = Some a \<Longrightarrow> a < length (cameras b)"
    and "camera_cache b n = Some a \<Longrightarrow> description_camera_name (cameras b ! a) = n"
    and "a < length (cameras b) \<Longrightarrow> camera_cache b (description_camera_name (cameras b ! a)) = Some a"
    and "b_tel_descriptions b t = Some td \<Longrightarrow> camera td < length (cameras b)"
  using assms unfolding cache_consistent_def by blast+

lemma cached_camera_consistent:
  assumes inv: "cache_consistent b" and cc: "cached_camera ext cs ps telescope b = Inr (cam, b1)"
  shows "cache_consistent b1 \<and> camera_cache b1 (camera_name telescope) = Some cam \<and>
         b_tel_descriptions b1 = b_tel_descriptions b \<and>
         b_tel_positions b1 = b_tel_positions b \<and>
         (\<forall>n a. camera_cache b n = Some a \<longrightarrow> camera_cache b1 n = Some a)"
proof (cases "camera_cache b (camera_name telescope)")
  case (Some a)
  with cc cached_camera_hit [OF Some, of ext cs ps] have "cam = a" "b1 = b" by simp_all
  with inv Some show ?thesis by simp
next
  case None
  from cached_camera_miss [OF None cc] obtain obj where
    nm: "description_camera_name obj = camera_name telescope"
    and cam: "cam = length (cameras b)"
    and cs1: "cameras b1 = cameras b @ [obj]"
    and ch1: "camera_cache b1 = (camera_cache b)(camera_name telescope \<mapsto> length (cameras b))"
    and td1: "b_tel_descriptions b1 = b_tel_descriptions b"
    and tp1: "b_tel_positions b1 = b_tel_positions b"
    by blast
  have new: "description_camera_name (cameras b ! a) \<noteq> camera_name telescope"
    if "a < length (cameras b)" for a
    using cache_consistentD(3) [OF inv that] None by auto
  have "cache_consistent b1"
    unfolding cache_consistent_def
  proof (intro conjI allI impI)
    fix n a assume h: "camera_cache b1 n = Some a"
    show "a < length (cameras b1)"
    proof (cases "n = camera_name telescope")
      case True
      with h ch1 cs1 show ?thesis by simp
    next
      case False
      with h ch1 have "camera_cache b n = Some a" by simp
      from cache_consistentD(1) [OF inv this] cs1 show ?thesis by simp
    qed
    show "description_camera_name (cameras b1 ! a) = n"
    proof (cases "n = camera_name telescope")
      case True
      with h ch1 have "a = length (cameras b)" by simp
      with cs1 nm True show ?thesis by simp
    next
      case False
      with h ch1 have c: "camera_cache b n = Some a" by simp
      from cache_consistentD(1) [OF inv c] cache_consistentD(2) [OF inv c] cs1
      show ?thesis by (simp add: nth_append)
    qed
  next
    fix a assume h: "a < length (cameras b1)"
    show "camera_cache b1 (description_camera_name (cameras b1 ! a)) = Some a"
    proof (cases "a < length (cameras b)")
      case True
      with cache_consistentD(3) [OF inv True] new [OF True] cs1 ch1 show ?thesis
        by (simp add: nth_append)
    next
      case False
      with h cs1 have "a = length (cameras b)" by simp
      with cs1 ch1 nm show ?thesis by simp
    qed
  next
    fix t td assume "b_tel_descriptions b1 t = Some td"
    with td1 have "b_tel_descriptions b t = Some td" by simp
    from cache_consistentD(4) [OF inv this] cs1 show "camera td < length (cameras b1)" by simp
  qed
  moreover from ch1 cam have "camera_cache b1 (camera_name telescope) = Some cam" by simp
  moreover have "camera_cache b1 n = Some a" if "camera_cache b n = Some a" for n a
    using that None ch1 by auto
  ultimately show ?thesis using td1 tp1 by blast
qed


lemma describe_telescope_consistent:
  assumes inv: "cache_consistent b" and dt: "describe_telescope ext choice hdr tid td b = (b', r)"
  shows "cache_consistent b' \<and>
         (\<forall>n a. camera_cache b n = Some a \<longrightarrow> camera_cache b' n = Some a) \<and>
         (\<forall>t. t \<noteq> tid \<longrightarrow> b_tel_descriptions b' t = b_tel_descriptions b t) \<and>
         (r = None \<longrightarrow>
            (\<exists>flen td'. chosen_focal_length choice (camera_settings td) = Inr flen \<and>
               b_tel_descriptions b' tid = Some td' \<and>
               camera_cache b' (camera_name (guess_or_unknown ext (n_pixels (camera_settings td)) flen))
                 = Some (camera td')))"
proof (cases "chosen_focal_length choice (camera_settings td)")
  case (Inl e)
  with dt have "b' = b" "r = Some e" by (simp_all add: describe_telescope_def)
  with inv show ?thesis by simp
next
  case (Inr flen)
  let ?tel = "guess_or_unknown ext (n_pixels (camera_settings td)) flen"
  show ?thesis
  proof (cases "cached_camera ext (camera_settings td) (pixel_settings td) ?tel b")
    case (Inl e)
    with Inr dt have "b' = b" "r = Some e" by (simp_all add: describe_telescope_def)
    with inv show ?thesis by simp
  next
    case cc: (Inr p)
    obtain cam b1 where p: "p = (cam, b1)" by (cases p)
    from cached_camera_consistent [OF inv cc [unfolded p]]
    have inv1: "cache_consistent b1" and hit: "camera_cache b1 (camera_name ?tel) = Some cam"
      and td1: "b_tel_descriptions b1 = b_tel_descriptions b"
      and mono: "\<And>n a. camera_cache b n = Some a \<Longrightarrow> camera_cache b1 n = Some a"
      by blast+
    define entry where "entry = \<lparr>desc_name = tel_name ?tel, desc_tel_type = tel_type ?tel,
        optics = \<lparr>optics_name = tel_name ?tel, num_mirrors = tel_n_mirrors ?tel,
                  equivalent_focal_length = flen,
                  optics_mirror_area = mirror_area (camera_settings td),
                  num_mirror_tiles = n_mirrors (camera_settings td)\<rparr>,
        camera = cam\<rparr>"
    have ce: "camera entry = cam" by (simp add: entry_def)
    from Inr cc p dt have
      f: "camera_cache b' = camera_cache b1" "cameras b' = cameras b1"
         "b_tel_descriptions b' = (b_tel_descriptions b1)(tid \<mapsto> entry)"
      by (auto simp: describe_telescope_def Let_def entry_def split: sum.splits)
    from cache_consistentD(1) [OF inv1 hit] have cl: "cam < length (cameras b1)" .
    have "cache_consistent b'"
      unfolding cache_consistent_def
    proof (intro conjI allI impI)
      fix n a assume "camera_cache b' n = Some a"
      with f have c: "camera_cache b1 n = Some a" by simp
      from cache_consistentD(1) [OF inv1 c] f show "a < length (cameras b')" by simp
      from cache_consistentD(2) [OF inv1 c] f show "description_camera_name (cameras b' ! a) = n"
        by simp
    next
      fix a assume "a < length (cameras b')"
      with f have "a < length (cameras b1)" by simp
      from cache_consistentD(3) [OF inv1 this] f
      show "camera_cache b' (description_camera_name (cameras b' ! a)) = Some a" by simp
    next
      fix t td' assume h: "b_tel_descriptions b' t = Some td'"
      show "camera td' < length (cameras b')"
      proof (cases "t = tid")
        case True
        with h f ce cl show ?thesis by auto
      next
        case False
        with h f have "b_tel_descriptions b1 t = Some td'" by simp
        from cache_consistentD(4) [OF inv1 this] f show ?thesis by simp
      qed
    qed
    moreover from mono f have "\<forall>n a. camera_cache b n = Some a \<longrightarrow> camera_cache b' n = Some a"
      by simp
    moreover from f td1 have "\<forall>t. t \<noteq> tid \<longrightarrow> b_tel_descriptions b' t = b_tel_descriptions b t"
      by simp
    moreover from f hit ce Inr
    have "\<exists>flen td'. chosen_focal_length choice (camera_settings td) = Inr flen \<and>
               b_tel_descriptions b' tid = Some td' \<and>
               camera_cache b' (camera_name (guess_or_unknown ext (n_pixels (camera_settings td)) flen))
                 = Some (camera td')"
      by (intro exI [of _ flen] exI [of _ entry]) simp
    ultimately show ?thesis by blast
  qed
qed

lemma describe_telescopes_consistent:
  assumes "cache_consistent b" "describe_telescopes ext choice hdr tds b = (b', r)"
  shows "cache_consistent b' \<and>
         (\<forall>n a. camera_cache b n = Some a \<longrightarrow> camera_cache b' n = Some a) \<and>
         (\<forall>t. t \<notin> fst ` set tds \<longrightarrow> b_tel_descriptions b' t = b_tel_descriptions b t)"
  using assms
proof (induction tds arbitrary: b)
  case Nil
  then show ?case by simp
next
  case (Cons x tds)
  obtain tid td where x: "x = (tid, td)" by (cases x)
  obtain b1 r1 where d: "describe_telescope ext choice hdr tid td b = (b1, r1)"
    by (cases "describe_telescope ext choice hdr tid td b")
  note s = describe_telescope_consistent [OF Cons.prems(1) d]
  show ?case
  proof (cases r1)
    case (Some e)
    with Cons.prems(2) x d have "b' = b1" by simp
    with s x show ?thesis by auto
  next
    case None
    with Cons.prems(2) x d have rest: "describe_telescopes ext choice hdr tds b1 = (b', r)" by simp
    from s have inv1: "cache_consistent b1" by blast
    note i = Cons.IH [OF inv1 rest]
    from i have "cache_consistent b'" by blast
    moreover from s i have "\<forall>n a. camera_cache b n = Some a \<longrightarrow> camera_cache b' n = Some a"
      by blast
    moreover from s i x
    have "\<forall>t. t \<notin> fst ` set (x # tds) \<longrightarrow> b_tel_descriptions b' t = b_tel_descriptions b t"
      by auto
    ultimately show ?thesis by blast
  qed
qed

lemma describe_telescopes_resolved:
  assumes "cache_consistent b" "describe_telescopes ext choice hdr tds b = (b', None)"
    and "distinct (map fst tds)" "(tid, td) \<in> set tds"
  shows "\<exists>flen td'. chosen_focal_length choice (camera_settings td) = Inr flen \<and>
           b_tel_descriptions b' tid = Some td' \<and>
           camera_cache b' (camera_name (guess_or_unknown ext (n_pixels (camera_settings td)) flen))
             = Some (camera td')"
  using assms
proof (induction tds arbitrary: b)
  case Nil
  then show ?case by simp
next
  case (Cons x tds)
  obtain t0 d0 where x: "x = (t0, d0)" by (cases x)
  obtain b1 r1 where d: "describe_telescope ext choice hdr t0 d0 b = (b1, r1)"
    by (cases "describe_telescope ext choice hdr t0 d0 b")
  from Cons.prems(2) x d have r1: "r1 = None" by (cases r1) simp_all
  with Cons.prems(2) x d have rest: "describe_telescopes ext choice hdr tds b1 = (b', None)" by simp
  note s = describe_telescope_consistent [OF Cons.prems(1) d]
  from s have inv1: "cache_consistent b1" by blast
  note k = describe_telescopes_consistent [OF inv1 rest]
  show ?case
  proof (cases "(tid, td) \<in> set tds")
    case True
    from Cons.prems(3) have "distinct (map fst tds)" by simp
    from Cons.IH [OF inv1 rest this True] show ?thesis .
  next
    case False
    with Cons.prems(4) x have e: "tid = t0" "td = d0" by auto
    from Cons.prems(3) x e have "tid \<notin> fst ` set tds" by auto
    with k have keep: "b_tel_descriptions b' tid = b_tel_descriptions b1 tid" by blast
    from s r1 e obtain flen td' where
      fl: "chosen_focal_length choice (camera_settings td) = Inr flen"
      and en: "b_tel_descriptions b1 tid = Some td'"
      and ca: "camera_cache b1 (camera_name (guess_or_unknown ext (n_pixels (camera_settings td)) flen))
                 = Some (camera td')"
      by blast
    from k ca have "camera_cache b' (camera_name (guess_or_unknown ext (n_pixels (camera_settings td)) flen))
                 = Some (camera td')" by blast
    with fl en keep show ?thesis by auto
  qed
qed


lemma cache_consistent_new: "cache_consistent new_builder"
  by (simp add: cache_consistent_def new_builder_def)

lemma init_Inr:
  assumes "SimTelEventSource_init ext cfg gs = (ws, Inr src)"
  shows "\<exists>f b. SimTelFile ext (input_url cfg)
             (if allowed_tels cfg \<noteq> {} then Some (allowed_tels cfg) else None)
             (skip_calibration_events cfg) (\<not> back_seekable cfg) = Inr f \<and>
           describe_telescopes ext (focal_length_choice cfg) (header f) (telescope_descriptions f)
             new_builder = (b, None) \<and>
           src_file src = f \<and> src_cameras src = cameras b \<and>
           src_camera_cache src = camera_cache b \<and>
           tel_descriptions (subarray_info src) = b_tel_descriptions b"
proof -
  have nb: "new_builder\<lparr>b_tel_descriptions := Map.empty, b_tel_positions := Map.empty\<rparr> = new_builder"
    by (simp add: new_builder_def)
  from assms show ?thesis
    by (auto simp: SimTelEventSource_init_def prepare_subarray_info_def nb
        split: sum.splits if_splits prod.splits option.splits)
qed

lemma describe_telescope_store:
  assumes "describe_telescope ext choice hdr tid td b = (b', r)"
  shows "(\<forall>n a. camera_cache b n = Some a \<longrightarrow> camera_cache b' n = Some a) \<and>
         take (length (cameras b)) (cameras b') = cameras b \<and>
         length (cameras b') \<le> Suc (length (cameras b)) \<and>
         (\<forall>flen. chosen_focal_length choice (camera_settings td) = Inr flen \<and>
            camera_cache b (camera_name (guess_or_unknown ext (n_pixels (camera_settings td)) flen))
              \<noteq> None \<longrightarrow> cameras b' = cameras b \<and> camera_cache b' = camera_cache b)"
proof (cases "chosen_focal_length choice (camera_settings td)")
  case (Inl e)
  with assms have "b' = b" by (simp add: describe_telescope_def)
  then show ?thesis by simp
next
  case (Inr flen)
  let ?tel = "guess_or_unknown ext (n_pixels (camera_settings td)) flen"
  show ?thesis
  proof (cases "cached_camera ext (camera_settings td) (pixel_settings td) ?tel b")
    case (Inl e)
    with Inr assms have "b' = b" by (simp add: describe_telescope_def)
    then show ?thesis by simp
  next
    case cc: (Inr p)
    obtain cam b1 where p: "p = (cam, b1)" by (cases p)
    from Inr cc p assms have
      f: "camera_cache b' = camera_cache b1" "cameras b' = cameras b1"
      by (auto simp: describe_telescope_def Let_def split: sum.splits)
    show ?thesis
    proof (cases "camera_cache b (camera_name ?tel)")
      case (Some a)
      from cached_camera_hit [OF Some, of ext "camera_settings td" "pixel_settings td"] cc p
      have "b1 = b" by simp
      with f Inr show ?thesis by simp
    next
      case None
      from cached_camera_miss [OF None cc [unfolded p]] obtain obj where
        "cameras b1 = cameras b @ [obj]"
        "camera_cache b1 = (camera_cache b)(camera_name ?tel \<mapsto> length (cameras b))"
        by blast
      with f None Inr show ?thesis by auto
    qed
  qed
qed

text \<open>
  C8. In a constructed source the store holds at most one camera object per camera type
  name (the names of the stored cameras are distinct); every telescope description
  refers to a stored camera, and two descriptions whose cameras have the same name
  refer to the same object. With distinct telescope ids in the description table, the
  description of each telescope refers to the object cached under the camera type name
  resolved for that telescope, and that object has this name. Every pass of the loop
  keeps the cached references and the stored objects, adds at most one object, and adds
  none when the resolved name is already cached.
\<close>

theorem cameras_shared_by_name:
  assumes "SimTelEventSource_init ext cfg gs = (ws, Inr src)"
  shows "distinct (map description_camera_name (src_cameras src)) \<and>
    (\<forall>t1 t2 td1 td2.
       tel_descriptions (subarray_info src) t1 = Some td1 \<and>
       tel_descriptions (subarray_info src) t2 = Some td2 \<longrightarrow>
         camera td1 < length (src_cameras src) \<and> camera td2 < length (src_cameras src) \<and>
         (description_camera_name (src_cameras src ! camera td1) =
          description_camera_name (src_cameras src ! camera td2) \<longrightarrow> camera td1 = camera td2)) \<and>
    (distinct (map fst (telescope_descriptions (src_file src))) \<longrightarrow>
       (\<forall>tid td. (tid, td) \<in> set (telescope_descriptions (src_file src)) \<longrightarrow>
          (\<exists>flen td'. chosen_focal_length (focal_length_choice cfg) (camera_settings td) = Inr flen \<and>
             tel_descriptions (subarray_info src) tid = Some td' \<and>
             src_camera_cache src
               (camera_name (guess_or_unknown ext (n_pixels (camera_settings td)) flen))
               = Some (camera td') \<and>
             description_camera_name (src_cameras src ! camera td') =
               camera_name (guess_or_unknown ext (n_pixels (camera_settings td)) flen)))) \<and>
    (\<forall>choice hdr tid td b b' r. describe_telescope ext choice hdr tid td b = (b', r) \<longrightarrow>
       (\<forall>n a. camera_cache b n = Some a \<longrightarrow> camera_cache b' n = Some a) \<and>
       take (length (cameras b)) (cameras b') = cameras b \<and>
       length (cameras b') \<le> Suc (length (cameras b)) \<and>
       (\<forall>flen. chosen_focal_length choice (camera_settings td) = Inr flen \<and>
          camera_cache b (camera_name (guess_or_unknown ext (n_pixels (camera_settings td)) flen))
            \<noteq> None \<longrightarrow> cameras b' = cameras b \<and> camera_cache b' = camera_cache b))"
proof -
  from init_Inr [OF assms] obtain f b where
    run: "describe_telescopes ext (focal_length_choice cfg) (header f) (telescope_descriptions f)
             new_builder = (b, None)"
    and s: "src_file src = f" "src_cameras src = cameras b" "src_camera_cache src = camera_cache b"
      "tel_descriptions (subarray_info src) = b_tel_descriptions b"
    by blast
  from describe_telescopes_consistent [OF cache_consistent_new run]
  have inv: "cache_consistent b" by blast
  have 1: "distinct (map description_camera_name (src_cameras src))"
    unfolding distinct_conv_nth
  proof (intro allI impI)
    fix i j
    assume i: "i < length (map description_camera_name (src_cameras src))"
      and j: "j < length (map description_camera_name (src_cameras src))" and ne: "i \<noteq> j"
    from i j s have i': "i < length (cameras b)" and j': "j < length (cameras b)" by simp_all
    show "map description_camera_name (src_cameras src) ! i \<noteq>
          map description_camera_name (src_cameras src) ! j"
    proof
      assume "map description_camera_name (src_cameras src) ! i =
              map description_camera_name (src_cameras src) ! j"
      with i' j' s have "description_camera_name (cameras b ! i) =
                         description_camera_name (cameras b ! j)" by simp
      with cache_consistentD(3) [OF inv i'] cache_consistentD(3) [OF inv j'] have "i = j"
        by (metis option.inject)
      with ne show False by simp
    qed
  qed
  have 2: "camera td1 < length (src_cameras src) \<and> camera td2 < length (src_cameras src) \<and>
         (description_camera_name (src_cameras src ! camera td1) =
          description_camera_name (src_cameras src ! camera td2) \<longrightarrow> camera td1 = camera td2)"
    if h: "tel_descriptions (subarray_info src) t1 = Some td1 \<and>
       tel_descriptions (subarray_info src) t2 = Some td2" for t1 t2 td1 td2
  proof -
    from h s have a: "camera td1 < length (cameras b)" and c: "camera td2 < length (cameras b)"
      using cache_consistentD(4) [OF inv] by auto
    have "camera td1 = camera td2"
      if "description_camera_name (cameras b ! camera td1) =
          description_camera_name (cameras b ! camera td2)"
      using cache_consistentD(3) [OF inv a] cache_consistentD(3) [OF inv c] that
      by (metis option.inject)
    with a c s show ?thesis by simp
  qed
  have 3: "\<exists>flen td'. chosen_focal_length (focal_length_choice cfg) (camera_settings td) = Inr flen \<and>
             tel_descriptions (subarray_info src) tid = Some td' \<and>
             src_camera_cache src
               (camera_name (guess_or_unknown ext (n_pixels (camera_settings td)) flen))
               = Some (camera td') \<and>
             description_camera_name (src_cameras src ! camera td') =
               camera_name (guess_or_unknown ext (n_pixels (camera_settings td)) flen)"
    if d: "distinct (map fst (telescope_descriptions (src_file src)))"
      and m: "(tid, td) \<in> set (telescope_descriptions (src_file src))" for tid td
  proof -
    from d m s have "distinct (map fst (telescope_descriptions f))"
      "(tid, td) \<in> set (telescope_descriptions f)" by simp_all
    from describe_telescopes_resolved [OF cache_consistent_new run this]
    obtain flen td' where
      fl: "chosen_focal_length (focal_length_choice cfg) (camera_settings td) = Inr flen"
      and en: "b_tel_descriptions b tid = Some td'"
      and ca: "camera_cache b (camera_name (guess_or_unknown ext (n_pixels (camera_settings td)) flen))
                 = Some (camera td')"
      by blast
    from cache_consistentD(2) [OF inv ca]
    have "description_camera_name (cameras b ! camera td') =
            camera_name (guess_or_unknown ext (n_pixels (camera_settings td)) flen)" .
    with fl en ca s show ?thesis by simp
  qed
  have 4: "\<forall>choice hdr tid td b b' r. describe_telescope ext choice hdr tid td b = (b', r) \<longrightarrow>
       (\<forall>n a. camera_cache b n = Some a \<longrightarrow> camera_cache b' n = Some a) \<and>
       take (length (cameras b)) (cameras b') = cameras b \<and>
       length (cameras b') \<le> Suc (length (cameras b)) \<and>
       (\<forall>flen. chosen_focal_length choice (camera_settings td) = Inr flen \<and>
          camera_cache b (camera_name (guess_or_unknown ext (n_pixels (camera_settings td)) flen))
            \<noteq> None \<longrightarrow> cameras b' = cameras b \<and> camera_cache b' = camera_cache b)"
    by (intro allI impI) (erule describe_telescope_store)
  show ?thesis
  proof (intro conjI)
    show "distinct (map description_camera_name (src_cameras src))" by (rule 1)
    show "\<forall>t1 t2 td1 td2.
       tel_descriptions (subarray_info src) t1 = Some td1 \<and>
       tel_descriptions (subarray_info src) t2 = Some td2 \<longrightarrow>
         camera td1 < length (src_cameras src) \<and> camera td2 < length (src_cameras src) \<and>
         (description_camera_name (src_cameras src ! camera td1) =
          description_camera_name (src_cameras src ! camera td2) \<longrightarrow> camera td1 = camera td2)"
      by (intro allI impI) (erule 2)
    show "distinct (map fst (telescope_descriptions (src_file src))) \<longrightarrow>
       (\<forall>tid td. (tid, td) \<in> set (telescope_descriptions (src_file src)) \<longrightarrow>
          (\<exists>flen td'. chosen_focal_length (focal_length_choice cfg) (camera_settings td) = Inr flen \<and>
             tel_descriptions (subarray_info src) tid = Some td' \<and>
             src_camera_cache src
               (camera_name (guess_or_unknown ext (n_pixels (camera_settings td)) flen))
               = Some (camera td') \<and>
             description_camera_name (src_cameras src ! camera td') =
               camera_name (guess_or_unknown ext (n_pixels (camera_settings td)) flen)))"
      by (intro allI impI) (erule (1) 3)
    show "\<forall>choice hdr tid td b b' r. describe_telescope ext choice hdr tid td b = (b', r) \<longrightarrow>
       (\<forall>n a. camera_cache b n = Some a \<longrightarrow> camera_cache b' n = Some a) \<and>
       take (length (cameras b)) (cameras b') = cameras b \<and>
       length (cameras b') \<le> Suc (length (cameras b)) \<and>
       (\<forall>flen. chosen_focal_length choice (camera_settings td) = Inr flen \<and>
          camera_cache b (camera_name (guess_or_unknown ext (n_pixels (camera_settings td)) flen))
            \<noteq> None \<longrightarrow> cameras b' = cameras b \<and> camera_cache b' = camera_cache b)"
      by (rule 4)
  qed
qed


lemmas init_defs = SimTelEventSource_init_def prepare_subarray_info_def describe_telescope_def
  chosen_focal_length_def guess_or_unknown_def cached_camera_def build_camera_def
  header_position_def new_builder_def is_stream_def tell_def

lemmas init_example_defs = example_externals_def example_config_def example_file_def
  example_descriptions_def large_settings_def medium_settings_def example_pixel_settings_def
  example_header_def effective_config_def seekable_config_def

lemma example_init:
  "\<exists>src. SimTelEventSource_init example_externals example_config None = ([], Inr src) \<and>
         telescope_descriptions (src_file src) = example_descriptions"
  by (simp add: init_defs init_example_defs Let_def)

theorem cameras_shared_by_name_witness:
  "\<exists>src td1 td3 td5.
     SimTelEventSource_init example_externals example_config None = ([], Inr src) \<and>
     tel_descriptions (subarray_info src) 1 = Some td1 \<and>
     tel_descriptions (subarray_info src) 3 = Some td3 \<and>
     tel_descriptions (subarray_info src) 5 = Some td5 \<and>
     camera td1 = camera td3 \<and> camera td1 \<noteq> camera td5 \<and>
     description_camera_name (src_cameras src ! camera td1) = ''LSTCam'' \<and>
     description_camera_name (src_cameras src ! camera td5) = ''FlashCam''"
proof -
  from example_init obtain src where
    i: "SimTelEventSource_init example_externals example_config None = ([], Inr src)"
    and d: "telescope_descriptions (src_file src) = example_descriptions"
    by blast
  have k: "distinct (map fst (telescope_descriptions (src_file src)))"
    by (simp add: d example_descriptions_def)
  note t = cameras_shared_by_name [OF i, THEN conjunct2, THEN conjunct2, THEN conjunct1,
      THEN mp, OF k, rule_format]
  have c: "focal_length_choice example_config = nominal" by (simp add: example_config_def)
  have g2: "camera_name (guess_or_unknown example_externals 2 28) = ''LSTCam''"
    and g3: "camera_name (guess_or_unknown example_externals 3 16) = ''FlashCam''"
    by (simp_all add: guess_or_unknown_def example_externals_def)
  have "(1, \<lparr>camera_settings = large_settings, pixel_settings = example_pixel_settings\<rparr>)
          \<in> set (telescope_descriptions (src_file src))"
    by (simp add: d example_descriptions_def)
  from t [OF this] obtain td1 where
    1: "tel_descriptions (subarray_info src) 1 = Some td1"
       "src_camera_cache src ''LSTCam'' = Some (camera td1)"
       "description_camera_name (src_cameras src ! camera td1) = ''LSTCam''"
    by (auto simp: c g2 chosen_focal_length_def large_settings_def)
  have "(3, \<lparr>camera_settings = large_settings, pixel_settings = example_pixel_settings\<rparr>)
          \<in> set (telescope_descriptions (src_file src))"
    by (simp add: d example_descriptions_def)
  from t [OF this] obtain td3 where
    3: "tel_descriptions (subarray_info src) 3 = Some td3"
       "src_camera_cache src ''LSTCam'' = Some (camera td3)"
    by (auto simp: c g2 chosen_focal_length_def large_settings_def)
  have "(5, \<lparr>camera_settings = medium_settings, pixel_settings = example_pixel_settings\<rparr>)
          \<in> set (telescope_descriptions (src_file src))"
    by (simp add: d example_descriptions_def)
  from t [OF this] obtain td5 where
    5: "tel_descriptions (subarray_info src) 5 = Some td5"
       "description_camera_name (src_cameras src ! camera td5) = ''FlashCam''"
    by (auto simp: c g3 chosen_focal_length_def medium_settings_def)
  from 1 3 have "camera td1 = camera td3" by simp
  moreover from 1 5 have "camera td1 \<noteq> camera td5" by auto
  ultimately show ?thesis using i 1 3 5 by blast
qed

text \<open>
  C6. When the configuration requires a source that can seek backwards and the handle
  of the file that the decoder opened is neither a buffered reader nor a gzip file, the
  constructor raises \<^verbatim>\<open>IOError\<close>: it returns no source, so no event can be pulled,
  and nothing but the kind of the opened handle decides it.
\<close>

theorem back_seekable_stream_fails_at_open:
  assumes "SimTelFile ext (input_url cfg)
             (if allowed_tels cfg \<noteq> {} then Some (allowed_tels cfg) else None)
             (skip_calibration_events cfg) (\<not> back_seekable cfg) = Inr f"
    and "back_seekable cfg" and "is_stream f"
  shows "SimTelEventSource_init ext cfg gs = ([], Inl IOError) \<and>
         is_stream f = (filehandle f = OtherHandle)"
proof -
  have "is_stream f = (filehandle f = OtherHandle)"
    by (cases "filehandle f") (simp_all add: is_stream_def)
  with assms show ?thesis by (simp add: SimTelEventSource_init_def)
qed

theorem back_seekable_stream_fails_at_open_witness:
  "back_seekable seekable_config \<and>
   SimTelFile example_externals ''gamma.simtel.zst'' (Some {3, 5}) True False
     = Inr (example_file\<lparr>filehandle := OtherHandle\<rparr>) \<and>
   is_stream (example_file\<lparr>filehandle := OtherHandle\<rparr>) \<and>
   SimTelEventSource_init example_externals seekable_config None = ([], Inl IOError)"
proof -
  have b: "back_seekable seekable_config" by (simp add: seekable_config_def)
  have o: "SimTelFile example_externals (input_url seekable_config)
             (if allowed_tels seekable_config \<noteq> {} then Some (allowed_tels seekable_config) else None)
             (skip_calibration_events seekable_config) (\<not> back_seekable seekable_config)
           = Inr (example_file\<lparr>filehandle := OtherHandle\<rparr>)"
    by (simp add: seekable_config_def example_config_def example_externals_def)
  have s: "is_stream (example_file\<lparr>filehandle := OtherHandle\<rparr>)" by (simp add: is_stream_def)
  from back_seekable_stream_fails_at_open [OF o b s, of None] b o s show ?thesis
    by (simp add: seekable_config_def example_config_def)
qed


lemma describe_telescope_missing:
  "effective_focal_length (camera_settings td) = None \<Longrightarrow>
     describe_telescope ext effective hdr tid td b = (b, Some RuntimeError)"
  by (simp add: describe_telescope_def chosen_focal_length_def)

lemma describe_telescopes_missing:
  assumes "(tid, td) \<in> set tds" "effective_focal_length (camera_settings td) = None"
  shows "\<exists>e. snd (describe_telescopes ext effective hdr tds b) = Some e"
  using assms
proof (induction tds arbitrary: b)
  case Nil
  then show ?case by simp
next
  case (Cons x tds)
  obtain t0 d0 where x: "x = (t0, d0)" by (cases x)
  obtain b1 r1 where d: "describe_telescope ext effective hdr t0 d0 b = (b1, r1)"
    by (cases "describe_telescope ext effective hdr t0 d0 b")
  show ?case
  proof (cases r1)
    case (Some e)
    with x d show ?thesis by simp
  next
    case None
    with describe_telescope_missing [of d0 ext hdr t0 b] d
    have "effective_focal_length (camera_settings d0) \<noteq> None" by auto
    with Cons.prems x have "(tid, td) \<in> set tds" by auto
    from Cons.IH [OF this Cons.prems(2), of b1] x d None show ?thesis by simp
  qed
qed

lemma build_camera_Inr:
  "pixel_shape cs \<noteq> [] \<Longrightarrow> \<exists>r. build_camera ext cs ps telescope = Inr r"
  by (cases "pixel_shape cs") (auto simp: build_camera_def Let_def split: option.splits prod.splits)

lemma describe_telescope_well_formed:
  assumes "pixel_shape (camera_settings td) \<noteq> []" "header_position hdr tid = Inr pos"
  shows "snd (describe_telescope ext choice hdr tid td b) = None \<or>
         snd (describe_telescope ext choice hdr tid td b) = Some RuntimeError"
proof (cases "chosen_focal_length choice (camera_settings td)")
  case (Inl e)
  then have "e = RuntimeError"
    by (auto simp: chosen_focal_length_def split: if_splits option.splits)
  with Inl show ?thesis by (simp add: describe_telescope_def)
next
  case (Inr flen)
  let ?tel = "guess_or_unknown ext (n_pixels (camera_settings td)) flen"
  from build_camera_Inr [OF assms(1)] obtain r where
    "build_camera ext (camera_settings td) (pixel_settings td) ?tel = Inr r" by blast
  then have "\<exists>p. cached_camera ext (camera_settings td) (pixel_settings td) ?tel b = Inr p"
    by (cases r; cases "camera_cache b (camera_name ?tel)") (simp_all add: cached_camera_def)
  then obtain p where "cached_camera ext (camera_settings td) (pixel_settings td) ?tel b = Inr p"
    by blast
  with Inr assms(2) show ?thesis
    by (cases p) (simp add: describe_telescope_def Let_def)
qed

lemma describe_telescopes_well_formed:
  assumes "\<forall>(t, d)\<in>set tds. pixel_shape (camera_settings d) \<noteq> [] \<and>
             (\<exists>pos. header_position hdr t = Inr pos)"
  shows "snd (describe_telescopes ext choice hdr tds b) = None \<or>
         snd (describe_telescopes ext choice hdr tds b) = Some RuntimeError"
  using assms
proof (induction tds arbitrary: b)
  case Nil
  then show ?case by simp
next
  case (Cons x tds)
  obtain t0 d0 where x: "x = (t0, d0)" by (cases x)
  obtain b1 r1 where d: "describe_telescope ext choice hdr t0 d0 b = (b1, r1)"
    by (cases "describe_telescope ext choice hdr t0 d0 b")
  from Cons.prems x obtain pos where "pixel_shape (camera_settings d0) \<noteq> []"
    "header_position hdr t0 = Inr pos" by auto
  from describe_telescope_well_formed [OF this, of ext choice b] d
  have r1: "r1 = None \<or> r1 = Some RuntimeError" by simp
  from Cons.prems have "\<forall>(t, d)\<in>set tds. pixel_shape (camera_settings d) \<noteq> [] \<and>
             (\<exists>pos. header_position hdr t = Inr pos)" by simp
  from Cons.IH [OF this, of b1] r1 x d show ?case by auto
qed

text \<open>
  C5. When the effective focal length is requested and the description of some
  telescope has none, \<open>prepare_subarray_info\<close> returns an exception and no subarray, and
  so does the constructor of a source whose file was opened: the failure ends the
  construction, and no source exists that could be iterated. When every described
  telescope has a pixel shape and a position in the header (no other statement of the
  loop can raise), the exception is the \<^verbatim>\<open>RuntimeError\<close> of line 228, the failure
  that the specification lists as its configuration error.
\<close>

theorem missing_effective_focal_length_is_fatal:
  assumes "(tid, td) \<in> set tds" and "effective_focal_length (camera_settings td) = None"
  shows "(\<exists>e. snd (prepare_subarray_info ext effective self tds hdr) = Inl e) \<and>
         (focal_length_choice cfg = effective \<and>
          SimTelFile ext (input_url cfg)
             (if allowed_tels cfg \<noteq> {} then Some (allowed_tels cfg) else None)
             (skip_calibration_events cfg) (\<not> back_seekable cfg) = Inr f \<and>
          telescope_descriptions f = tds \<and> header f = hdr \<longrightarrow>
            (\<exists>e. snd (SimTelEventSource_init ext cfg gs) = Inl e)) \<and>
         ((\<forall>(t, d)\<in>set tds. pixel_shape (camera_settings d) \<noteq> [] \<and>
             (\<exists>pos. header_position hdr t = Inr pos)) \<longrightarrow>
            snd (prepare_subarray_info ext effective self tds hdr) = Inl RuntimeError \<and>
            (focal_length_choice cfg = effective \<and>
             SimTelFile ext (input_url cfg)
                (if allowed_tels cfg \<noteq> {} then Some (allowed_tels cfg) else None)
                (skip_calibration_events cfg) (\<not> back_seekable cfg) = Inr f \<and>
             telescope_descriptions f = tds \<and> header f = hdr \<and>
             \<not> (back_seekable cfg \<and> is_stream f) \<longrightarrow>
               snd (SimTelEventSource_init ext cfg gs) = Inl RuntimeError))"
proof -
  have p: "snd (prepare_subarray_info ext effective s tds hdr) =
             (case snd (describe_telescopes ext effective hdr tds
                    (s\<lparr>b_tel_descriptions := Map.empty, b_tel_positions := Map.empty\<rparr>)) of
                Some e \<Rightarrow> Inl e
              | None \<Rightarrow> Inr \<lparr>subarray_name = ''MonteCarloArray'',
                   tel_positions = b_tel_positions (fst (describe_telescopes ext effective hdr tds
                    (s\<lparr>b_tel_descriptions := Map.empty, b_tel_positions := Map.empty\<rparr>))),
                   tel_descriptions = b_tel_descriptions (fst (describe_telescopes ext effective hdr tds
                    (s\<lparr>b_tel_descriptions := Map.empty, b_tel_positions := Map.empty\<rparr>)))\<rparr>)" for s
    by (simp add: prepare_subarray_info_def split: prod.splits option.splits)
  have 1: "\<exists>e. snd (prepare_subarray_info ext effective s tds hdr) = Inl e" for s
    using describe_telescopes_missing [OF assms, of ext hdr
        "s\<lparr>b_tel_descriptions := Map.empty, b_tel_positions := Map.empty\<rparr>"]
    by (auto simp: p)
  have i: "snd (SimTelEventSource_init ext cfg gs) =
             (if back_seekable cfg \<and> is_stream f then Inl IOError
              else case snd (prepare_subarray_info ext effective new_builder tds hdr) of
                     Inl e \<Rightarrow> Inl e | Inr sub \<Rightarrow> snd (SimTelEventSource_init ext cfg gs))"
    if "focal_length_choice cfg = effective"
      "SimTelFile ext (input_url cfg)
             (if allowed_tels cfg \<noteq> {} then Some (allowed_tels cfg) else None)
             (skip_calibration_events cfg) (\<not> back_seekable cfg) = Inr f"
      "telescope_descriptions f = tds" "header f = hdr"
    using that by (simp add: SimTelEventSource_init_def split: prod.splits sum.splits)
  have 2: "\<exists>e. snd (SimTelEventSource_init ext cfg gs) = Inl e"
    if "focal_length_choice cfg = effective \<and>
      SimTelFile ext (input_url cfg)
             (if allowed_tels cfg \<noteq> {} then Some (allowed_tels cfg) else None)
             (skip_calibration_events cfg) (\<not> back_seekable cfg) = Inr f \<and>
      telescope_descriptions f = tds \<and> header f = hdr"
  proof -
    from 1 [of new_builder] obtain e where
      "snd (prepare_subarray_info ext effective new_builder tds hdr) = Inl e" by blast
    with i that show ?thesis by (cases "back_seekable cfg \<and> is_stream f") auto
  qed
  have 3: "snd (prepare_subarray_info ext effective s tds hdr) = Inl RuntimeError"
    if "\<forall>(t, d)\<in>set tds. pixel_shape (camera_settings d) \<noteq> [] \<and>
             (\<exists>pos. header_position hdr t = Inr pos)" for s
    using describe_telescopes_well_formed [OF that, of ext effective
        "s\<lparr>b_tel_descriptions := Map.empty, b_tel_positions := Map.empty\<rparr>"]
      1 [of s]
    by (auto simp: p)
  have 4: "snd (SimTelEventSource_init ext cfg gs) = Inl RuntimeError"
    if w: "\<forall>(t, d)\<in>set tds. pixel_shape (camera_settings d) \<noteq> [] \<and>
             (\<exists>pos. header_position hdr t = Inr pos)"
      and c: "focal_length_choice cfg = effective \<and>
      SimTelFile ext (input_url cfg)
             (if allowed_tels cfg \<noteq> {} then Some (allowed_tels cfg) else None)
             (skip_calibration_events cfg) (\<not> back_seekable cfg) = Inr f \<and>
      telescope_descriptions f = tds \<and> header f = hdr \<and>
      \<not> (back_seekable cfg \<and> is_stream f)"
    using i 3 [OF w, of new_builder] c by simp
  show ?thesis
  proof (intro conjI impI)
    show "\<exists>e. snd (prepare_subarray_info ext effective self tds hdr) = Inl e" by (rule 1)
  next
    assume "focal_length_choice cfg = effective \<and>
          SimTelFile ext (input_url cfg)
             (if allowed_tels cfg \<noteq> {} then Some (allowed_tels cfg) else None)
             (skip_calibration_events cfg) (\<not> back_seekable cfg) = Inr f \<and>
          telescope_descriptions f = tds \<and> header f = hdr"
    then show "\<exists>e. snd (SimTelEventSource_init ext cfg gs) = Inl e" by (rule 2)
  next
    assume "\<forall>(t, d)\<in>set tds. pixel_shape (camera_settings d) \<noteq> [] \<and>
             (\<exists>pos. header_position hdr t = Inr pos)"
    then show "snd (prepare_subarray_info ext effective self tds hdr) = Inl RuntimeError"
      by (rule 3)
  next
    assume w: "\<forall>(t, d)\<in>set tds. pixel_shape (camera_settings d) \<noteq> [] \<and>
             (\<exists>pos. header_position hdr t = Inr pos)"
      and c: "focal_length_choice cfg = effective \<and>
             SimTelFile ext (input_url cfg)
                (if allowed_tels cfg \<noteq> {} then Some (allowed_tels cfg) else None)
                (skip_calibration_events cfg) (\<not> back_seekable cfg) = Inr f \<and>
             telescope_descriptions f = tds \<and> header f = hdr \<and>
             \<not> (back_seekable cfg \<and> is_stream f)"
    from 4 [OF w c] show "snd (SimTelEventSource_init ext cfg gs) = Inl RuntimeError" .
  qed
qed

theorem missing_effective_focal_length_is_fatal_witness:
  "(5, \<lparr>camera_settings = medium_settings, pixel_settings = example_pixel_settings\<rparr>)
     \<in> set example_descriptions \<and>
   effective_focal_length medium_settings = None \<and>
   focal_length_choice effective_config = effective \<and>
   snd (prepare_subarray_info example_externals effective new_builder example_descriptions
          example_header) = Inl RuntimeError \<and>
   snd (SimTelEventSource_init example_externals effective_config None) = Inl RuntimeError"
proof -
  have m: "(5, \<lparr>camera_settings = medium_settings, pixel_settings = example_pixel_settings\<rparr>)
     \<in> set example_descriptions"
    by (simp add: example_descriptions_def)
  have l: "effective_focal_length (camera_settings
             \<lparr>camera_settings = medium_settings, pixel_settings = example_pixel_settings\<rparr>) = None"
    by (simp add: medium_settings_def)
  have w: "\<forall>(t, d)\<in>set example_descriptions. pixel_shape (camera_settings d) \<noteq> [] \<and>
             (\<exists>pos. header_position example_header t = Inr pos)"
    by (simp add: example_descriptions_def large_settings_def medium_settings_def
        header_position_def example_header_def)
  have c: "focal_length_choice effective_config = effective \<and>
           SimTelFile example_externals (input_url effective_config)
              (if allowed_tels effective_config \<noteq> {} then Some (allowed_tels effective_config)
               else None)
              (skip_calibration_events effective_config) (\<not> back_seekable effective_config)
             = Inr example_file \<and>
           telescope_descriptions example_file = example_descriptions \<and>
           header example_file = example_header \<and>
           \<not> (back_seekable effective_config \<and> is_stream example_file)"
    by (simp add: effective_config_def example_config_def example_externals_def example_file_def)
  note t = missing_effective_focal_length_is_fatal [OF m l, of example_externals new_builder
      example_header effective_config example_file None, THEN conjunct2, THEN conjunct2,
      THEN mp, OF w]
  from t c m l show ?thesis by simp
qed

end
